theory Spec2Isabelle
  imports Complex_Main
begin

section \<open>JavaScript numbers and objects\<close>

text \<open>
  The pages are React components (\<^verbatim>\<open>src/src/app.jsx\<close>, two variants in one file, and
  \<^verbatim>\<open>src/vero.jsx\<close>). Their logic is arithmetic on JavaScript numbers held in mutable
  objects. A JavaScript number is an IEEE 754 double: every arithmetic operation and every
  decimal literal is rounded to the nearest double, ties to the even mantissa.

  A finite double is modelled by the real it denotes. \<open>pow2 e\<close> is \<open>2\<^sup>e\<close>, \<open>rne\<close> rounds a
  real to the nearest integer (ties to even), \<open>exponent x\<close> is the binary exponent of \<open>x\<close>
  cut to the range -1022 .. 1023 of the doubles (so that numbers below \<open>2\<^sup>-\<^sup>1\<^sup>0\<^sup>2\<^sup>2\<close> get the
  spacing of the subnormals), and \<open>fl x\<close> rounds \<open>x\<close> to a multiple of the spacing
  \<open>2\<^bsup>exponent x - 52\<^esup>\<close>: a result of magnitude \<open>2\<^sup>1\<^sup>0\<^sup>2\<^sup>4\<close> or more overflows.
\<close>

definition pow2 :: "int \<Rightarrow> real" where
  "pow2 e = (if 0 \<le> e then 2 ^ nat e else 1 / 2 ^ nat (- e))"

definition rne :: "real \<Rightarrow> int" where
  "rne r = (let f = \<lfloor>r\<rfloor>; d = r - of_int f
            in if d < 1/2 then f else if 1/2 < d then f + 1
               else if even f then f else f + 1)"

fun exp_search :: "nat \<Rightarrow> int \<Rightarrow> real \<Rightarrow> int" where
  "exp_search 0 e x = e"
| "exp_search (Suc n) e x = (if pow2 e \<le> x then e else exp_search n (e - 1) x)"

definition exponent :: "real \<Rightarrow> int" where
  "exponent x = exp_search 2045 1023 \<bar>x\<bar>"

text \<open>
  \<open>NonFinite\<close> stands for every value that is not a finite number: \<open>NaN\<close>, the infinities
  (an overflow, a division by zero), and \<open>undefined\<close> read from a missing property
  (arithmetic coerces it to \<open>NaN\<close>). The operators \<open>+\<close>, \<open>-\<close> and \<open>*\<close> never turn such an
  operand back into a finite number, so one constructor is enough for the code modelled
  here. The sign of a zero is not modelled.
\<close>

datatype jsnum = Fin real | NonFinite

definition fl :: "real \<Rightarrow> jsnum" where
  "fl x = (let q = pow2 (exponent x - 52); y = of_int (rne (x / q)) * q
           in if \<bar>y\<bar> < pow2 1024 then Fin y else NonFinite)"

text \<open>A decimal literal of the source denotes the double nearest to it.\<close>

definition lit :: "real \<Rightarrow> jsnum" where
  "lit x = fl x"

fun js_add :: "jsnum \<Rightarrow> jsnum \<Rightarrow> jsnum" where
  "js_add (Fin a) (Fin b) = fl (a + b)"
| "js_add _ _ = NonFinite"

fun js_sub :: "jsnum \<Rightarrow> jsnum \<Rightarrow> jsnum" where
  "js_sub (Fin a) (Fin b) = fl (a - b)"
| "js_sub _ _ = NonFinite"

fun js_mul :: "jsnum \<Rightarrow> jsnum \<Rightarrow> jsnum" where
  "js_mul (Fin a) (Fin b) = fl (a * b)"
| "js_mul _ _ = NonFinite"

text \<open>Negation is exact.\<close>

fun js_neg :: "jsnum \<Rightarrow> jsnum" where
  "js_neg (Fin a) = Fin (- a)"
| "js_neg NonFinite = NonFinite"

text \<open>Division of two finite numbers: a zero divisor gives an infinity or \<open>NaN\<close>.\<close>

definition js_div :: "real \<Rightarrow> real \<Rightarrow> jsnum" where
  "js_div a b = (if b = 0 then NonFinite else fl (a / b))"

text \<open>
  \<^verbatim>\<open>a > b\<close> is false when an operand is \<open>NaN\<close>. (An infinite left operand would compare
  true; the code compares only finite numbers.)
\<close>

fun js_gt :: "jsnum \<Rightarrow> jsnum \<Rightarrow> bool" where
  "js_gt (Fin a) (Fin b) = (b < a)"
| "js_gt _ _ = False"

text \<open>
  The two constants of the rounding error: half the relative spacing of the doubles,
  \<open>2\<^sup>-\<^sup>5\<^sup>3\<close>, and half the spacing of the subnormals, \<open>2\<^sup>-\<^sup>1\<^sup>0\<^sup>7\<^sup>5\<close>.
\<close>

definition unit_roundoff :: real where
  "unit_roundoff = pow2 (- 53)"

definition tiny :: real where
  "tiny = pow2 (- 1075)"

text \<open>
  \<^verbatim>\<open>THREE.MathUtils.lerp(x, y, t)\<close> of three.js is \<^verbatim>\<open>(1 - t) * x + t * y\<close>.
\<close>

definition lerp :: "jsnum \<Rightarrow> jsnum \<Rightarrow> jsnum \<Rightarrow> jsnum" where
  "lerp x y t = js_add (js_mul (js_sub (Fin 1) t) x) (js_mul t y)"

text \<open>
  \<^verbatim>\<open>Vector3.lerp(v, alpha)\<close> of three.js adds \<^verbatim>\<open>(v.x - this.x) * alpha\<close> to each
  component; \<^verbatim>\<open>setScalar(s)\<close> sets the three components to \<open>s\<close>.
\<close>

datatype vec3 = Vector3 jsnum jsnum jsnum

fun vec3_lerp :: "vec3 \<Rightarrow> vec3 \<Rightarrow> jsnum \<Rightarrow> vec3" where
  "vec3_lerp (Vector3 x y z) (Vector3 vx vy vz) alpha =
     Vector3 (js_add x (js_mul (js_sub vx x) alpha))
             (js_add y (js_mul (js_sub vy y) alpha))
             (js_add z (js_mul (js_sub vz z) alpha))"

definition setScalar :: "jsnum \<Rightarrow> vec3" where
  "setScalar s = Vector3 s s s"

text \<open>The fields of a three.js object that the frame callbacks read or write.\<close>

record object3D =
  scale3 :: vec3
  rotation_x :: jsnum
  rotation_y :: jsnum
  position_x :: jsnum
  position_y :: jsnum

record material =
  mat_distortion :: jsnum
  mat_chromaticAberration :: jsnum
  mat_roughness :: jsnum
  mat_color :: "string option"

record mouse =
  mouse_x :: jsnum
  mouse_y :: jsnum

section \<open>The section configurations of the lens variant\<close>

text \<open>
  A configuration object (\<^verbatim>\<open>SECTION_CONFIGS.hero\<close> and the like, and the animator's
  \<^verbatim>\<open>currentConfig.current\<close>). A colour is a string; \<open>None\<close> is \<open>undefined\<close>.
\<close>

record config =
  color :: "string option"
  distortion :: jsnum
  chromaticAberration :: jsnum
  roughness :: jsnum
  scale :: jsnum
  speed :: jsnum

text \<open>
  Objects are mutable and shared by reference, so they live in a store: an address is a
  natural number and the store maps each address to the object's fields.
\<close>

type_synonym addr = nat

definition hero_config :: config where
  "hero_config = \<lparr>color = Some ''#ffffff'', distortion = lit (4/10),
     chromaticAberration = lit (1/10), roughness = lit (5/100), scale = lit (35/10),
     speed = Fin 1\<rparr>"

definition work_config :: config where
  "work_config = \<lparr>color = Some ''#ffffff'', distortion = lit 0,
     chromaticAberration = lit (15/10), roughness = lit 0, scale = lit (45/10),
     speed = lit (2/10)\<rparr>"

definition agency_config :: config where
  "agency_config = \<lparr>color = Some ''#C67C4E'', distortion = lit (15/10),
     chromaticAberration = lit (2/10), roughness = lit (2/10), scale = lit 3,
     speed = lit 3\<rparr>"

definition contact_config :: config where
  "contact_config = \<lparr>color = Some ''#C67C4E'', distortion = lit (2/10),
     chromaticAberration = lit (5/10), roughness = lit (1/10), scale = lit 2,
     speed = lit (5/10)\<rparr>"

text \<open>An object without any of the six properties: every read gives \<open>undefined\<close>.\<close>

definition no_fields :: config where
  "no_fields = \<lparr>color = None, distortion = NonFinite, chromaticAberration = NonFinite,
     roughness = NonFinite, scale = NonFinite, speed = NonFinite\<rparr>"

text \<open>
  The own properties of the object literal \<^verbatim>\<open>SECTION_CONFIGS\<close>: four keys, each holding
  a reference to a configuration object, and the store as the module's evaluation leaves it.
\<close>

definition SECTION_CONFIGS :: "string \<Rightarrow> addr option" where
  "SECTION_CONFIGS k =
     (if k = ''hero'' then Some 0
      else if k = ''work'' then Some 1
      else if k = ''agency'' then Some 2
      else if k = ''contact'' then Some 3
      else None)"

definition SECTION_CONFIGS_objects :: "addr \<Rightarrow> config" where
  "SECTION_CONFIGS_objects a =
     (if a = 0 then hero_config
      else if a = 1 then work_config
      else if a = 2 then agency_config
      else if a = 3 then contact_config
      else no_fields)"

text \<open>
  \<^verbatim>\<open>SECTION_CONFIGS[activeSection]\<close> is a property read on a plain object: a key that is
  not an own property is looked up on \<^verbatim>\<open>Object.prototype\<close>, whose properties are
  functions or objects (truthy values without configuration fields).
\<close>

definition Object_prototype_keys :: "string list" where
  "Object_prototype_keys = [''constructor'', ''__proto__'', ''hasOwnProperty'',
     ''isPrototypeOf'', ''propertyIsEnumerable'', ''toLocaleString'', ''toString'',
     ''valueOf'', ''__defineGetter__'', ''__defineSetter__'', ''__lookupGetter__'',
     ''__lookupSetter__'']"

datatype jsval = Undefined | ConfigAt addr | Inherited

definition SECTION_CONFIGS_get :: "string \<Rightarrow> jsval" where
  "SECTION_CONFIGS_get k =
     (case SECTION_CONFIGS k of
        Some a \<Rightarrow> ConfigAt a
      | None \<Rightarrow> if k \<in> set Object_prototype_keys then Inherited else Undefined)"

text \<open>\<^verbatim>\<open>a || b\<close>: \<open>undefined\<close> is falsy, every object is truthy.\<close>

definition js_or :: "jsval \<Rightarrow> jsval \<Rightarrow> jsval" where
  "js_or a b = (if a = Undefined then b else a)"

datatype js_error = TypeError

text \<open>Reading the properties of a value; a property read on \<open>undefined\<close> throws.\<close>

fun fields_of :: "(addr \<Rightarrow> config) \<Rightarrow> jsval \<Rightarrow> js_error + config" where
  "fields_of h Undefined = Inl TypeError"
| "fields_of h (ConfigAt a) = Inr (h a)"
| "fields_of h Inherited = Inr no_fields"

text \<open>
  \<^verbatim>\<open>const target = SECTION_CONFIGS[activeSection] || SECTION_CONFIGS.hero\<close>.
\<close>

definition target :: "string \<Rightarrow> jsval" where
  "target activeSection =
     js_or (SECTION_CONFIGS_get activeSection) (SECTION_CONFIGS_get ''hero'')"

section \<open>The lens animator (\<^verbatim>\<open>VeroLens\<close> of the first variant)\<close>

text \<open>
  The state the component owns: the store of configuration objects, the two refs
  (\<open>None\<close> is a ref whose \<^verbatim>\<open>current\<close> is null) and the address of the object behind
  \<^verbatim>\<open>currentConfig.current\<close>.
\<close>

record lens =
  heap :: "addr \<Rightarrow> config"
  fresh :: addr
  mesh :: "object3D option"
  materialRef :: "material option"
  currentConfig :: addr

text \<open>The store after the module's top level has run: the four configuration objects.\<close>

definition module_heap :: "addr \<Rightarrow> config" where
  "module_heap = SECTION_CONFIGS_objects"

text \<open>
  Mounting: \<^verbatim>\<open>useRef({ ...SECTION_CONFIGS.hero })\<close> allocates a new object (at the first
  free address, 4) with a copy of the fields of the hero object (at address 0); both refs
  start out null.
\<close>

definition VeroLens_mount :: lens where
  "VeroLens_mount =
     \<lparr>heap = module_heap(4 := module_heap 0), fresh = 5, mesh = None,
      materialRef = None, currentConfig = 4\<rparr>"

text \<open>
  React attaches the refs when it commits the rendered \<^verbatim>\<open>mesh\<close> and its material.
\<close>

definition attach :: "object3D \<Rightarrow> material \<Rightarrow> lens \<Rightarrow> lens" where
  "attach m mat w = w\<lparr>mesh := Some m, materialRef := Some mat\<rparr>"

text \<open>
  A new three.js object has unit scale and zero rotation and position. The four material
  fields start at the library's defaults, which nothing below depends on (the first frame
  with attached refs overwrites them); zero and white stand for them.
\<close>

definition new_Object3D :: object3D where
  "new_Object3D = \<lparr>scale3 = Vector3 (Fin 1) (Fin 1) (Fin 1), rotation_x = Fin 0,
     rotation_y = Fin 0, position_x = Fin 0, position_y = Fin 0\<rparr>"

definition new_material :: material where
  "new_material = \<lparr>mat_distortion = Fin 0, mat_chromaticAberration = Fin 0,
     mat_roughness = Fin 0, mat_color = Some ''#ffffff''\<rparr>"

text \<open>The object behind \<^verbatim>\<open>currentConfig.current\<close>.\<close>

definition current :: "lens \<Rightarrow> config" where
  "current w = heap w (currentConfig w)"

text \<open>\<^verbatim>\<open>const lerpFactor = 2.5 * delta\<close>.\<close>

definition lerpFactor :: "real \<Rightarrow> jsnum" where
  "lerpFactor delta = js_mul (lit (25/10)) (Fin delta)"


text \<open>
  The \<^verbatim>\<open>useFrame\<close> callback of \<^verbatim>\<open>VeroLens\<close>. Each assignment to a field of the current
  configuration reads that field of the current and of the target object before it writes,
  and writes no other field, so the five assignments are one record update.
\<close>

definition useFrame_VeroLens ::
  "string \<Rightarrow> mouse \<Rightarrow> real \<Rightarrow> real \<Rightarrow> lens \<Rightarrow> js_error + lens" where
  "useFrame_VeroLens activeSection ms viewport_width delta w =
     (case (mesh w, materialRef w) of
        (Some m, Some mat) \<Rightarrow>
          (case fields_of (heap w) (target activeSection) of
             Inl e \<Rightarrow> Inl e
           | Inr t \<Rightarrow>
               let cur = current w;
                   cur' = \<lparr>color = color t,
                           distortion = lerp (distortion cur) (distortion t) (lerpFactor delta),
                           chromaticAberration =
                             lerp (chromaticAberration cur) (chromaticAberration t) (lerpFactor delta),
                           roughness = lerp (roughness cur) (roughness t) (lerpFactor delta),
                           scale = lerp (scale cur) (scale t) (lerpFactor delta),
                           speed = lerp (speed cur) (speed t) (lerpFactor delta)\<rparr>;
                   mat' = mat\<lparr>mat_distortion := distortion cur',
                              mat_chromaticAberration := chromaticAberration cur',
                              mat_roughness := roughness cur',
                              mat_color := color cur'\<rparr>;
                   viewportRatio = (if viewport_width < 7 then lit (6/10) else Fin 1);
                   rx1 = js_add (rotation_x m)
                           (js_mul (js_mul (Fin delta) (lit (2/10))) (speed cur'));
                   ry1 = js_add (rotation_y m)
                           (js_mul (js_mul (Fin delta) (lit (3/10))) (speed cur'));
                   rx2 = js_add rx1
                           (js_mul (js_sub (js_mul (mouse_y ms) (lit (5/10))) rx1) (lit (1/10)));
                   ry2 = js_add ry1
                           (js_mul (js_sub (js_mul (mouse_x ms) (lit (5/10))) ry1) (lit (1/10)));
                   m' = m\<lparr>scale3 := setScalar (js_mul (scale cur') viewportRatio),
                          rotation_x := rx2, rotation_y := ry2\<rparr>
               in Inr (w\<lparr>heap := (heap w)(currentConfig w := cur'),
                          mesh := Some m', materialRef := Some mat'\<rparr>))
      | _ \<Rightarrow> Inr w)"

text \<open>The numeric fields of a configuration, by name.\<close>

datatype field = Distortion | ChromaticAberration | Roughness | Scale | Speed

fun numeric :: "field \<Rightarrow> config \<Rightarrow> jsnum" where
  "numeric Distortion c = distortion c"
| "numeric ChromaticAberration c = chromaticAberration c"
| "numeric Roughness c = roughness c"
| "numeric Scale c = scale c"
| "numeric Speed c = speed c"

text \<open>
  Unmounting clears the refs. The frames of a fixed section and frame time, one pair of
  pointer position and viewport width per frame, stop at the first exception.
\<close>

definition detach :: "lens \<Rightarrow> lens" where
  "detach w = w\<lparr>mesh := None, materialRef := None\<rparr>"

fun run_frames :: "string \<Rightarrow> real \<Rightarrow> (mouse \<times> real) list \<Rightarrow> lens \<Rightarrow> js_error + lens" where
  "run_frames activeSection delta [] w = Inr w"
| "run_frames activeSection delta ((ms, viewport_width) # rest) w =
     (case useFrame_VeroLens activeSection ms viewport_width delta w of
        Inl e \<Rightarrow> Inl e
      | Inr w' \<Rightarrow> run_frames activeSection delta rest w')"

text \<open>
  The states the component can be in: mounted, then any sequence of ref attachments,
  detachments and frames (with any section identifier, pointer, viewport and frame time).
\<close>

inductive reachable :: "lens \<Rightarrow> bool" where
  mounted: "reachable VeroLens_mount"
| attached: "reachable w \<Longrightarrow> reachable (attach m mat w)"
| detached: "reachable w \<Longrightarrow> reachable (detach w)"
| frame: "reachable w \<Longrightarrow> useFrame_VeroLens activeSection ms viewport_width delta w = Inr w'
          \<Longrightarrow> reachable w'"

text \<open>
  What the convergence of the animator needs of a state: the four section objects hold
  their configured values and the current configuration is an object of its own.
\<close>

definition sections_intact :: "lens \<Rightarrow> bool" where
  "sections_intact w \<longleftrightarrow>
     heap w 0 = hero_config \<and> heap w 1 = work_config \<and> heap w 2 = agency_config \<and>
     heap w 3 = contact_config \<and> 4 \<le> currentConfig w"

text \<open>A configuration whose numeric fields are finite numbers of magnitude at most \<open>M\<close>.\<close>

fun num_within :: "real \<Rightarrow> jsnum \<Rightarrow> bool" where
  "num_within M (Fin x) = (\<bar>x\<bar> \<le> M)"
| "num_within M NonFinite = False"

definition config_within :: "real \<Rightarrow> config \<Rightarrow> bool" where
  "config_within M c \<longleftrightarrow>
     num_within M (distortion c) \<and> num_within M (chromaticAberration c) \<and>
     num_within M (roughness c) \<and> num_within M (scale c) \<and> num_within M (speed c)"

text \<open>
  The easing step in exact arithmetic is \<open>current + (target - current) * 2.5 * dt\<close>. The
  code's \<open>lerp\<close> rounds five times (the factor, one minus the factor, two products, the
  sum); \<open>rounding_slack dt M\<close> bounds the distance of its result from the exact step for
  operands of magnitude at most \<open>M\<close>. Iterated with the contraction factor
  \<open>|1 - 2.5 * dt|\<close>, the slack of each frame adds up to at most \<open>tolerance_floor dt M\<close>.
\<close>

definition rounding_slack :: "real \<Rightarrow> real \<Rightarrow> real" where
  "rounding_slack dt M =
     (19 * unit_roundoff * (1 + \<bar>5/2 * dt\<bar>) + 3 * tiny) * M + 4 * tiny"

definition tolerance_floor :: "real \<Rightarrow> real \<Rightarrow> real" where
  "tolerance_floor dt M = rounding_slack dt M / (1 - \<bar>1 - 5/2 * dt\<bar>)"

text \<open>
  \<^verbatim>\<open>Vector3.lerp\<close> with the factor \<open>4 * dt\<close> rounds four times (the factor, the
  difference, the product, the sum); \<open>scale_slack dt M\<close> bounds the distance of a component
  of its result from the exact \<open>x + (v - x) * 4 * dt\<close> for operands of magnitude at most \<open>M\<close>.
\<close>

definition scale_slack :: "real \<Rightarrow> real \<Rightarrow> real" where
  "scale_slack dt M =
     (20 * unit_roundoff * M + 4 * tiny) * (1 + \<bar>4 * dt\<bar>) + 2 * tiny * M + 3 * tiny"

text \<open>
  Frame times as the clock delivers them, as doubles: the doubles nearest to 1/60 (a frame
  at 60 Hz), to 0.1 and to 0.8.
\<close>

definition sixtieth :: real where
  "sixtieth = 4803839602528529 / 288230376151711744"

definition tenth :: real where
  "tenth = 3602879701896397 / 36028797018963968"

definition four_fifths :: real where
  "four_fifths = 3602879701896397 / 4503599627370496"

text \<open>The pointer before the first \<^verbatim>\<open>mousemove\<close>: \<^verbatim>\<open>useState({ x: 0, y: 0 })\<close>.\<close>

definition initial_mouse :: mouse where
  "initial_mouse = \<lparr>mouse_x = Fin 0, mouse_y = Fin 0\<rparr>"

section \<open>The pointer (\<^verbatim>\<open>updateMouse\<close>, the same in every variant)\<close>

record mouse_event =
  clientX :: real
  clientY :: real

record window =
  innerWidth :: real
  innerHeight :: real

definition updateMouse :: "window \<Rightarrow> mouse_event \<Rightarrow> mouse" where
  "updateMouse win e =
     \<lparr>mouse_x = js_sub (js_mul (js_div (clientX e) (innerWidth win)) (Fin 2)) (Fin 1),
      mouse_y = js_add (js_mul (js_neg (js_div (clientY e) (innerHeight win))) (Fin 2)) (Fin 1)\<rparr>"

section \<open>The shape morpher (\<^verbatim>\<open>MorphingShape\<close> of the second variant)\<close>

text \<open>
  The second \<^verbatim>\<open>SECTION_CONFIGS\<close>: a shape, a colour and the material settings
  (roughness, ior, chromaticAberration) of each section.
\<close>

record morph_section =
  shape :: string
  section_color :: string
  section_config :: "real \<times> real \<times> real"

definition SECTION_CONFIGS_morph :: "string \<Rightarrow> morph_section option" where
  "SECTION_CONFIGS_morph k =
     (if k = ''hero'' then
        Some \<lparr>shape = ''knot'', section_color = ''#ffffff'', section_config = (5/100, 15/10, 1/10)\<rparr>
      else if k = ''work'' then
        Some \<lparr>shape = ''prism'', section_color = ''#ffffff'', section_config = (0, 2, 15/10)\<rparr>
      else if k = ''agency'' then
        Some \<lparr>shape = ''capsule'', section_color = ''#C67C4E'', section_config = (2/10, 12/10, 2/10)\<rparr>
      else if k = ''contact'' then
        Some \<lparr>shape = ''orb'', section_color = ''#C67C4E'', section_config = (1/10, 15/10, 5/10)\<rparr>
      else None)"

text \<open>
  \<^verbatim>\<open>SECTION_CONFIGS[activeSection]?.shape\<close>: the shape of an own key; \<open>undefined\<close> for a
  missing key (through \<^verbatim>\<open>?.\<close>) and for a key inherited from \<^verbatim>\<open>Object.prototype\<close>
  (a function or object without a \<^verbatim>\<open>shape\<close> property). Then \<^verbatim>\<open>|| 'knot'\<close>, where
  \<open>undefined\<close> and the empty string are falsy.
\<close>

definition shape_of :: "string \<Rightarrow> string option" where
  "shape_of k = (case SECTION_CONFIGS_morph k of Some s \<Rightarrow> Some (shape s) | None \<Rightarrow> None)"

definition currentShape :: "string \<Rightarrow> string" where
  "currentShape activeSection =
     (case shape_of activeSection of
        Some s \<Rightarrow> if s = [] then ''knot'' else s
      | None \<Rightarrow> ''knot'')"

definition mobileRatio :: "real \<Rightarrow> jsnum" where
  "mobileRatio viewport_width = (if viewport_width < 7 then lit (6/10) else Fin 1)"

text \<open>
  The target scales that the four \<^verbatim>\<open>animateScale\<close> calls receive, in the order knot,
  prism, capsule, orb.
\<close>

definition targetScales :: "string \<Rightarrow> real \<Rightarrow> jsnum \<times> jsnum \<times> jsnum \<times> jsnum" where
  "targetScales activeSection viewport_width =
     (let cs = currentShape activeSection; r = mobileRatio viewport_width
      in (if cs = ''knot'' then js_mul (Fin 3) r else Fin 0,
          if cs = ''prism'' then js_mul (lit (35/10)) r else Fin 0,
          if cs = ''capsule'' then js_mul (lit (25/10)) r else Fin 0,
          if cs = ''orb'' then js_mul (lit (25/10)) r else Fin 0))"

text \<open>The group ref and the four mesh refs; \<open>None\<close> is a ref that is null.\<close>

record morph =
  group_ref :: "object3D option"
  knot :: "object3D option"
  prism :: "object3D option"
  capsule :: "object3D option"
  orb :: "object3D option"

definition animateScale :: "object3D option \<Rightarrow> jsnum \<Rightarrow> real \<Rightarrow> object3D option" where
  "animateScale ref targetScale delta =
     (case ref of
        None \<Rightarrow> None
      | Some obj \<Rightarrow>
          let obj1 = obj\<lparr>scale3 :=
                  vec3_lerp (scale3 obj) (Vector3 targetScale targetScale targetScale)
                    (js_mul (Fin delta) (Fin 4))\<rparr>
          in Some (if js_gt targetScale (lit (1/10))
                   then obj1\<lparr>rotation_x := js_add (rotation_x obj1) (js_mul (Fin delta) (lit (2/10))),
                             rotation_y := js_add (rotation_y obj1) (js_mul (Fin delta) (lit (2/10)))\<rparr>
                   else obj1))"

definition useFrame_MorphingShape :: "string \<Rightarrow> mouse \<Rightarrow> real \<Rightarrow> real \<Rightarrow> morph \<Rightarrow> morph" where
  "useFrame_MorphingShape activeSection ms viewport_width delta w =
     (case group_ref w of
        None \<Rightarrow> w
      | Some g \<Rightarrow>
          let g' = g\<lparr>rotation_x := js_add (rotation_x g) (js_mul (Fin delta) (lit (1/10))),
                     rotation_y := js_add (rotation_y g) (js_mul (Fin delta) (lit (15/100))),
                     position_x := lerp (position_x g)
                                     (js_add (js_mul (mouse_x ms) (lit (5/10))) (Fin 3))
                                     (lit (5/100)),
                     position_y := lerp (position_y g) (js_mul (mouse_y ms) (lit (5/10)))
                                     (lit (5/100))\<rparr>
          in (case targetScales activeSection viewport_width of
                (tk, tp, tc, tor) \<Rightarrow>
                  w\<lparr>group_ref := Some g',
                    knot := animateScale (knot w) tk delta,
                    prism := animateScale (prism w) tp delta,
                    capsule := animateScale (capsule w) tc delta,
                    orb := animateScale (orb w) tor delta\<rparr>))"

text \<open>
  The refs once React has committed the tree: the group at its \<^verbatim>\<open>position={[3, 0, 0]}\<close>
  and four new meshes.
\<close>

definition MorphingShape_mounted :: morph where
  "MorphingShape_mounted =
     \<lparr>group_ref = Some (new_Object3D\<lparr>position_x := Fin 3\<rparr>), knot = Some new_Object3D,
      prism = Some new_Object3D, capsule = Some new_Object3D, orb = Some new_Object3D\<rparr>"

text \<open>
  What \<^verbatim>\<open>MorphingShape\<close> returns: a group of four floating meshes, each with the glass
  material of its section. The props do not enter the tree.
\<close>

datatype node =
    Group "node list"
  | Float real real real "node list"
  | Mesh string string "real list" string

definition MorphingShape_render :: "string \<Rightarrow> mouse \<Rightarrow> node" where
  "MorphingShape_render activeSection ms =
     Group
      [Float 2 (5/10) (5/10) [Mesh ''knot'' ''torusKnotGeometry'' [1, 35/100, 128, 32] ''hero''],
       Float 3 1 (5/10) [Mesh ''prism'' ''Icosahedron'' [1, 0] ''work''],
       Float 2 (5/10) (5/10) [Mesh ''capsule'' ''Capsule'' [7/10, 2, 4, 16] ''agency''],
       Float (15/10) (2/10) 1 [Mesh ''orb'' ''Sphere'' [12/10, 32, 32] ''contact'']]"

text \<open>The refs of the meshes of a tree, in document order.\<close>

fun mesh_refs :: "node \<Rightarrow> string list" where
  "mesh_refs (Group ns) = concat (map mesh_refs ns)"
| "mesh_refs (Float s r f ns) = concat (map mesh_refs ns)"
| "mesh_refs (Mesh r g args sec) = [r]"

text \<open>The ref of a primitive, by its name.\<close>

definition primitive :: "string \<Rightarrow> morph \<Rightarrow> object3D option" where
  "primitive r w =
     (if r = ''knot'' then knot w else if r = ''prism'' then prism w
      else if r = ''capsule'' then capsule w else if r = ''orb'' then orb w else None)"

text \<open>
  The natural sizes as the specification lists them (knot 3, prism 3.5, capsule 2.5,
  orb 2.5), to be compared with \<open>targetScales\<close>, which is the source's computation.
\<close>

definition natural_size :: "string \<Rightarrow> real" where
  "natural_size r =
     (if r = ''knot'' then 3 else if r = ''prism'' then 35/10
      else if r = ''capsule'' then 25/10 else if r = ''orb'' then 25/10 else 0)"

section \<open>The error boundary\<close>

text \<open>
  Any value can be thrown. What \<^verbatim>\<open>render\<close> does with it depends on whether it is truthy
  and, if so, on what the call \<^verbatim>\<open>error.toString()\<close> does. An \<^verbatim>\<open>Error\<close> object has a name
  and a message, and \<^verbatim>\<open>Error.prototype.toString\<close> joins them with a colon; a non-empty
  string is its own \<^verbatim>\<open>toString\<close>. \<open>Falsy\<close> is a falsy value, with the text React renders
  for it as a child: nothing for \<open>null\<close>, \<open>undefined\<close>, \<open>false\<close> and the empty string,
  \<open>0\<close> or \<open>NaN\<close> for those numbers. \<open>Truthy\<close> is any other truthy value (a non-zero
  number, \<open>true\<close>, a symbol, an object), with the outcome of its \<^verbatim>\<open>toString\<close> call.
\<close>

datatype tostring =
    Returns string
  | ReturnsObject
  | ThrowsError
  | NotCallable

datatype thrown =
    ErrorObject string string
  | StringValue string
  | NullValue
  | UndefinedValue
  | Falsy string
  | Truthy tostring

definition Error_toString :: "string \<Rightarrow> string \<Rightarrow> string" where
  "Error_toString name msg =
     (if name = [] then msg else if msg = [] then name else name @ '': '' @ msg)"

datatype 'c element =
    Element string "(string \<times> string) list" "'c element list"
  | Text string
  | Nothing
  | Children 'c

text \<open>
  How \<^verbatim>\<open>render\<close> can fail: the call of a \<^verbatim>\<open>toString\<close> that is missing or not a function
  is a \<open>TypeError\<close>, a \<^verbatim>\<open>toString\<close> can throw itself, and React refuses an object as a
  child. Each of them leaves the boundary without output.
\<close>

datatype render_failure = ToStringTypeError | ToStringThrew | ObjectAsChild

text \<open>A string as a React child: the empty string renders nothing.\<close>

definition string_child :: "string \<Rightarrow> 'c element" where
  "string_child s = (if s = [] then Nothing else Text s)"

text \<open>
  The child \<^verbatim>\<open>{this.state.error && this.state.error.toString()}\<close>: a falsy value is
  the child itself; a truthy one is asked for its string.
\<close>

fun error_child :: "thrown \<Rightarrow> render_failure + 'c element" where
  "error_child (ErrorObject name msg) = Inr (string_child (Error_toString name msg))"
| "error_child (StringValue s) = Inr (string_child s)"
| "error_child NullValue = Inr Nothing"
| "error_child UndefinedValue = Inr Nothing"
| "error_child (Falsy s) = Inr (string_child s)"
| "error_child (Truthy (Returns s)) = Inr (string_child s)"
| "error_child (Truthy ReturnsObject) = Inl ObjectAsChild"
| "error_child (Truthy ThrowsError) = Inl ToStringThrew"
| "error_child (Truthy NotCallable) = Inl ToStringTypeError"

record boundary_state =
  hasError :: bool
  error :: thrown

text \<open>The constructor's state, and the state React derives when a descendant throws.\<close>

definition ErrorBoundary_initial :: boundary_state where
  "ErrorBoundary_initial = \<lparr>hasError = False, error = NullValue\<rparr>"

definition getDerivedStateFromError :: "thrown \<Rightarrow> boundary_state" where
  "getDerivedStateFromError e = \<lparr>hasError = True, error = e\<rparr>"

text \<open>\<^verbatim>\<open>render\<close> of the boundary in \<^verbatim>\<open>src/src/app.jsx\<close> (both variants alike).\<close>

definition ErrorBoundary_render :: "boundary_state \<Rightarrow> 'c \<Rightarrow> render_failure + 'c element" where
  "ErrorBoundary_render st children =
     (if hasError st then
        (case error_child (error st) of
           Inl failure \<Rightarrow> Inl failure
         | Inr child \<Rightarrow>
             Inr (Element ''div''
               [(''color'', ''#ff4444''), (''padding'', ''20px''), (''background'', ''#050505''),
                (''height'', ''100vh''), (''zIndex'', ''9999''), (''position'', ''relative'')]
               [Element ''h2'' [] [Text ''System Error''],
                Element ''pre'' [] [child]]))
      else Inr (Children children))"

text \<open>\<^verbatim>\<open>render\<close> of the boundary in \<^verbatim>\<open>src/vero.jsx\<close>.\<close>

definition ErrorBoundary_render_vero ::
  "boundary_state \<Rightarrow> 'c \<Rightarrow> render_failure + 'c element" where
  "ErrorBoundary_render_vero st children =
     (if hasError st then
        (case error_child (error st) of
           Inl failure \<Rightarrow> Inl failure
         | Inr child \<Rightarrow>
             Inr (Element ''div''
               [(''color'', ''red''), (''padding'', ''20px''), (''background'', ''black''),
                (''height'', ''100vh''), (''zIndex'', ''9999''), (''position'', ''relative'')]
               [Element ''h1'' [] [Text ''Something went wrong.''],
                Element ''pre'' [] [child]]))
      else Inr (Children children))"

text \<open>The text nodes of an element, in document order.\<close>

fun texts :: "'c element \<Rightarrow> string list" where
  "texts (Element tag style cs) = concat (map texts cs)"
| "texts (Text s) = [s]"
| "texts Nothing = []"
| "texts (Children c) = []"

section \<open>Facts about the model\<close>

subsection \<open>Rounding to the nearest double\<close>

lemma pow2_powi: "pow2 e = 2 powi e"
  by (simp add: pow2_def power_int_def field_simps)

lemma pow2_pos: "0 < pow2 e"
  by (simp add: pow2_powi)

lemma pow2_add: "pow2 (a + b) = pow2 a * pow2 b"
  by (simp add: pow2_powi power_int_add)

lemma pow2_mono: "a \<le> b \<Longrightarrow> pow2 a \<le> pow2 b"
  by (simp add: pow2_powi power_int_increasing)

lemma pow2_strict_mono: "a < b \<Longrightarrow> pow2 a < pow2 b"
  by (simp add: pow2_powi power_int_strict_increasing)

lemma pow2_Suc: "pow2 (e + 1) = 2 * pow2 e"
  using pow2_add [of e 1] by (simp add: pow2_def)

lemma pow2_powr: "pow2 e = 2 powr of_int e"
  by (simp add: pow2_powi powr_real_of_int')

lemma rne_floor: "\<lfloor>r\<rfloor> \<le> rne r"
  by (simp add: rne_def Let_def)

lemma rne_ceiling: "rne r \<le> \<lceil>r\<rceil>"
  unfolding rne_def Let_def by (auto simp: ceiling_altdef)

lemma rne_error: "\<bar>of_int (rne r) - r\<bar> \<le> 1/2"
  unfolding rne_def Let_def by (auto simp: abs_if) linarith+

lemma rne_unique:
  assumes "\<bar>r - of_int k\<bar> < 1/2 \<or> (\<bar>r - of_int k\<bar> = 1/2 \<and> even k)"
  shows "rne r = k"
proof (cases "of_int k \<le> r")
  case True
  with assms have "r < of_int k + 1" by (auto simp: abs_if split: if_splits)
  with True have f: "\<lfloor>r\<rfloor> = k" by linarith
  from True assms have "r - of_int k < 1/2 \<or> (r - of_int k = 1/2 \<and> even k)"
    by (auto simp: abs_if split: if_splits)
  then show ?thesis by (auto simp: rne_def Let_def f)
next
  case False
  with assms have "of_int k - 1 \<le> r" by (auto simp: abs_if split: if_splits)
  with False have f: "\<lfloor>r\<rfloor> = k - 1" by linarith
  from False assms have "1/2 < r - of_int (k - 1) \<or> (r - of_int (k - 1) = 1/2 \<and> even k)"
    by (auto simp: abs_if split: if_splits)
  then show ?thesis by (auto simp: rne_def Let_def f)
qed

lemma exp_search_found:
  "pow2 e \<le> x \<Longrightarrow> x < pow2 (e + 1) \<Longrightarrow> e \<le> e0 \<Longrightarrow> nat (e0 - e) \<le> n \<Longrightarrow>
   exp_search n e0 x = e"
proof (induction n arbitrary: e0)
  case 0
  then show ?case by simp
next
  case (Suc n)
  show ?case
  proof (cases "pow2 e0 \<le> x")
    case True
    have "e0 = e"
    proof (rule ccontr)
      assume "e0 \<noteq> e"
      with Suc.prems(3) have "e + 1 \<le> e0" by simp
      then have "pow2 (e + 1) \<le> pow2 e0" by (rule pow2_mono)
      with True Suc.prems(2) show False by simp
    qed
    with True show ?thesis by simp
  next
    case False
    with Suc.prems(1) have "e0 \<noteq> e" by auto
    with Suc.prems(3,4) have "e \<le> e0 - 1" "nat (e0 - 1 - e) \<le> n" by simp_all
    from Suc.IH [OF Suc.prems(1,2) this] False show ?thesis by simp
  qed
qed

lemma exp_search_exhaust:
  "x < pow2 (e0 - int n + 1) \<Longrightarrow> exp_search n e0 x = e0 - int n"
proof (induction n arbitrary: e0)
  case 0
  then show ?case by simp
next
  case (Suc n)
  have "pow2 (e0 - int (Suc n) + 1) \<le> pow2 e0" by (rule pow2_mono) simp
  with Suc.prems have "\<not> pow2 e0 \<le> x" by simp
  moreover have "exp_search n (e0 - 1) x = e0 - 1 - int n"
    using Suc.prems by (intro Suc.IH) (simp add: algebra_simps)
  ultimately show ?case by simp
qed

lemma exp_search_first: "pow2 e0 \<le> x \<Longrightarrow> 0 < n \<Longrightarrow> exp_search n e0 x = e0"
  by (cases n) simp_all

lemma binade_exists:
  assumes "0 < x"
  shows "\<exists>e. pow2 e \<le> x \<and> x < pow2 (e + 1)"
proof -
  define e where "e = \<lfloor>log 2 x\<rfloor>"
  have "of_int e \<le> log 2 x" "log 2 x < of_int (e + 1)" by (simp_all add: e_def)
  then have "2 powr of_int e \<le> 2 powr log 2 x" "2 powr log 2 x < 2 powr of_int (e + 1)"
    by simp_all
  with assms show ?thesis by (auto simp: pow2_powr)
qed

lemma exponent_normal:
  assumes "- 1022 \<le> e" "e \<le> 1023" "pow2 e \<le> \<bar>x\<bar>" "\<bar>x\<bar> < pow2 (e + 1)"
  shows "exponent x = e"
  unfolding exponent_def using assms by (intro exp_search_found) simp_all

lemma exponent_subnormal:
  assumes "\<bar>x\<bar> < pow2 (- 1022)"
  shows "exponent x = - 1022"
proof -
  have "pow2 (- 1022) \<le> pow2 (1023 - int 2045 + 1)" by (rule pow2_mono) simp
  with assms have "\<bar>x\<bar> < pow2 (1023 - int 2045 + 1)" by simp
  from exp_search_exhaust [OF this] show ?thesis by (simp add: exponent_def)
qed

lemma exponent_huge:
  assumes "pow2 1023 \<le> \<bar>x\<bar>"
  shows "exponent x = 1023"
  unfolding exponent_def using assms by (intro exp_search_first) simp_all

lemma exponent_cases:
  obtains (subnormal) "\<bar>x\<bar> < pow2 (- 1022)" "exponent x = - 1022"
  | (normal) "- 1022 \<le> exponent x" "exponent x \<le> 1023"
      "pow2 (exponent x) \<le> \<bar>x\<bar>" "\<bar>x\<bar> < pow2 (exponent x + 1)"
  | (huge) "pow2 1024 \<le> \<bar>x\<bar>" "exponent x = 1023"
proof (cases "\<bar>x\<bar> < pow2 (- 1022)")
  case True
  then show ?thesis using exponent_subnormal subnormal by blast
next
  case False
  show ?thesis
  proof (cases "pow2 1024 \<le> \<bar>x\<bar>")
    case True
    have "pow2 1023 \<le> pow2 1024" by (rule pow2_mono) simp
    with True have "pow2 1023 \<le> \<bar>x\<bar>" by simp
    then show ?thesis using exponent_huge huge True by blast
  next
    case big: False
    have "0 < \<bar>x\<bar>" using False pow2_pos [of "- 1022"] by linarith
    from binade_exists [OF this] obtain e where e: "pow2 e \<le> \<bar>x\<bar>" "\<bar>x\<bar> < pow2 (e + 1)"
      by blast
    have "- 1022 \<le> e"
    proof (rule ccontr)
      assume "\<not> - 1022 \<le> e"
      then have "pow2 (e + 1) \<le> pow2 (- 1022)" by (intro pow2_mono) simp
      with e(2) False show False by simp
    qed
    moreover have "e \<le> 1023"
    proof (rule ccontr)
      assume "\<not> e \<le> 1023"
      then have "pow2 1024 \<le> pow2 e" by (intro pow2_mono) simp
      with e(1) big show False by simp
    qed
    ultimately have "exponent x = e" using e by (intro exponent_normal)
    then show ?thesis using normal e \<open>- 1022 \<le> e\<close> \<open>e \<le> 1023\<close> by blast
  qed
qed

lemma roundoff_small: "0 < tiny" "tiny \<le> unit_roundoff" "unit_roundoff \<le> 1/8"
  using pow2_pos [of "- 1075"] pow2_mono [of "- 1075" "- 53"] pow2_mono [of "- 53" "- 3"]
  by (simp_all add: unit_roundoff_def tiny_def) (simp add: pow2_def)

lemma fl_value_error:
  "\<bar>of_int (rne (x / pow2 (exponent x - 52))) * pow2 (exponent x - 52) - x\<bar>
     \<le> pow2 (exponent x - 52) / 2"
proof -
  define q where "q = pow2 (exponent x - 52)"
  have q: "0 < q" by (simp add: q_def pow2_pos)
  have "of_int (rne (x / q)) * q - x = (of_int (rne (x / q)) - x / q) * q"
    using q by (simp add: field_simps)
  then have "\<bar>of_int (rne (x / q)) * q - x\<bar> = \<bar>of_int (rne (x / q)) - x / q\<bar> * q"
    using q by (simp add: abs_mult)
  also have "\<dots> \<le> 1/2 * q"
    using q rne_error [of "x / q"] by (intro mult_right_mono) simp_all
  finally show ?thesis by (simp add: q_def)
qed

text \<open>
  The standard model of rounding: without overflow, the result differs from the exact
  value by at most the relative \<open>unit_roundoff\<close> plus the absolute \<open>tiny\<close>.
\<close>

lemma fl_error:
  assumes "\<bar>x\<bar> \<le> pow2 1023"
  shows "\<exists>y. fl x = Fin y \<and> \<bar>y - x\<bar> \<le> unit_roundoff * \<bar>x\<bar> + tiny"
proof -
  define q where "q = pow2 (exponent x - 52)"
  define y where "y = of_int (rne (x / q)) * q"
  have err: "\<bar>y - x\<bar> \<le> q / 2" unfolding y_def q_def by (rule fl_value_error)
  have half: "pow2 (e - 52) / 2 = pow2 e * pow2 (- 53)" for e
    using pow2_add [of e "- 53"] pow2_Suc [of "e - 53"] by (simp add: algebra_simps)
  have big: "pow2 1023 < pow2 1024" by (rule pow2_strict_mono) simp
  have bound: "\<bar>y - x\<bar> \<le> unit_roundoff * \<bar>x\<bar> + tiny"
  proof (cases x rule: exponent_cases)
    case subnormal
    have "q / 2 = tiny"
      using half [of "- 1022"] pow2_add [of "- 1022" "- 53"]
      by (simp add: q_def subnormal(2) tiny_def)
    moreover have "0 \<le> unit_roundoff * \<bar>x\<bar>"
      using pow2_pos [of "- 53"] by (simp add: unit_roundoff_def)
    ultimately show ?thesis using err by linarith
  next
    case normal
    have "q / 2 = pow2 (exponent x) * unit_roundoff"
      by (simp add: q_def half unit_roundoff_def)
    also have "\<dots> \<le> \<bar>x\<bar> * unit_roundoff"
      using normal(3) pow2_pos [of "- 53"]
      by (intro mult_right_mono) (simp_all add: unit_roundoff_def)
    finally have "q / 2 \<le> unit_roundoff * \<bar>x\<bar>" by (simp add: mult.commute)
    moreover have "0 \<le> tiny" using pow2_pos [of "- 1075"] by (simp add: tiny_def)
    ultimately show ?thesis using err by linarith
  next
    case huge
    with assms big show ?thesis by simp
  qed
  have ur: "unit_roundoff \<le> 1/2" "tiny \<le> 1/2"
    using roundoff_small by simp_all
  have "\<bar>y\<bar> < pow2 1024"
  proof -
    have "\<bar>y\<bar> \<le> \<bar>x\<bar> + \<bar>y - x\<bar>" by simp
    also have "\<dots> \<le> \<bar>x\<bar> + unit_roundoff * \<bar>x\<bar> + tiny" using bound by simp
    also have "\<dots> \<le> pow2 1023 + unit_roundoff * pow2 1023 + tiny"
      using assms pow2_pos [of "- 53"]
      by (simp add: unit_roundoff_def add_mono mult_left_mono)
    also have "\<dots> < pow2 1024"
    proof -
      have "unit_roundoff * pow2 1023 \<le> 1/2 * pow2 1023"
        using ur(1) pow2_pos [of 1023] by (intro mult_right_mono) simp_all
      moreover have "tiny < 1/2 * pow2 1023"
      proof -
        have "1 < pow2 1023" using pow2_strict_mono [of 0 1023] by (simp add: pow2_def)
        then show ?thesis using ur(2) by simp
      qed
      moreover have "pow2 1024 = 2 * pow2 1023" using pow2_Suc [of 1023] by simp
      ultimately show ?thesis by linarith
    qed
    finally show ?thesis .
  qed
  then have "fl x = Fin y" by (simp add: fl_def Let_def y_def q_def)
  with bound show ?thesis by blast
qed

text \<open>Evaluating \<open>fl\<close> at a given number: its binade and the nearest multiple.\<close>

lemma fl_eval:
  assumes "- 1022 \<le> e" "e \<le> 1023" "pow2 e \<le> \<bar>x\<bar>" "\<bar>x\<bar> < pow2 (e + 1)"
    and "\<bar>x / pow2 (e - 52) - of_int k\<bar> < 1/2 \<or>
         (\<bar>x / pow2 (e - 52) - of_int k\<bar> = 1/2 \<and> even k)"
    and "y = of_int k * pow2 (e - 52)" and "\<bar>y\<bar> < pow2 1024"
  shows "fl x = Fin y"
proof -
  have "exponent x = e" using assms(1-4) by (rule exponent_normal)
  moreover have "rne (x / pow2 (e - 52)) = k" using assms(5) by (rule rne_unique)
  ultimately show ?thesis using assms(6,7) by (simp add: fl_def Let_def)
qed

lemma fl_zero: "fl 0 = Fin 0"
proof -
  have "rne 0 = 0" by (simp add: rne_def)
  then show ?thesis using pow2_pos [of 1024] by (simp add: fl_def Let_def)
qed

text \<open>Rounding never leaves an interval that ends at a power of two, nor changes the sign.\<close>

lemma fl_le_pow2:
  assumes "\<bar>x\<bar> \<le> pow2 k" and "- 1022 \<le> k" and "k \<le> 1023"
  shows "\<exists>y. fl x = Fin y \<and> \<bar>y\<bar> \<le> pow2 k \<and> (0 \<le> x \<longrightarrow> 0 \<le> y) \<and> (x \<le> 0 \<longrightarrow> y \<le> 0)"
proof -
  define e where "e = exponent x"
  define q where "q = pow2 (e - 52)"
  define y where "y = of_int (rne (x / q)) * q"
  have q: "0 < q" by (simp add: q_def pow2_pos)
  have ek: "e \<le> k"
  proof (cases x rule: exponent_cases)
    case subnormal
    then show ?thesis using assms(2) by (simp add: e_def)
  next
    case normal
    show ?thesis
    proof (rule ccontr)
      assume "\<not> e \<le> k"
      then have "pow2 k < pow2 e" by (intro pow2_strict_mono) simp
      with normal(3) assms(1) show False by (simp add: e_def)
    qed
  next
    case huge
    have "pow2 k < pow2 1024" using assms(3) by (intro pow2_strict_mono) simp
    with huge(1) assms(1) show ?thesis by simp
  qed
  define n where "n = nat (k - e + 52)"
  have N: "pow2 k = of_int (2 ^ n) * q"
  proof -
    have "pow2 k = pow2 (k - e + 52) * q"
      using pow2_add [of "k - e + 52" "e - 52"] by (simp add: q_def)
    moreover have "pow2 (k - e + 52) = 2 ^ n" using ek by (simp add: pow2_def n_def)
    ultimately show ?thesis by simp
  qed
  have "\<bar>x\<bar> / q \<le> of_int (2 ^ n)"
    using assms(1) q by (simp add: N field_simps)
  then have aq: "\<bar>x / q\<bar> \<le> of_int (2 ^ n)" using q by simp
  have lo: "- of_int (2 ^ n) \<le> x / q" and hi: "x / q \<le> of_int (2 ^ n)"
    using aq by linarith+
  have "- (2 ^ n) \<le> \<lfloor>x / q\<rfloor>" using lo by (simp add: le_floor_iff)
  then have r1: "- (2 ^ n) \<le> rne (x / q)" using rne_floor [of "x / q"] by linarith
  have "\<lceil>x / q\<rceil> \<le> 2 ^ n" using hi by (simp add: ceiling_le_iff)
  then have r2: "rne (x / q) \<le> 2 ^ n" using rne_ceiling [of "x / q"] by linarith
  have "(of_int (- (2 ^ n)) :: real) \<le> of_int (rne (x / q))"
    "(of_int (rne (x / q)) :: real) \<le> of_int (2 ^ n)"
    using r1 r2 by (simp_all only: of_int_le_iff)
  then have "\<bar>of_int (rne (x / q)) :: real\<bar> \<le> of_int (2 ^ n)"
    by (simp add: abs_le_iff)
  then have "\<bar>y\<bar> \<le> of_int (2 ^ n) * q"
    using q by (simp add: y_def abs_mult mult_right_mono)
  then have yk: "\<bar>y\<bar> \<le> pow2 k" by (simp add: N)
  have "pow2 k < pow2 1024" using assms(3) by (intro pow2_strict_mono) simp
  with yk have "fl x = Fin y" by (simp add: fl_def Let_def y_def q_def e_def)
  moreover have "0 \<le> y" if "0 \<le> x"
  proof -
    have "0 \<le> x / q" using that q by simp
    then have "0 \<le> \<lfloor>x / q\<rfloor>" by simp
    then have "0 \<le> rne (x / q)" using rne_floor [of "x / q"] by linarith
    then show ?thesis using q by (simp add: y_def)
  qed
  moreover have "y \<le> 0" if "x \<le> 0"
  proof -
    have "x / q \<le> 0" using that q by (simp add: divide_nonpos_pos)
    then have "\<lceil>x / q\<rceil> \<le> 0" by (simp add: ceiling_le_iff)
    then have "rne (x / q) \<le> 0" using rne_ceiling [of "x / q"] by linarith
    then show ?thesis using q by (simp add: y_def mult_nonpos_nonneg)
  qed
  ultimately show ?thesis using yk by blast
qed

subsection \<open>The literals of the source as doubles\<close>

lemma lit_0: "lit 0 = Fin 0"
  by (simp add: lit_def fl_zero)

lemma lit_2_5: "lit (2 / 5) = Fin (3602879701896397 / 9007199254740992)"
  unfolding lit_def
  by (rule fl_eval [where e = "-2" and k = "7205759403792794"]) (simp_all add: pow2_def)

lemma lit_1_10: "lit (1 / 10) = Fin (3602879701896397 / 36028797018963968)"
  unfolding lit_def
  by (rule fl_eval [where e = "-4" and k = "7205759403792794"]) (simp_all add: pow2_def)

lemma lit_1_20: "lit (1 / 20) = Fin (3602879701896397 / 72057594037927936)"
  unfolding lit_def
  by (rule fl_eval [where e = "-5" and k = "7205759403792794"]) (simp_all add: pow2_def)

lemma lit_7_2: "lit (7 / 2) = Fin (7 / 2)"
  unfolding lit_def
  by (rule fl_eval [where e = "1" and k = "7881299347898368"]) (simp_all add: pow2_def)

lemma lit_3_2: "lit (3 / 2) = Fin (3 / 2)"
  unfolding lit_def
  by (rule fl_eval [where e = "0" and k = "6755399441055744"]) (simp_all add: pow2_def)

lemma lit_9_2: "lit (9 / 2) = Fin (9 / 2)"
  unfolding lit_def
  by (rule fl_eval [where e = "2" and k = "5066549580791808"]) (simp_all add: pow2_def)

lemma lit_1_5: "lit (1 / 5) = Fin (3602879701896397 / 18014398509481984)"
  unfolding lit_def
  by (rule fl_eval [where e = "-3" and k = "7205759403792794"]) (simp_all add: pow2_def)

lemma lit_3: "lit 3 = Fin 3"
  unfolding lit_def
  by (rule fl_eval [where e = "1" and k = "6755399441055744"]) (simp_all add: pow2_def)

lemma lit_2: "lit 2 = Fin 2"
  unfolding lit_def
  by (rule fl_eval [where e = "1" and k = "4503599627370496"]) (simp_all add: pow2_def)

lemma lit_1_2: "lit (1 / 2) = Fin (1 / 2)"
  unfolding lit_def
  by (rule fl_eval [where e = "-1" and k = "4503599627370496"]) (simp_all add: pow2_def)

lemma lit_3_5: "lit (3 / 5) = Fin (5404319552844595 / 9007199254740992)"
  unfolding lit_def
  by (rule fl_eval [where e = "-1" and k = "5404319552844595"]) (simp_all add: pow2_def)

lemma lit_3_10: "lit (3 / 10) = Fin (5404319552844595 / 18014398509481984)"
  unfolding lit_def
  by (rule fl_eval [where e = "-2" and k = "5404319552844595"]) (simp_all add: pow2_def)

lemma lit_5_2: "lit (5 / 2) = Fin (5 / 2)"
  unfolding lit_def
  by (rule fl_eval [where e = "1" and k = "5629499534213120"]) (simp_all add: pow2_def)

lemma lit_3_20: "lit (3 / 20) = Fin (5404319552844595 / 36028797018963968)"
  unfolding lit_def
  by (rule fl_eval [where e = "-3" and k = "5404319552844595"]) (simp_all add: pow2_def)

lemma lit_1: "lit 1 = Fin 1"
  unfolding lit_def
  by (rule fl_eval [where e = "0" and k = "4503599627370496"]) (simp_all add: pow2_def)

lemmas lit_eval = lit_0 lit_2_5 lit_1_10 lit_1_20 lit_7_2 lit_3_2 lit_9_2 lit_1_5 lit_3 lit_2 lit_1_2 lit_3_5 lit_3_10 lit_5_2 lit_3_20 lit_1

subsection \<open>The rounding error of the easing step\<close>

lemma no_overflow:
  fixes A M z :: real
  assumes "1 \<le> A" "A \<le> 2 ^ 302" "0 \<le> M" "M \<le> 2 ^ 300"
    and "\<bar>z\<bar> \<le> 8 * (A * M) + 3 * A + 2 * tiny"
  shows "\<bar>z\<bar> \<le> pow2 1023"
proof -
  have "A * M \<le> 2 ^ 302 * 2 ^ 300" using assms by (intro mult_mono) simp_all
  then have "8 * (A * M) \<le> 8 * (2 ^ 302 * 2 ^ 300)" by simp
  moreover have "tiny \<le> 1" using roundoff_small by linarith
  moreover have "(8 * (2 ^ 302 * 2 ^ 300) + 3 * 2 ^ 302 + 2 :: real) \<le> pow2 1023"
    by (simp add: pow2_def)
  ultimately show ?thesis using assms(2,5) by linarith
qed

lemma lerpFactor_fl: "lerpFactor dt = fl (5/2 * dt)"
  by (simp add: lerpFactor_def lit_5_2)

lemma lerp_error:
  assumes c: "\<bar>c\<bar> \<le> M" and t: "\<bar>t\<bar> \<le> M" and dt: "\<bar>dt\<bar> \<le> 2 ^ 300" and M: "M \<le> 2 ^ 300"
  shows "\<exists>n. lerp (Fin c) (Fin t) (lerpFactor dt) = Fin n \<and>
           \<bar>n - (c + (t - c) * (5/2 * dt))\<bar> \<le> rounding_slack dt M"
proof -
  define g where "g = 5/2 * dt"
  define A where "A = 1 + \<bar>g\<bar>"
  define u where "u = unit_roundoff"
  define h where "h = tiny"
  have M0: "0 \<le> M" using c by linarith
  have u: "0 < h" "h \<le> u" "u \<le> 1/8" using roundoff_small by (simp_all add: u_def h_def)
  have A1: "1 \<le> A" by (simp add: A_def)
  have A2: "A \<le> 2 ^ 302"
  proof -
    have "\<bar>g\<bar> = 5/2 * \<bar>dt\<bar>" by (simp add: g_def abs_mult)
    also have "\<dots> \<le> 5/2 * 2 ^ 300" using dt by simp
    finally show ?thesis by (simp add: A_def)
  qed
  have AM0: "0 \<le> A * M" using A1 M0 by simp
  have uA: "0 \<le> u * A" using u A1 by simp
  have uAM0: "0 \<le> u * (A * M)" using u AM0 by simp
  have uA_le: "u * A \<le> A / 8"
    using u A1 mult_right_mono [of u "1/8" A] by simp
  note ov = no_overflow [OF A1 A2 M0 M, unfolded h_def [symmetric]]
  \<comment> \<open>the factor\<close>
  have "\<bar>g\<bar> \<le> pow2 1023" using A1 AM0 u by (intro ov) (simp add: A_def)
  from fl_error [OF this] obtain f where f: "fl g = Fin f" and
    fe: "\<bar>f - g\<bar> \<le> u * \<bar>g\<bar> + h"
    by (auto simp: u_def h_def)
  have "u * \<bar>g\<bar> \<le> u * A" using u by (intro mult_left_mono) (simp_all add: A_def)
  with fe have fe': "\<bar>f - g\<bar> \<le> u * A + h" by linarith
  have fA: "\<bar>f\<bar> \<le> 2 * A"
  proof -
    have "\<bar>f\<bar> \<le> \<bar>g\<bar> + \<bar>f - g\<bar>" by linarith
    moreover have "\<bar>g\<bar> \<le> A" by (simp add: A_def)
    ultimately show ?thesis using fe' uA_le u A1 by linarith
  qed
  \<comment> \<open>one minus the factor\<close>
  have x1: "\<bar>1 - f\<bar> \<le> 3 * A" using fA A1 by linarith
  have "\<bar>1 - f\<bar> \<le> pow2 1023" using x1 AM0 u by (intro ov) linarith
  from fl_error [OF this] obtain a where a: "fl (1 - f) = Fin a" and
    ae0: "\<bar>a - (1 - f)\<bar> \<le> u * \<bar>1 - f\<bar> + h"
    by (auto simp: u_def h_def)
  have "u * \<bar>1 - f\<bar> \<le> u * (3 * A)" using u x1 by (intro mult_left_mono) simp_all
  with ae0 have ae1: "\<bar>a - (1 - f)\<bar> \<le> 3 * (u * A) + h" by linarith
  have ae: "\<bar>a - (1 - g)\<bar> \<le> 4 * (u * A) + 2 * h" using ae1 fe' by linarith
  have aA: "\<bar>a\<bar> \<le> 4 * A" using ae1 x1 uA_le u A1 by linarith
  \<comment> \<open>the two products\<close>
  have x2: "\<bar>a * c\<bar> \<le> 4 * (A * M)"
  proof -
    have "\<bar>a\<bar> * \<bar>c\<bar> \<le> (4 * A) * M" using aA c by (intro mult_mono) simp_all
    then show ?thesis by (simp add: abs_mult)
  qed
  have "\<bar>a * c\<bar> \<le> pow2 1023" using x2 A1 u by (intro ov) linarith
  from fl_error [OF this] obtain p where p: "fl (a * c) = Fin p" and
    pe0: "\<bar>p - a * c\<bar> \<le> u * \<bar>a * c\<bar> + h"
    by (auto simp: u_def h_def)
  have "u * \<bar>a * c\<bar> \<le> u * (4 * (A * M))" using u x2 by (intro mult_left_mono) simp_all
  with pe0 have pe1: "\<bar>p - a * c\<bar> \<le> 4 * (u * (A * M)) + h" by linarith
  have pe2: "\<bar>a * c - (1 - g) * c\<bar> \<le> 4 * (u * (A * M)) + 2 * (h * M)"
  proof -
    have "\<bar>a * c - (1 - g) * c\<bar> = \<bar>a - (1 - g)\<bar> * \<bar>c\<bar>"
      by (simp add: abs_mult [symmetric] algebra_simps)
    also have "\<dots> \<le> (4 * (u * A) + 2 * h) * M"
      using ae c uA u by (intro mult_mono) simp_all
    finally show ?thesis by (simp add: algebra_simps)
  qed
  have x3: "\<bar>f * t\<bar> \<le> 2 * (A * M)"
  proof -
    have "\<bar>f\<bar> * \<bar>t\<bar> \<le> (2 * A) * M" using fA t by (intro mult_mono) simp_all
    then show ?thesis by (simp add: abs_mult)
  qed
  have "\<bar>f * t\<bar> \<le> pow2 1023" using x3 A1 AM0 u by (intro ov) linarith
  from fl_error [OF this] obtain q where q: "fl (f * t) = Fin q" and
    qe0: "\<bar>q - f * t\<bar> \<le> u * \<bar>f * t\<bar> + h"
    by (auto simp: u_def h_def)
  have "u * \<bar>f * t\<bar> \<le> u * (2 * (A * M))" using u x3 by (intro mult_left_mono) simp_all
  with qe0 have qe1: "\<bar>q - f * t\<bar> \<le> 2 * (u * (A * M)) + h" by linarith
  have qe2: "\<bar>f * t - g * t\<bar> \<le> u * (A * M) + h * M"
  proof -
    have "\<bar>f * t - g * t\<bar> = \<bar>f - g\<bar> * \<bar>t\<bar>"
      by (simp add: abs_mult [symmetric] algebra_simps)
    also have "\<dots> \<le> (u * A + h) * M"
      using fe' t uA u by (intro mult_mono) simp_all
    finally show ?thesis by (simp add: algebra_simps)
  qed
  \<comment> \<open>the sum\<close>
  have uAM_le: "u * (A * M) \<le> (A * M) / 8"
    using u AM0 mult_right_mono [of u "1/8" "A * M"] by simp
  have pA: "\<bar>p\<bar> \<le> 5 * (A * M) + h" using pe1 x2 uAM_le by linarith
  have qA: "\<bar>q\<bar> \<le> 3 * (A * M) + h" using qe1 x3 uAM_le by linarith
  have x4: "\<bar>p + q\<bar> \<le> 8 * (A * M) + 2 * h" using pA qA by linarith
  have "\<bar>p + q\<bar> \<le> pow2 1023" using x4 A1 by (intro ov) linarith
  from fl_error [OF this] obtain r where r: "fl (p + q) = Fin r" and
    re0: "\<bar>r - (p + q)\<bar> \<le> u * \<bar>p + q\<bar> + h"
    by (auto simp: u_def h_def)
  have "u * \<bar>p + q\<bar> \<le> u * (8 * (A * M) + 2 * h)" using u x4 by (intro mult_left_mono) simp_all
  moreover have "u * (2 * h) \<le> h"
    using u mult_right_mono [of u "1/8" "2 * h"] by simp
  moreover have "u * (8 * (A * M) + 2 * h) = 8 * (u * (A * M)) + u * (2 * h)"
    by (simp add: algebra_simps)
  ultimately have re1: "\<bar>r - (p + q)\<bar> \<le> 8 * (u * (A * M)) + 2 * h"
    using re0 by linarith
  have E: "c + (t - c) * (5/2 * dt) = (1 - g) * c + g * t"
    unfolding g_def [symmetric] by (simp add: algebra_simps)
  have "\<bar>r - ((1 - g) * c + g * t)\<bar> \<le> 19 * (u * (A * M)) + 3 * (h * M) + 4 * h"
    using re1 pe1 pe2 qe1 qe2 by linarith
  moreover have "19 * (u * (A * M)) + 3 * (h * M) + 4 * h = rounding_slack dt M"
    by (simp add: rounding_slack_def u_def h_def A_def g_def algebra_simps)
  moreover have "lerp (Fin c) (Fin t) (lerpFactor dt) = Fin r"
    using f a p q r by (simp add: lerp_def lerpFactor_fl g_def)
  ultimately show ?thesis using E by auto
qed

lemma rounding_slack_nonneg: "0 \<le> M \<Longrightarrow> 0 \<le> rounding_slack dt M"
  using roundoff_small by (simp add: rounding_slack_def)

subsection \<open>The rounding error of the scale step\<close>

lemma no_overflow_scale:
  fixes A M z :: real
  assumes "1 \<le> A" "A \<le> 2 ^ 303" "0 \<le> M" "M \<le> 2 ^ 300"
    and "\<bar>z\<bar> \<le> 8 * (A * M) + 3 * A + 2 * M + 1"
  shows "\<bar>z\<bar> \<le> pow2 1023"
proof -
  have "A * M \<le> 2 ^ 303 * 2 ^ 300" using assms by (intro mult_mono) simp_all
  then have "8 * (A * M) \<le> 8 * (2 ^ 303 * 2 ^ 300)" by simp
  moreover have "(8 * (2 ^ 303 * 2 ^ 300) + 3 * 2 ^ 303 + 2 * 2 ^ 300 + 1 :: real) \<le> pow2 1023"
    by (simp add: pow2_def)
  ultimately show ?thesis using assms(2,4,5) by linarith
qed

lemma scale_step_error:
  assumes x: "\<bar>x\<bar> \<le> M" and v: "\<bar>v\<bar> \<le> M" and dt: "\<bar>dt\<bar> \<le> 2 ^ 300" and M: "M \<le> 2 ^ 300"
  shows "\<exists>n. js_add (Fin x) (js_mul (js_sub (Fin v) (Fin x)) (js_mul (Fin dt) (Fin 4))) = Fin n \<and>
           \<bar>n - (x + (v - x) * (4 * dt))\<bar> \<le> scale_slack dt M"
proof -
  define g where "g = dt * 4"
  define A where "A = 1 + \<bar>g\<bar>"
  define u where "u = unit_roundoff"
  define h where "h = tiny"
  define D where "D = v - x"
  have M0: "0 \<le> M" using x by linarith
  have u: "0 < h" "h \<le> u" "u \<le> 1/8" using roundoff_small by (simp_all add: u_def h_def)
  have A1: "1 \<le> A" by (simp add: A_def)
  have A2: "A \<le> 2 ^ 303"
  proof -
    have "\<bar>g\<bar> = 4 * \<bar>dt\<bar>" by (simp add: g_def abs_mult)
    also have "\<dots> \<le> 4 * 2 ^ 300" using dt by simp
    finally show ?thesis by (simp add: A_def)
  qed
  have AM0: "0 \<le> A * M" using A1 M0 by simp
  have MA: "M \<le> A * M" using A1 M0 mult_right_mono [of 1 A M] by simp
  have Ah0: "0 \<le> A * h" using A1 u by simp
  have hA: "h \<le> A * h" using A1 u mult_right_mono [of 1 A h] by simp
  have hM0: "0 \<le> h * M" using u M0 by simp
  have uA_le: "u * A \<le> A / 8" using u A1 mult_right_mono [of u "1/8" A] by simp
  have uM0: "0 \<le> u * M" using u M0 by simp
  have uM_le: "u * M \<le> M / 8" using u M0 mult_right_mono [of u "1/8" M] by simp
  have uAM0: "0 \<le> u * (A * M)" using u AM0 by simp
  have uAM_le: "u * (A * M) \<le> (A * M) / 8"
    using u AM0 mult_right_mono [of u "1/8" "A * M"] by simp
  have uAh_le: "u * (A * h) \<le> (A * h) / 8"
    using u Ah0 mult_right_mono [of u "1/8" "A * h"] by simp
  have uh_le: "u * h \<le> h / 8" using u mult_right_mono [of u "1/8" h] by simp
  have h8: "h \<le> 1/8" using u by linarith
  note ov = no_overflow_scale [OF A1 A2 M0 M]
  \<comment> \<open>the factor\<close>
  have gA: "\<bar>g\<bar> \<le> A" by (simp add: A_def)
  have "\<bar>g\<bar> \<le> pow2 1023" using gA A1 AM0 M0 by (intro ov) linarith
  from fl_error [OF this] obtain al where al: "fl g = Fin al" and
    al0: "\<bar>al - g\<bar> \<le> u * \<bar>g\<bar> + h"
    by (auto simp: u_def h_def)
  have "u * \<bar>g\<bar> \<le> u * A" using u gA by (intro mult_left_mono) simp_all
  with al0 have al_e: "\<bar>al - g\<bar> \<le> u * A + h" by linarith
  have al_b: "\<bar>al\<bar> \<le> 2 * A" using al_e gA uA_le h8 A1 by linarith
  \<comment> \<open>the difference\<close>
  have D2: "\<bar>D\<bar> \<le> 2 * M" using x v by (simp add: D_def)
  have "\<bar>D\<bar> \<le> pow2 1023" using D2 A1 AM0 M0 by (intro ov) linarith
  from fl_error [OF this] obtain d where d: "fl D = Fin d" and
    d0: "\<bar>d - D\<bar> \<le> u * \<bar>D\<bar> + h"
    by (auto simp: u_def h_def)
  have "u * \<bar>D\<bar> \<le> u * (2 * M)" using u D2 by (intro mult_left_mono) simp_all
  with d0 have d_e: "\<bar>d - D\<bar> \<le> 2 * (u * M) + h" by linarith
  have d_b: "\<bar>d\<bar> \<le> 3 * M + h" using d_e D2 uM_le M0 by linarith
  \<comment> \<open>the product\<close>
  have P_b: "\<bar>d * al\<bar> \<le> 6 * (A * M) + 2 * (A * h)"
  proof -
    have "\<bar>d\<bar> * \<bar>al\<bar> \<le> (3 * M + h) * (2 * A)"
      using d_b al_b by (intro mult_mono) simp_all
    then show ?thesis by (simp add: abs_mult algebra_simps)
  qed
  have P_e: "\<bar>d * al - D * g\<bar> \<le> 6 * (u * (A * M)) + 2 * (A * h) + 2 * (h * M)"
  proof -
    have "d * al - D * g = (d - D) * al + D * (al - g)" by (simp add: algebra_simps)
    then have "\<bar>d * al - D * g\<bar> \<le> \<bar>d - D\<bar> * \<bar>al\<bar> + \<bar>D\<bar> * \<bar>al - g\<bar>"
      by (simp add: abs_mult [symmetric] abs_triangle_ineq)
    moreover have "\<bar>d - D\<bar> * \<bar>al\<bar> \<le> (2 * (u * M) + h) * (2 * A)"
      using d_e al_b uM0 u by (intro mult_mono) simp_all
    moreover have "\<bar>D\<bar> * \<bar>al - g\<bar> \<le> (2 * M) * (u * A + h)"
      using D2 al_e M0 by (intro mult_mono) simp_all
    moreover have "(2 * (u * M) + h) * (2 * A) + (2 * M) * (u * A + h) =
        6 * (u * (A * M)) + 2 * (A * h) + 2 * (h * M)"
      by (simp add: algebra_simps)
    ultimately show ?thesis by linarith
  qed
  have "\<bar>d * al\<bar> \<le> pow2 1023" using P_b A1 M0 Ah0 h8 mult_left_mono [of h "1/8" A]
    by (intro ov) linarith
  from fl_error [OF this] obtain m where m: "fl (d * al) = Fin m" and
    m0: "\<bar>m - d * al\<bar> \<le> u * \<bar>d * al\<bar> + h"
    by (auto simp: u_def h_def)
  have "u * \<bar>d * al\<bar> \<le> u * (6 * (A * M) + 2 * (A * h))"
    using u P_b by (intro mult_left_mono) simp_all
  moreover have "u * (6 * (A * M) + 2 * (A * h)) = 6 * (u * (A * M)) + 2 * (u * (A * h))"
    by (simp add: algebra_simps)
  ultimately have m_e: "\<bar>m - d * al\<bar> \<le> 6 * (u * (A * M)) + A * h + h"
    using m0 uAh_le Ah0 by linarith
  have m_b: "\<bar>m\<bar> \<le> 7 * (A * M) + 3 * (A * h) + h"
    using m_e P_b uAM_le AM0 by linarith
  \<comment> \<open>the sum\<close>
  have S_b: "\<bar>x + m\<bar> \<le> 8 * (A * M) + 3 * (A * h) + h" using m_b x MA by linarith
  have "\<bar>x + m\<bar> \<le> pow2 1023"
    using S_b A1 M0 Ah0 h8 mult_left_mono [of h "1/8" A] by (intro ov) linarith
  from fl_error [OF this] obtain n where n: "fl (x + m) = Fin n" and
    n0: "\<bar>n - (x + m)\<bar> \<le> u * \<bar>x + m\<bar> + h"
    by (auto simp: u_def h_def)
  have "u * \<bar>x + m\<bar> \<le> u * (8 * (A * M) + 3 * (A * h) + h)"
    using u S_b by (intro mult_left_mono) simp_all
  moreover have "u * (8 * (A * M) + 3 * (A * h) + h) =
      8 * (u * (A * M)) + 3 * (u * (A * h)) + u * h"
    by (simp add: algebra_simps)
  ultimately have n_e: "\<bar>n - (x + m)\<bar> \<le> 8 * (u * (A * M)) + A * h + 2 * h"
    using n0 uAh_le Ah0 uh_le u by linarith
  have E: "x + (v - x) * (4 * dt) = x + D * g" by (simp add: D_def g_def)
  have "\<bar>n - (x + D * g)\<bar> \<le> 20 * (u * (A * M)) + 4 * (A * h) + 2 * (h * M) + 3 * h"
    using n_e m_e P_e by linarith
  moreover have "20 * (u * (A * M)) + 4 * (A * h) + 2 * (h * M) + 3 * h = scale_slack dt M"
    by (simp add: scale_slack_def u_def h_def A_def g_def algebra_simps)
  moreover have "js_add (Fin x) (js_mul (js_sub (Fin v) (Fin x)) (js_mul (Fin dt) (Fin 4))) = Fin n"
    using al d m n by (simp add: g_def D_def)
  ultimately show ?thesis using E by auto
qed

subsection \<open>The exact easing step\<close>

lemma convex_step:
  fixes c tv k n :: real
  assumes k: "0 \<le> k" "k \<le> 1" and n: "n = c + (tv - c) * k"
  shows "\<bar>n - c\<bar> = k * \<bar>tv - c\<bar>" and "min c tv \<le> n" and "n \<le> max c tv"
    and "\<bar>n - tv\<bar> = (1 - k) * \<bar>c - tv\<bar>"
proof -
  have "n - c = k * (tv - c)" by (simp add: n)
  then have "\<bar>n - c\<bar> = \<bar>k\<bar> * \<bar>tv - c\<bar>" by (simp only: abs_mult)
  then show "\<bar>n - c\<bar> = k * \<bar>tv - c\<bar>" using k by simp
  have "n - tv = (1 - k) * (c - tv)" by (simp add: n algebra_simps)
  then have "\<bar>n - tv\<bar> = \<bar>1 - k\<bar> * \<bar>c - tv\<bar>" by (simp only: abs_mult)
  then show "\<bar>n - tv\<bar> = (1 - k) * \<bar>c - tv\<bar>" using k by simp
  show "min c tv \<le> n"
  proof (cases "c \<le> tv")
    case True
    then have "0 \<le> (tv - c) * k" using k by simp
    with True show ?thesis unfolding n by linarith
  next
    case False
    then have "(tv - c) * 1 \<le> (tv - c) * k"
      using k by (intro mult_left_mono_neg) simp_all
    then have "tv - c \<le> (tv - c) * k" by (simp only: mult_1_right)
    with False show ?thesis unfolding n by linarith
  qed
  show "n \<le> max c tv"
  proof (cases "c \<le> tv")
    case True
    then have "(tv - c) * k \<le> (tv - c) * 1"
      using k by (intro mult_left_mono) simp_all
    then have "(tv - c) * k \<le> tv - c" by (simp only: mult_1_right)
    with True show ?thesis unfolding n by linarith
  next
    case False
    then have "(tv - c) * k \<le> 0" using k by (simp add: mult_nonpos_nonneg)
    with False show ?thesis unfolding n by linarith
  qed
qed

lemma num_within_Fin: "num_within M x \<Longrightarrow> \<exists>v. x = Fin v \<and> \<bar>v\<bar> \<le> M"
  by (cases x) simp_all

lemma numeric_within:
  assumes "config_within M c"
  shows "\<exists>v. numeric f c = Fin v \<and> \<bar>v\<bar> \<le> M"
proof -
  have "num_within M (numeric f c)"
    using assms by (cases f) (simp_all add: config_within_def)
  then show ?thesis by (rule num_within_Fin)
qed

subsection \<open>The target lookup\<close>

lemma get_hero: "SECTION_CONFIGS_get ''hero'' = ConfigAt 0"
  by (simp add: SECTION_CONFIGS_get_def SECTION_CONFIGS_def)

lemma target_cases:
  "target sec = (case SECTION_CONFIGS sec of Some a \<Rightarrow> ConfigAt a
                 | None \<Rightarrow> if sec \<in> set Object_prototype_keys then Inherited else ConfigAt 0)"
  unfolding target_def get_hero js_or_def
  by (simp add: SECTION_CONFIGS_get_def split: option.splits)

lemma target_defined: "target sec \<noteq> Undefined"
  by (simp add: target_cases split: option.splits)

lemma fields_of_target: "\<exists>t. fields_of h (target sec) = Inr t"
  using target_defined [of sec] by (cases "target sec") simp_all

subsection \<open>One frame of the lens animator\<close>

lemma useFrame_attached:
  assumes "mesh w = Some m" "materialRef w = Some mat" "fields_of (heap w) (target sec) = Inr t"
  shows "\<exists>w'. useFrame_VeroLens sec ms vw dt w = Inr w' \<and>
     current w' = \<lparr>color = color t,
        distortion = lerp (distortion (current w)) (distortion t) (lerpFactor dt),
        chromaticAberration = lerp (chromaticAberration (current w)) (chromaticAberration t) (lerpFactor dt),
        roughness = lerp (roughness (current w)) (roughness t) (lerpFactor dt),
        scale = lerp (scale (current w)) (scale t) (lerpFactor dt),
        speed = lerp (speed (current w)) (speed t) (lerpFactor dt)\<rparr> \<and>
     (\<forall>a. a \<noteq> currentConfig w \<longrightarrow> heap w' a = heap w a) \<and>
     currentConfig w' = currentConfig w \<and> fresh w' = fresh w \<and>
     (\<exists>m' mat'. mesh w' = Some m' \<and> materialRef w' = Some mat' \<and>
        mat_color mat' = color t)"
  using assms by (simp add: useFrame_VeroLens_def current_def Let_def)

lemma useFrame_numeric:
  assumes "mesh w = Some m" "materialRef w = Some mat" "fields_of (heap w) (target sec) = Inr t"
  shows "\<exists>w'. useFrame_VeroLens sec ms vw dt w = Inr w' \<and> color (current w') = color t \<and>
     (\<forall>f. numeric f (current w') =
        lerp (numeric f (current w)) (numeric f t) (lerpFactor dt))"
proof -
  from useFrame_attached [OF assms, of ms vw dt] obtain w' where
    w': "useFrame_VeroLens sec ms vw dt w = Inr w'" and
    c: "current w' = \<lparr>color = color t,
        distortion = lerp (distortion (current w)) (distortion t) (lerpFactor dt),
        chromaticAberration = lerp (chromaticAberration (current w)) (chromaticAberration t) (lerpFactor dt),
        roughness = lerp (roughness (current w)) (roughness t) (lerpFactor dt),
        scale = lerp (scale (current w)) (scale t) (lerpFactor dt),
        speed = lerp (speed (current w)) (speed t) (lerpFactor dt)\<rparr>"
    by blast
  have "numeric f (current w') =
        lerp (numeric f (current w)) (numeric f t) (lerpFactor dt)" for f
    by (cases f) (simp_all add: c)
  with w' c show ?thesis by simp
qed

lemma useFrame_unattached:
  "mesh w = None \<or> materialRef w = None \<Longrightarrow> useFrame_VeroLens sec ms vw dt w = Inr w"
  by (auto simp: useFrame_VeroLens_def split: option.splits)

subsection \<open>The store across frames\<close>

lemma useFrame_heap:
  assumes "useFrame_VeroLens sec ms vw dt w = Inr w'"
  shows "(\<forall>a. a \<noteq> currentConfig w \<longrightarrow> heap w' a = heap w a) \<and>
         currentConfig w' = currentConfig w \<and> fresh w' = fresh w"
proof (cases "mesh w = None \<or> materialRef w = None")
  case True
  from useFrame_unattached [OF True, of sec ms vw dt] assms show ?thesis by simp
next
  case False
  then obtain m mat where a: "mesh w = Some m" "materialRef w = Some mat" by auto
  obtain t where t: "fields_of (heap w) (target sec) = Inr t"
    using fields_of_target by blast
  from useFrame_attached [OF a t, of ms vw dt] assms show ?thesis by auto
qed

lemma sections_intact_heap:
  assumes "sections_intact w" and "SECTION_CONFIGS k = Some a"
  shows "heap w a = SECTION_CONFIGS_objects a" and "a \<noteq> currentConfig w"
  using assms
  by (auto simp: sections_intact_def SECTION_CONFIGS_def SECTION_CONFIGS_objects_def
      split: if_splits)

lemma sections_within:
  "SECTION_CONFIGS k = Some a \<Longrightarrow> config_within 5 (SECTION_CONFIGS_objects a)"
  by (auto simp: SECTION_CONFIGS_def SECTION_CONFIGS_objects_def config_within_def
      hero_config_def work_config_def agency_config_def contact_config_def lit_eval
      split: if_splits)

lemma useFrame_intact:
  assumes "sections_intact w" and "useFrame_VeroLens sec ms vw dt w = Inr w'"
  shows "sections_intact w'"
proof -
  from useFrame_heap [OF assms(2)] have
    h: "\<And>a. a \<noteq> currentConfig w \<Longrightarrow> heap w' a = heap w a" and
    c: "currentConfig w' = currentConfig w"
    by simp_all
  have "4 \<le> currentConfig w" using assms(1) by (simp add: sections_intact_def)
  then have "heap w' 0 = heap w 0" "heap w' 1 = heap w 1" "heap w' 2 = heap w 2"
    "heap w' 3 = heap w 3"
    by (simp_all add: h)
  with assms(1) c show ?thesis by (simp add: sections_intact_def)
qed

lemma reachable_intact: "reachable w \<Longrightarrow> sections_intact w"
proof (induction rule: reachable.induct)
  case mounted
  show ?case
    by (simp add: sections_intact_def VeroLens_mount_def module_heap_def
        SECTION_CONFIGS_objects_def)
next
  case (attached w m mat)
  then show ?case by (simp add: sections_intact_def attach_def)
next
  case (detached w)
  then show ?case by (simp add: sections_intact_def detach_def)
next
  case (frame w activeSection ms viewport_width delta w')
  then show ?case by (blast intro: useFrame_intact)
qed

text \<open>
  A frame for a configured section, from a state with attached refs and intact section
  objects: the refs stay attached, the section objects stay intact, and each numeric field
  is the \<open>lerp\<close> of its old value and the configured one.
\<close>

lemma frame_step:
  assumes "sections_intact w" and "mesh w = Some m" and "materialRef w = Some mat"
    and "SECTION_CONFIGS sec = Some a"
  shows "\<exists>w' m' mat'. useFrame_VeroLens sec ms vw dt w = Inr w' \<and> sections_intact w' \<and>
           mesh w' = Some m' \<and> materialRef w' = Some mat' \<and>
           color (current w') = color (SECTION_CONFIGS_objects a) \<and>
           (\<forall>f. numeric f (current w') =
              lerp (numeric f (current w)) (numeric f (SECTION_CONFIGS_objects a))
                (lerpFactor dt))"
proof -
  have tgt: "fields_of (heap w) (target sec) = Inr (SECTION_CONFIGS_objects a)"
    using sections_intact_heap(1) [OF assms(1,4)] assms(4)
    by (simp add: target_cases)
  from useFrame_attached [OF assms(2,3) tgt, of ms vw dt] obtain w1 m1 mat1 where
    w1: "useFrame_VeroLens sec ms vw dt w = Inr w1" and
    refs: "mesh w1 = Some m1" "materialRef w1 = Some mat1"
    by blast
  from useFrame_numeric [OF assms(2,3) tgt, of ms vw dt] w1 have
    "color (current w1) = color (SECTION_CONFIGS_objects a)"
    "\<forall>f. numeric f (current w1) =
        lerp (numeric f (current w)) (numeric f (SECTION_CONFIGS_objects a)) (lerpFactor dt)"
    by simp_all
  with w1 refs useFrame_intact [OF assms(1) w1] show ?thesis by blast
qed

subsection \<open>Iterated frames\<close>

lemma run_frames_invariant:
  assumes step: "\<And>w ms vw. I w \<Longrightarrow> \<exists>w'. useFrame_VeroLens sec ms vw dt w = Inr w' \<and> I w'"
    and "I w"
  shows "\<exists>w'. run_frames sec dt frames w = Inr w' \<and> I w'"
  using assms(2)
proof (induction frames arbitrary: w)
  case Nil
  then show ?case by simp
next
  case (Cons fr frames)
  obtain ms vw where fr: "fr = (ms, vw)" by (cases fr)
  from step [OF Cons.prems, of ms vw] obtain w1 where
    w1: "useFrame_VeroLens sec ms vw dt w = Inr w1" "I w1"
    by blast
  from Cons.IH [OF w1(2)] obtain w' where "run_frames sec dt frames w1 = Inr w'" "I w'"
    by blast
  with w1(1) show ?case by (simp add: fr)
qed

lemma geometric_small:
  fixes q D eps :: real
  assumes "\<bar>q\<bar> < 1" and "0 \<le> D" and "0 < eps"
  shows "\<exists>N. \<forall>n\<ge>N. \<bar>q ^ n\<bar> * D < eps"
proof -
  have "0 < eps / (D + 1)" using assms(2,3) by simp
  from real_arch_pow_inv [OF this assms(1)] obtain N where N: "\<bar>q\<bar> ^ N < eps / (D + 1)"
    by blast
  have "\<bar>q ^ n\<bar> * D < eps" if "N \<le> n" for n
  proof -
    have "\<bar>q\<bar> ^ n \<le> \<bar>q\<bar> ^ N"
      using that assms(1) by (intro power_decreasing) simp_all
    then have "\<bar>q\<bar> ^ n < eps / (D + 1)" using N by linarith
    then have "\<bar>q\<bar> ^ n * (D + 1) < eps" using assms(2) by (simp add: pos_less_divide_eq)
    moreover have "\<bar>q\<bar> ^ n * D \<le> \<bar>q\<bar> ^ n * (D + 1)"
      by (intro mult_left_mono) simp_all
    ultimately show ?thesis by (simp add: power_abs)
  qed
  then show ?thesis by blast
qed

text \<open>
  One rounded easing step contracts the distance to the target by \<open>|1 - 2.5 * dt|\<close>, up to
  the rounding floor: for a start of magnitude at most \<open>B\<close> and a target of magnitude at
  most 5 every iterate stays within \<open>B + 11\<close>.
\<close>

lemma eased_toward:
  assumes dt: "0 < dt" "dt < 4/5" and B: "0 \<le> B" "B \<le> 2 ^ 299"
    and tol: "tolerance_floor dt (B + 11) \<le> 1"
    and tv: "\<bar>tv\<bar> \<le> 5" and D: "0 \<le> D" "D \<le> B + 5"
    and c: "\<bar>c - tv\<bar> \<le> D + tolerance_floor dt (B + 11)"
  shows "\<exists>n. lerp (Fin c) (Fin tv) (lerpFactor dt) = Fin n \<and>
           \<bar>n - tv\<bar> \<le> \<bar>1 - 5/2 * dt\<bar> * D + tolerance_floor dt (B + 11)"
proof -
  define k where "k = \<bar>1 - 5/2 * dt\<bar>"
  define r where "r = rounding_slack dt (B + 11)"
  define T where "T = tolerance_floor dt (B + 11)"
  have k: "0 \<le> k" "k < 1" using dt by (simp_all add: k_def abs_less_iff)
  have r0: "0 \<le> r" unfolding r_def using B by (intro rounding_slack_nonneg) simp
  have T: "T = r / (1 - k)" by (simp add: T_def r_def k_def tolerance_floor_def)
  have rT: "r = (1 - k) * T" using k by (simp add: T)
  have T0: "0 \<le> T" using r0 k by (simp add: T)
  have T1: "T \<le> 1" using tol by (simp add: T_def)
  have cT: "\<bar>c - tv\<bar> \<le> D + T" using c by (simp add: T_def)
  have cM: "\<bar>c\<bar> \<le> B + 11" using cT tv D T1 by linarith
  have tM: "\<bar>tv\<bar> \<le> B + 11" using tv B by linarith
  have MM: "B + 11 \<le> (2::real) ^ 300"
  proof -
    have "(11::real) \<le> 2 ^ 299" by simp
    with B(2) have "B + 11 \<le> 2 ^ 299 + (2::real) ^ 299" by linarith
    then show ?thesis by simp
  qed
  have dM: "\<bar>dt\<bar> \<le> 2 ^ 300"
  proof -
    have "(1::real) \<le> 2 ^ 300" by simp
    with dt show ?thesis by linarith
  qed
  from lerp_error [OF cM tM dM MM] obtain n where
    n: "lerp (Fin c) (Fin tv) (lerpFactor dt) = Fin n" and
    e: "\<bar>n - (c + (tv - c) * (5/2 * dt))\<bar> \<le> r"
    unfolding r_def by blast
  have "(c + (tv - c) * (5/2 * dt)) - tv = (1 - 5/2 * dt) * (c - tv)"
    by (simp add: field_simps)
  then have "\<bar>(c + (tv - c) * (5/2 * dt)) - tv\<bar> = k * \<bar>c - tv\<bar>"
    by (simp only: abs_mult k_def)
  also have "\<dots> \<le> k * (D + T)" using cT k by (intro mult_left_mono) simp_all
  finally have "\<bar>(c + (tv - c) * (5/2 * dt)) - tv\<bar> \<le> k * D + k * T"
    by (simp add: algebra_simps)
  with e have "\<bar>n - tv\<bar> \<le> k * D + k * T + r" by linarith
  also have "k * D + k * T + r = k * D + T" by (simp add: rT algebra_simps)
  finally show ?thesis using n by (auto simp: k_def T_def)
qed

lemma run_frames_contracts:
  assumes sec: "SECTION_CONFIGS sec = Some a"
    and dt: "0 < dt" "dt < 4/5" and B: "0 \<le> B" "B \<le> 2 ^ 299"
    and tol: "tolerance_floor dt (B + 11) \<le> 1"
    and "sections_intact w" and "mesh w = Some m" and "materialRef w = Some mat"
    and "0 \<le> D" and "D \<le> B + 5"
    and "\<forall>f. \<exists>c tv. numeric f (current w) = Fin c \<and>
            numeric f (SECTION_CONFIGS_objects a) = Fin tv \<and>
            \<bar>c - tv\<bar> \<le> D + tolerance_floor dt (B + 11)"
  shows "\<exists>w'. run_frames sec dt frames w = Inr w' \<and>
           (\<forall>f. \<exists>v tv. numeric f (current w') = Fin v \<and>
              numeric f (SECTION_CONFIGS_objects a) = Fin tv \<and>
              \<bar>v - tv\<bar> \<le> \<bar>1 - 5/2 * dt\<bar> ^ length frames * D + tolerance_floor dt (B + 11))"
  using assms(7-12)
proof (induction frames arbitrary: w m mat D)
  case Nil
  then show ?case by simp
next
  case (Cons fr frames)
  obtain ms vw where fr: "fr = (ms, vw)" by (cases fr)
  define k where "k = \<bar>1 - 5/2 * dt\<bar>"
  have k: "0 \<le> k" "k < 1" using dt by (simp_all add: k_def abs_less_iff)
  from frame_step [OF Cons.prems(1,2,3) sec, of ms vw dt] obtain w1 m1 mat1 where
    w1: "useFrame_VeroLens sec ms vw dt w = Inr w1" and
    i1: "sections_intact w1" and refs: "mesh w1 = Some m1" "materialRef w1 = Some mat1" and
    nf: "\<forall>f. numeric f (current w1) =
        lerp (numeric f (current w)) (numeric f (SECTION_CONFIGS_objects a)) (lerpFactor dt)"
    by blast
  have kD: "0 \<le> k * D" "k * D \<le> B + 5"
  proof -
    show "0 \<le> k * D" using k Cons.prems(4) by simp
    have "k * D \<le> 1 * D" using k Cons.prems(4) by (intro mult_right_mono) simp_all
    with Cons.prems(5) show "k * D \<le> B + 5" by simp
  qed
  have s1: "\<forall>f. \<exists>c tv. numeric f (current w1) = Fin c \<and>
            numeric f (SECTION_CONFIGS_objects a) = Fin tv \<and>
            \<bar>c - tv\<bar> \<le> k * D + tolerance_floor dt (B + 11)"
  proof
    fix f
    from Cons.prems(6) obtain c tv where
      c: "numeric f (current w) = Fin c" and
      t: "numeric f (SECTION_CONFIGS_objects a) = Fin tv" and
      d: "\<bar>c - tv\<bar> \<le> D + tolerance_floor dt (B + 11)"
      by blast
    from numeric_within [OF sections_within [OF sec], of f] t have tv: "\<bar>tv\<bar> \<le> 5" by simp
    from eased_toward [OF dt B tol tv Cons.prems(4,5) d] obtain n where
      "lerp (Fin c) (Fin tv) (lerpFactor dt) = Fin n"
      "\<bar>n - tv\<bar> \<le> k * D + tolerance_floor dt (B + 11)"
      unfolding k_def by blast
    with nf c t show "\<exists>c tv. numeric f (current w1) = Fin c \<and>
            numeric f (SECTION_CONFIGS_objects a) = Fin tv \<and>
            \<bar>c - tv\<bar> \<le> k * D + tolerance_floor dt (B + 11)"
      by auto
  qed
  from Cons.IH [OF i1 refs kD s1, folded k_def] obtain w' where
    w': "run_frames sec dt frames w1 = Inr w'" and
    v: "\<forall>f. \<exists>v tv. numeric f (current w') = Fin v \<and>
              numeric f (SECTION_CONFIGS_objects a) = Fin tv \<and>
              \<bar>v - tv\<bar> \<le> k ^ length frames * (k * D) + tolerance_floor dt (B + 11)"
    by blast
  have run: "run_frames sec dt (fr # frames) w = Inr w'" using w1 w' by (simp add: fr)
  have e: "k ^ length frames * (k * D) = k ^ length (fr # frames) * D" by simp
  show ?case using run v [unfolded e] unfolding k_def by blast
qed

subsection \<open>The easing step at given numbers\<close>

lemma lerp_hero_work_scale:
  "lerp (Fin (7 / 2)) (Fin (9 / 2)) (lerpFactor sixtieth) = Fin (3987562170067627 / 1125899906842624)"
proof -
  have f: "fl (5 / 2 * sixtieth) = Fin (6004799503160661 / 144115188075855872)"
    unfolding sixtieth_def
    by (rule fl_eval [where e = "- 5" and k = "6004799503160661"]) (simp_all add: pow2_def)
  have a: "fl (1 - (6004799503160661 / 144115188075855872)) = Fin (8631899285793451 / 9007199254740992)"
    by (rule fl_eval [where e = "- 1" and k = "8631899285793451"]) (simp_all add: pow2_def)
  have p: "fl ((8631899285793451 / 9007199254740992) * (7 / 2)) = Fin (3776455937534635 / 1125899906842624)"
    by (rule fl_eval [where e = "1" and k = "7552911875069270"]) (simp_all add: pow2_def)
  have q: "fl ((6004799503160661 / 144115188075855872) * (9 / 2)) = Fin (3 / 16)"
    by (rule fl_eval [where e = "- 3" and k = "6755399441055744"]) (simp_all add: pow2_def)
  have r: "fl ((3776455937534635 / 1125899906842624) + (3 / 16)) = Fin (3987562170067627 / 1125899906842624)"
    by (rule fl_eval [where e = "1" and k = "7975124340135254"]) (simp_all add: pow2_def)
  show ?thesis
    by (simp only: lerp_def lerpFactor_fl js_add.simps js_sub.simps js_mul.simps f a p q r)
qed

lemma lerp_hero_drift_1:
  "lerp (Fin (7 / 2)) (Fin (7 / 2)) (lerpFactor sixtieth) = Fin (7881299347898369 / 2251799813685248)"
proof -
  have f: "fl (5 / 2 * sixtieth) = Fin (6004799503160661 / 144115188075855872)"
    unfolding sixtieth_def
    by (rule fl_eval [where e = "- 5" and k = "6004799503160661"]) (simp_all add: pow2_def)
  have a: "fl (1 - (6004799503160661 / 144115188075855872)) = Fin (8631899285793451 / 9007199254740992)"
    by (rule fl_eval [where e = "- 1" and k = "8631899285793451"]) (simp_all add: pow2_def)
  have p: "fl ((8631899285793451 / 9007199254740992) * (7 / 2)) = Fin (3776455937534635 / 1125899906842624)"
    by (rule fl_eval [where e = "1" and k = "7552911875069270"]) (simp_all add: pow2_def)
  have q: "fl ((6004799503160661 / 144115188075855872) * (7 / 2)) = Fin (2627099782632789 / 18014398509481984)"
    by (rule fl_eval [where e = "- 3" and k = "5254199565265578"]) (simp_all add: pow2_def)
  have r: "fl ((3776455937534635 / 1125899906842624) + (2627099782632789 / 18014398509481984)) = Fin (7881299347898369 / 2251799813685248)"
    by (rule fl_eval [where e = "1" and k = "7881299347898369"]) (simp_all add: pow2_def)
  show ?thesis
    by (simp only: lerp_def lerpFactor_fl js_add.simps js_sub.simps js_mul.simps f a p q r)
qed

lemma lerp_hero_drift_2:
  "lerp (Fin (7881299347898369 / 2251799813685248)) (Fin (7 / 2)) (lerpFactor sixtieth) = Fin (3940649673949185 / 1125899906842624)"
proof -
  have f: "fl (5 / 2 * sixtieth) = Fin (6004799503160661 / 144115188075855872)"
    unfolding sixtieth_def
    by (rule fl_eval [where e = "- 5" and k = "6004799503160661"]) (simp_all add: pow2_def)
  have a: "fl (1 - (6004799503160661 / 144115188075855872)) = Fin (8631899285793451 / 9007199254740992)"
    by (rule fl_eval [where e = "- 1" and k = "8631899285793451"]) (simp_all add: pow2_def)
  have p: "fl ((8631899285793451 / 9007199254740992) * (7881299347898369 / 2251799813685248)) = Fin (7552911875069271 / 2251799813685248)"
    by (rule fl_eval [where e = "1" and k = "7552911875069271"]) (simp_all add: pow2_def)
  have q: "fl ((6004799503160661 / 144115188075855872) * (7 / 2)) = Fin (2627099782632789 / 18014398509481984)"
    by (rule fl_eval [where e = "- 3" and k = "5254199565265578"]) (simp_all add: pow2_def)
  have r: "fl ((7552911875069271 / 2251799813685248) + (2627099782632789 / 18014398509481984)) = Fin (3940649673949185 / 1125899906842624)"
    by (rule fl_eval [where e = "1" and k = "7881299347898370"]) (simp_all add: pow2_def)
  show ?thesis
    by (simp only: lerp_def lerpFactor_fl js_add.simps js_sub.simps js_mul.simps f a p q r)
qed

lemma lerp_hero_drift_3:
  "lerp (Fin (3940649673949185 / 1125899906842624)) (Fin (7 / 2)) (lerpFactor sixtieth) = Fin (7881299347898371 / 2251799813685248)"
proof -
  have f: "fl (5 / 2 * sixtieth) = Fin (6004799503160661 / 144115188075855872)"
    unfolding sixtieth_def
    by (rule fl_eval [where e = "- 5" and k = "6004799503160661"]) (simp_all add: pow2_def)
  have a: "fl (1 - (6004799503160661 / 144115188075855872)) = Fin (8631899285793451 / 9007199254740992)"
    by (rule fl_eval [where e = "- 1" and k = "8631899285793451"]) (simp_all add: pow2_def)
  have p: "fl ((8631899285793451 / 9007199254740992) * (3940649673949185 / 1125899906842624)) = Fin (944113984383659 / 281474976710656)"
    by (rule fl_eval [where e = "1" and k = "7552911875069272"]) (simp_all add: pow2_def)
  have q: "fl ((6004799503160661 / 144115188075855872) * (7 / 2)) = Fin (2627099782632789 / 18014398509481984)"
    by (rule fl_eval [where e = "- 3" and k = "5254199565265578"]) (simp_all add: pow2_def)
  have r: "fl ((944113984383659 / 281474976710656) + (2627099782632789 / 18014398509481984)) = Fin (7881299347898371 / 2251799813685248)"
    by (rule fl_eval [where e = "1" and k = "7881299347898371"]) (simp_all add: pow2_def)
  show ?thesis
    by (simp only: lerp_def lerpFactor_fl js_add.simps js_sub.simps js_mul.simps f a p q r)
qed

lemma lerp_hero_drift_4:
  "lerp (Fin (7881299347898371 / 2251799813685248)) (Fin (7 / 2)) (lerpFactor sixtieth) = Fin (1970324836974593 / 562949953421312)"
proof -
  have f: "fl (5 / 2 * sixtieth) = Fin (6004799503160661 / 144115188075855872)"
    unfolding sixtieth_def
    by (rule fl_eval [where e = "- 5" and k = "6004799503160661"]) (simp_all add: pow2_def)
  have a: "fl (1 - (6004799503160661 / 144115188075855872)) = Fin (8631899285793451 / 9007199254740992)"
    by (rule fl_eval [where e = "- 1" and k = "8631899285793451"]) (simp_all add: pow2_def)
  have p: "fl ((8631899285793451 / 9007199254740992) * (7881299347898371 / 2251799813685248)) = Fin (7552911875069273 / 2251799813685248)"
    by (rule fl_eval [where e = "1" and k = "7552911875069273"]) (simp_all add: pow2_def)
  have q: "fl ((6004799503160661 / 144115188075855872) * (7 / 2)) = Fin (2627099782632789 / 18014398509481984)"
    by (rule fl_eval [where e = "- 3" and k = "5254199565265578"]) (simp_all add: pow2_def)
  have r: "fl ((7552911875069273 / 2251799813685248) + (2627099782632789 / 18014398509481984)) = Fin (1970324836974593 / 562949953421312)"
    by (rule fl_eval [where e = "1" and k = "7881299347898372"]) (simp_all add: pow2_def)
  show ?thesis
    by (simp only: lerp_def lerpFactor_fl js_add.simps js_sub.simps js_mul.simps f a p q r)
qed

lemma lerp_hero_drift_5:
  "lerp (Fin (1970324836974593 / 562949953421312)) (Fin (7 / 2)) (lerpFactor sixtieth) = Fin (1970324836974593 / 562949953421312)"
proof -
  have f: "fl (5 / 2 * sixtieth) = Fin (6004799503160661 / 144115188075855872)"
    unfolding sixtieth_def
    by (rule fl_eval [where e = "- 5" and k = "6004799503160661"]) (simp_all add: pow2_def)
  have a: "fl (1 - (6004799503160661 / 144115188075855872)) = Fin (8631899285793451 / 9007199254740992)"
    by (rule fl_eval [where e = "- 1" and k = "8631899285793451"]) (simp_all add: pow2_def)
  have p: "fl ((8631899285793451 / 9007199254740992) * (1970324836974593 / 562949953421312)) = Fin (7552911875069273 / 2251799813685248)"
    by (rule fl_eval [where e = "1" and k = "7552911875069273"]) (simp_all add: pow2_def)
  have q: "fl ((6004799503160661 / 144115188075855872) * (7 / 2)) = Fin (2627099782632789 / 18014398509481984)"
    by (rule fl_eval [where e = "- 3" and k = "5254199565265578"]) (simp_all add: pow2_def)
  have r: "fl ((7552911875069273 / 2251799813685248) + (2627099782632789 / 18014398509481984)) = Fin (1970324836974593 / 562949953421312)"
    by (rule fl_eval [where e = "1" and k = "7881299347898372"]) (simp_all add: pow2_def)
  show ?thesis
    by (simp only: lerp_def lerpFactor_fl js_add.simps js_sub.simps js_mul.simps f a p q r)
qed

lemma lerp_reflect_up:
  "lerp (Fin (7 / 2)) (Fin (9 / 2)) (lerpFactor four_fifths) = Fin (11 / 2)"
proof -
  have f: "fl (5 / 2 * four_fifths) = Fin 2"
    unfolding four_fifths_def
    by (rule fl_eval [where e = "1" and k = "4503599627370496"]) (simp_all add: pow2_def)
  have a: "fl (1 - 2) = Fin (- 1)"
    by (rule fl_eval [where e = "0" and k = "- 4503599627370496"]) (simp_all add: pow2_def)
  have p: "fl ((- 1) * (7 / 2)) = Fin (- (7 / 2))"
    by (rule fl_eval [where e = "1" and k = "- 7881299347898368"]) (simp_all add: pow2_def)
  have q: "fl (2 * (9 / 2)) = Fin 9"
    by (rule fl_eval [where e = "3" and k = "5066549580791808"]) (simp_all add: pow2_def)
  have r: "fl ((- (7 / 2)) + 9) = Fin (11 / 2)"
    by (rule fl_eval [where e = "2" and k = "6192449487634432"]) (simp_all add: pow2_def)
  show ?thesis
    by (simp only: lerp_def lerpFactor_fl js_add.simps js_sub.simps js_mul.simps f a p q r)
qed

lemma lerp_reflect_down:
  "lerp (Fin (11 / 2)) (Fin (9 / 2)) (lerpFactor four_fifths) = Fin (7 / 2)"
proof -
  have f: "fl (5 / 2 * four_fifths) = Fin 2"
    unfolding four_fifths_def
    by (rule fl_eval [where e = "1" and k = "4503599627370496"]) (simp_all add: pow2_def)
  have a: "fl (1 - 2) = Fin (- 1)"
    by (rule fl_eval [where e = "0" and k = "- 4503599627370496"]) (simp_all add: pow2_def)
  have p: "fl ((- 1) * (11 / 2)) = Fin (- (11 / 2))"
    by (rule fl_eval [where e = "2" and k = "- 6192449487634432"]) (simp_all add: pow2_def)
  have q: "fl (2 * (9 / 2)) = Fin 9"
    by (rule fl_eval [where e = "3" and k = "5066549580791808"]) (simp_all add: pow2_def)
  have r: "fl ((- (11 / 2)) + 9) = Fin (7 / 2)"
    by (rule fl_eval [where e = "1" and k = "7881299347898368"]) (simp_all add: pow2_def)
  show ?thesis
    by (simp only: lerp_def lerpFactor_fl js_add.simps js_sub.simps js_mul.simps f a p q r)
qed

lemma lerp_overshoot:
  "lerp (Fin (3602879701896397 / 9007199254740992)) (Fin 0) (lerpFactor 1) = Fin (- (1351079888211149 / 2251799813685248))"
proof -
  have f: "fl (5 / 2 * 1) = Fin (5 / 2)"
    by (rule fl_eval [where e = "1" and k = "5629499534213120"]) (simp_all add: pow2_def)
  have a: "fl (1 - (5 / 2)) = Fin (- (3 / 2))"
    by (rule fl_eval [where e = "0" and k = "- 6755399441055744"]) (simp_all add: pow2_def)
  have p: "fl ((- (3 / 2)) * (3602879701896397 / 9007199254740992)) = Fin (- (1351079888211149 / 2251799813685248))"
    by (rule fl_eval [where e = "- 1" and k = "- 5404319552844596"]) (simp_all add: pow2_def)
  have q: "fl ((5 / 2) * 0) = Fin 0"
    by (simp add: fl_zero)
  have r: "fl ((- (1351079888211149 / 2251799813685248)) + 0) = Fin (- (1351079888211149 / 2251799813685248))"
    by (rule fl_eval [where e = "- 1" and k = "- 5404319552844596"]) (simp_all add: pow2_def)
  show ?thesis
    by (simp only: lerp_def lerpFactor_fl js_add.simps js_sub.simps js_mul.simps f a p q r)
qed


lemma lerp_hero_agency_distortion:
  "lerp (Fin (3602879701896397 / 9007199254740992)) (Fin (3 / 2)) (lerpFactor sixtieth) = Fin (8031419335477385 / 18014398509481984)"
proof -
  have f: "fl (5 / 2 * sixtieth) = Fin (6004799503160661 / 144115188075855872)"
    unfolding sixtieth_def
    by (rule fl_eval [where e = "- 5" and k = "6004799503160661"]) (simp_all add: pow2_def)
  have a: "fl (1 - (6004799503160661 / 144115188075855872)) = Fin (8631899285793451 / 9007199254740992)"
    by (rule fl_eval [where e = "- 1" and k = "8631899285793451"]) (simp_all add: pow2_def)
  have p: "fl ((8631899285793451 / 9007199254740992) * (3602879701896397 / 9007199254740992)) = Fin (6905519428634761 / 18014398509481984)"
    by (rule fl_eval [where e = "- 2" and k = "6905519428634761"]) (simp_all add: pow2_def)
  have q: "fl ((6004799503160661 / 144115188075855872) * (3 / 2)) = Fin (1 / 16)"
    by (rule fl_eval [where e = "- 5" and k = "9007199254740992"]) (simp_all add: pow2_def)
  have r: "fl ((6905519428634761 / 18014398509481984) + (1 / 16)) = Fin (8031419335477385 / 18014398509481984)"
    by (rule fl_eval [where e = "- 2" and k = "8031419335477385"]) (simp_all add: pow2_def)
  show ?thesis
    by (simp only: lerp_def lerpFactor_fl js_add.simps js_sub.simps js_mul.simps f a p q r)
qed

subsection \<open>The animator after mounting\<close>

lemma attach_mount:
  "mesh (attach m mat VeroLens_mount) = Some m"
  "materialRef (attach m mat VeroLens_mount) = Some mat"
  "current (attach m mat VeroLens_mount) = hero_config"
  "current VeroLens_mount = hero_config"
  "heap (attach m mat VeroLens_mount) 0 = hero_config"
  "heap (attach m mat VeroLens_mount) 1 = work_config"
  "heap (attach m mat VeroLens_mount) (Suc 0) = work_config"
  "heap (attach m mat VeroLens_mount) 2 = agency_config"
  "heap (attach m mat VeroLens_mount) 3 = contact_config"
  "heap VeroLens_mount 1 = work_config"
  "heap VeroLens_mount (Suc 0) = work_config"
  "heap VeroLens_mount 2 = agency_config"
  "currentConfig (attach m mat VeroLens_mount) = 4"
  by (simp_all add: attach_def VeroLens_mount_def current_def module_heap_def
      SECTION_CONFIGS_objects_def)

lemma attach_mount_intact: "sections_intact (attach m mat VeroLens_mount)"
  by (intro reachable_intact reachable.attached reachable.mounted)

lemma section_addresses:
  "SECTION_CONFIGS ''hero'' = Some 0" "SECTION_CONFIGS ''work'' = Some 1"
  "SECTION_CONFIGS ''agency'' = Some 2" "SECTION_CONFIGS ''contact'' = Some 3"
  "SECTION_CONFIGS_objects 0 = hero_config" "SECTION_CONFIGS_objects 1 = work_config"
  "SECTION_CONFIGS_objects (Suc 0) = work_config"
  "SECTION_CONFIGS_objects 2 = agency_config" "SECTION_CONFIGS_objects 3 = contact_config"
  by (simp_all add: SECTION_CONFIGS_def SECTION_CONFIGS_objects_def)

lemma section_targets:
  "target ''hero'' = ConfigAt 0" "target ''work'' = ConfigAt 1"
  "target ''work'' = ConfigAt (Suc 0)"
  "target ''agency'' = ConfigAt 2" "target ''contact'' = ConfigAt 3"
  by (simp_all add: target_cases SECTION_CONFIGS_def)

lemma config_values:
  "scale hero_config = Fin (7 / 2)"
  "distortion hero_config = Fin (3602879701896397 / 9007199254740992)"
  "color hero_config = Some ''#ffffff''"
  "scale work_config = Fin (9 / 2)"
  "distortion work_config = Fin 0"
  "distortion agency_config = Fin (3 / 2)"
  "color agency_config = Some ''#C67C4E''"
  by (simp_all add: hero_config_def work_config_def agency_config_def lit_eval)

lemma section_configs_within:
  "config_within 5 hero_config" "config_within 5 work_config"
  "config_within 5 agency_config" "config_within 5 contact_config"
  using sections_within [of "''hero''" 0] sections_within [of "''work''" 1]
    sections_within [of "''agency''" 2] sections_within [of "''contact''" 3]
  by (simp_all add: section_addresses)


subsection \<open>Frames that never arrive\<close>

lemma scale_frame:
  assumes "sections_intact w" and "mesh w = Some m" and "materialRef w = Some mat"
    and "SECTION_CONFIGS sec = Some a"
    and "scale (current w) = Fin c" and "scale (SECTION_CONFIGS_objects a) = Fin tv"
    and "lerp (Fin c) (Fin tv) (lerpFactor dt) = Fin n"
  shows "\<exists>w' m' mat'. useFrame_VeroLens sec ms vw dt w = Inr w' \<and> sections_intact w' \<and>
           mesh w' = Some m' \<and> materialRef w' = Some mat' \<and> scale (current w') = Fin n"
proof -
  from frame_step [OF assms(1-4), of ms vw dt] obtain w' m' mat' where
    w': "useFrame_VeroLens sec ms vw dt w = Inr w'" "sections_intact w'"
      "mesh w' = Some m'" "materialRef w' = Some mat'" and
    nf: "numeric Scale (current w') =
           lerp (numeric Scale (current w)) (numeric Scale (SECTION_CONFIGS_objects a))
             (lerpFactor dt)"
    by blast
  have "scale (current w') = Fin n" using nf assms(5-7) by simp
  with w' show ?thesis by blast
qed

text \<open>
  With the frame time 0.8 the factor is the double 2: each frame reflects the scale about
  the 4.5 of \<open>work\<close>, from 3.5 to 5.5 and back.
\<close>

lemma reflect_forever:
  "\<exists>w'. run_frames ''work'' four_fifths frames
          (attach new_Object3D new_material VeroLens_mount) = Inr w' \<and>
     (scale (current w') = Fin (7/2) \<or> scale (current w') = Fin (11/2))"
proof -
  define I where "I = (\<lambda>w. sections_intact w \<and> (\<exists>m. mesh w = Some m) \<and>
     (\<exists>mat. materialRef w = Some mat) \<and>
     (scale (current w) = Fin (7/2) \<or> scale (current w) = Fin (11/2)))"
  have step: "\<exists>w'. useFrame_VeroLens ''work'' ms vw four_fifths w = Inr w' \<and> I w'"
    if "I w" for w ms vw
  proof -
    from that obtain m mat where
      w: "sections_intact w" "mesh w = Some m" "materialRef w = Some mat" and
      s: "scale (current w) = Fin (7/2) \<or> scale (current w) = Fin (11/2)"
      unfolding I_def by blast
    have t: "scale (SECTION_CONFIGS_objects 1) = Fin (9 / 2)"
      by (simp add: section_addresses config_values)
    from s show ?thesis
    proof
      assume "scale (current w) = Fin (7/2)"
      from scale_frame [OF w section_addresses(2) this t lerp_reflect_up]
      show ?thesis unfolding I_def by blast
    next
      assume "scale (current w) = Fin (11/2)"
      from scale_frame [OF w section_addresses(2) this t lerp_reflect_down]
      show ?thesis unfolding I_def by blast
    qed
  qed
  have "I (attach new_Object3D new_material VeroLens_mount)"
    unfolding I_def by (simp add: attach_mount attach_mount_intact config_values)
  from run_frames_invariant [of I "''work''" four_fifths, OF step this, of frames]
  show ?thesis unfolding I_def by blast
qed

text \<open>
  With the section \<open>hero\<close> and frames of 1/60 s the scale starts at its target 3.5, drifts
  upward by one unit in the last place per frame, and stays at 3.5000000000000018 from the
  fourth frame on.
\<close>

lemma drift_forever:
  "\<exists>w'. run_frames ''hero'' sixtieth (p1 # p2 # p3 # p4 # frames)
          (attach new_Object3D new_material VeroLens_mount) = Inr w' \<and>
     scale (current w') = Fin (1970324836974593 / 562949953421312)"
proof -
  define I where "I = (\<lambda>c w. sections_intact w \<and> (\<exists>m. mesh w = Some m) \<and>
     (\<exists>mat. materialRef w = Some mat) \<and> scale (current w) = Fin c)"
  have t: "scale (SECTION_CONFIGS_objects 0) = Fin (7 / 2)"
    by (simp add: section_addresses config_values)
  have step: "\<exists>w'. useFrame_VeroLens ''hero'' ms vw sixtieth w = Inr w' \<and> I n w'"
    if "I c w" and "lerp (Fin c) (Fin (7 / 2)) (lerpFactor sixtieth) = Fin n" for c n w ms vw
  proof -
    from that(1) obtain m mat where
      w: "sections_intact w" "mesh w = Some m" "materialRef w = Some mat" and
      s: "scale (current w) = Fin c"
      unfolding I_def by blast
    from scale_frame [OF w section_addresses(1) s t that(2)]
    show ?thesis unfolding I_def by blast
  qed
  obtain ms1 vw1 ms2 vw2 ms3 vw3 ms4 vw4 where
    p: "p1 = (ms1, vw1)" "p2 = (ms2, vw2)" "p3 = (ms3, vw3)" "p4 = (ms4, vw4)"
    by (cases p1, cases p2, cases p3, cases p4) blast
  have "I (7 / 2) (attach new_Object3D new_material VeroLens_mount)"
    unfolding I_def by (simp add: attach_mount attach_mount_intact config_values)
  from step [OF this lerp_hero_drift_1, of ms1 vw1] obtain w1 where
    w1: "useFrame_VeroLens ''hero'' ms1 vw1 sixtieth
           (attach new_Object3D new_material VeroLens_mount) = Inr w1"
      "I (7881299347898369 / 2251799813685248) w1"
    by blast
  from step [OF w1(2) lerp_hero_drift_2, of ms2 vw2] obtain w2 where
    w2: "useFrame_VeroLens ''hero'' ms2 vw2 sixtieth w1 = Inr w2"
      "I (3940649673949185 / 1125899906842624) w2"
    by blast
  from step [OF w2(2) lerp_hero_drift_3, of ms3 vw3] obtain w3 where
    w3: "useFrame_VeroLens ''hero'' ms3 vw3 sixtieth w2 = Inr w3"
      "I (7881299347898371 / 2251799813685248) w3"
    by blast
  from step [OF w3(2) lerp_hero_drift_4, of ms4 vw4] obtain w4 where
    w4: "useFrame_VeroLens ''hero'' ms4 vw4 sixtieth w3 = Inr w4"
      "I (1970324836974593 / 562949953421312) w4"
    by blast
  have "\<exists>w'. useFrame_VeroLens ''hero'' ms vw sixtieth w = Inr w' \<and>
      I (1970324836974593 / 562949953421312) w'"
    if "I (1970324836974593 / 562949953421312) w" for w ms vw
    using step [OF that lerp_hero_drift_5] .
  from run_frames_invariant [of "I (1970324836974593 / 562949953421312)" "''hero''" sixtieth,
      OF this w4(2), of frames]
  obtain w' where
    w': "run_frames ''hero'' sixtieth frames w4 = Inr w'"
      "I (1970324836974593 / 562949953421312) w'"
    by blast
  have "run_frames ''hero'' sixtieth (p1 # p2 # p3 # p4 # frames)
          (attach new_Object3D new_material VeroLens_mount) = Inr w'"
    using w1(1) w2(1) w3(1) w4(1) w'(1) by (simp add: p)
  with w'(2) show ?thesis unfolding I_def by blast
qed

subsection \<open>The scale step at given numbers\<close>

lemma mobile_knot: "js_mul (Fin 3) (lit (3 / 5)) = Fin (2026619832316723 / 1125899906842624)"
proof -
  have p: "fl (3 * (5404319552844595 / 9007199254740992)) = Fin (2026619832316723 / 1125899906842624)"
    by (rule fl_eval [where e = "0" and k = "8106479329266892"]) (simp_all add: pow2_def)
  show ?thesis
    by (simp only: lit_3_5 js_mul.simps p)
qed

lemma desktop_knot: "js_mul (Fin 3) (Fin 1) = Fin 3"
proof -
  have p: "fl (3 * 1) = Fin 3"
    by (rule fl_eval [where e = "1" and k = "6755399441055744"]) (simp_all add: pow2_def)
  show ?thesis
    by (simp only: js_mul.simps p)
qed

lemma mobile_prism: "js_mul (Fin (7 / 2)) (lit (3 / 5)) = Fin (4728779608739021 / 2251799813685248)"
proof -
  have p: "fl ((7 / 2) * (5404319552844595 / 9007199254740992)) = Fin (4728779608739021 / 2251799813685248)"
    by (rule fl_eval [where e = "1" and k = "4728779608739021"]) (simp_all add: pow2_def)
  show ?thesis
    by (simp only: lit_3_5 js_mul.simps p)
qed

lemma desktop_prism: "js_mul (Fin (7 / 2)) (Fin 1) = Fin (7 / 2)"
proof -
  have p: "fl ((7 / 2) * 1) = Fin (7 / 2)"
    by (rule fl_eval [where e = "1" and k = "7881299347898368"]) (simp_all add: pow2_def)
  show ?thesis
    by (simp only: js_mul.simps p)
qed

lemma mobile_capsule: "js_mul (Fin (5 / 2)) (lit (3 / 5)) = Fin (3 / 2)"
proof -
  have p: "fl ((5 / 2) * (5404319552844595 / 9007199254740992)) = Fin (3 / 2)"
    by (rule fl_eval [where e = "0" and k = "6755399441055744"]) (simp_all add: pow2_def)
  show ?thesis
    by (simp only: lit_3_5 js_mul.simps p)
qed

lemma desktop_capsule: "js_mul (Fin (5 / 2)) (Fin 1) = Fin (5 / 2)"
proof -
  have p: "fl ((5 / 2) * 1) = Fin (5 / 2)"
    by (rule fl_eval [where e = "1" and k = "5629499534213120"]) (simp_all add: pow2_def)
  show ?thesis
    by (simp only: js_mul.simps p)
qed

lemma scale_step_prism:
  "js_add (Fin 1) (js_mul (js_sub (Fin (7 / 2)) (Fin 1)) (js_mul (Fin sixtieth) (Fin 4))) = Fin (5254199565265579 / 4503599627370496)"
proof -
  have al: "fl (sixtieth * 4) = Fin (4803839602528529 / 72057594037927936)"
    unfolding sixtieth_def
    by (rule fl_eval [where e = "- 4" and k = "4803839602528529"]) (simp_all add: pow2_def)
  have d: "fl ((7 / 2) - 1) = Fin (5 / 2)"
    by (rule fl_eval [where e = "1" and k = "5629499534213120"]) (simp_all add: pow2_def)
  have m: "fl ((5 / 2) * (4803839602528529 / 72057594037927936)) = Fin (6004799503160661 / 36028797018963968)"
    by (rule fl_eval [where e = "- 3" and k = "6004799503160661"]) (simp_all add: pow2_def)
  have n: "fl (1 + (6004799503160661 / 36028797018963968)) = Fin (5254199565265579 / 4503599627370496)"
    by (rule fl_eval [where e = "0" and k = "5254199565265579"]) (simp_all add: pow2_def)
  show ?thesis
    by (simp only: js_add.simps js_sub.simps js_mul.simps al d m n)
qed

lemma scale_step_knot_out:
  "js_add (Fin 1) (js_mul (js_sub (Fin 0) (Fin 1)) (js_mul (Fin sixtieth) (Fin 4))) = Fin (4203359652212463 / 4503599627370496)"
proof -
  have al: "fl (sixtieth * 4) = Fin (4803839602528529 / 72057594037927936)"
    unfolding sixtieth_def
    by (rule fl_eval [where e = "- 4" and k = "4803839602528529"]) (simp_all add: pow2_def)
  have d: "fl (0 - 1) = Fin (- 1)"
    by (rule fl_eval [where e = "0" and k = "- 4503599627370496"]) (simp_all add: pow2_def)
  have m: "fl ((- 1) * (4803839602528529 / 72057594037927936)) = Fin (- (4803839602528529 / 72057594037927936))"
    by (rule fl_eval [where e = "- 4" and k = "- 4803839602528529"]) (simp_all add: pow2_def)
  have n: "fl (1 + (- (4803839602528529 / 72057594037927936))) = Fin (4203359652212463 / 4503599627370496)"
    by (rule fl_eval [where e = "- 1" and k = "8406719304424926"]) (simp_all add: pow2_def)
  show ?thesis
    by (simp only: js_add.simps js_sub.simps js_mul.simps al d m n)
qed

lemma scale_step_knot_in:
  "js_add (Fin 1) (js_mul (js_sub (Fin 3) (Fin 1)) (js_mul (Fin tenth) (Fin 4))) = Fin (8106479329266893 / 4503599627370496)"
proof -
  have al: "fl (tenth * 4) = Fin (3602879701896397 / 9007199254740992)"
    unfolding tenth_def
    by (rule fl_eval [where e = "- 2" and k = "7205759403792794"]) (simp_all add: pow2_def)
  have d: "fl (3 - 1) = Fin 2"
    by (rule fl_eval [where e = "1" and k = "4503599627370496"]) (simp_all add: pow2_def)
  have m: "fl (2 * (3602879701896397 / 9007199254740992)) = Fin (3602879701896397 / 4503599627370496)"
    by (rule fl_eval [where e = "- 1" and k = "7205759403792794"]) (simp_all add: pow2_def)
  have n: "fl (1 + (3602879701896397 / 4503599627370496)) = Fin (8106479329266893 / 4503599627370496)"
    by (rule fl_eval [where e = "0" and k = "8106479329266893"]) (simp_all add: pow2_def)
  show ?thesis
    by (simp only: js_add.simps js_sub.simps js_mul.simps al d m n)
qed

subsection \<open>The shape morpher\<close>

lemmas fl_lits = lit_eval [unfolded lit_def]

lemma currentShape_cases:
  "currentShape sec = ''knot'' \<or> currentShape sec = ''prism'' \<or>
   currentShape sec = ''capsule'' \<or> currentShape sec = ''orb''"
  by (simp add: currentShape_def shape_of_def SECTION_CONFIGS_morph_def)

lemma scaled_nonzero:
  "js_mul (Fin 3) (mobileRatio vw) \<noteq> Fin 0"
  "js_mul (Fin (7 / 2)) (mobileRatio vw) \<noteq> Fin 0"
  "js_mul (Fin (5 / 2)) (mobileRatio vw) \<noteq> Fin 0"
  by (simp_all add: mobileRatio_def mobile_knot mobile_prism mobile_capsule
      desktop_knot desktop_prism desktop_capsule del: js_mul.simps)

lemma animateScale_attached:
  "\<exists>obj'. animateScale (Some obj) ts dt = Some obj' \<and>
     scale3 obj' = vec3_lerp (scale3 obj) (setScalar ts) (js_mul (Fin dt) (Fin 4))"
  by (simp add: animateScale_def Let_def setScalar_def del: js_mul.simps)

lemma useFrame_MorphingShape_attached:
  assumes "group_ref w = Some g"
  shows "knot (useFrame_MorphingShape sec ms vw dt w) =
           animateScale (knot w)
             (if currentShape sec = ''knot'' then js_mul (Fin 3) (mobileRatio vw) else Fin 0) dt"
    and "prism (useFrame_MorphingShape sec ms vw dt w) =
           animateScale (prism w)
             (if currentShape sec = ''prism'' then js_mul (Fin (7 / 2)) (mobileRatio vw)
              else Fin 0) dt"
    and "capsule (useFrame_MorphingShape sec ms vw dt w) =
           animateScale (capsule w)
             (if currentShape sec = ''capsule'' then js_mul (Fin (5 / 2)) (mobileRatio vw)
              else Fin 0) dt"
    and "orb (useFrame_MorphingShape sec ms vw dt w) =
           animateScale (orb w)
             (if currentShape sec = ''orb'' then js_mul (Fin (5 / 2)) (mobileRatio vw)
              else Fin 0) dt"
  using assms
  by (simp_all add: useFrame_MorphingShape_def targetScales_def Let_def lit_eval
      del: js_mul.simps)

section \<open>The easing step of the lens animator\<close>




text \<open>
  Claim C3. For every current value \<open>c\<close> and target value \<open>tv\<close> of a numeric field, of
  magnitude at most \<open>M \<le> 2\<^sup>3\<^sup>0\<^sup>0\<close>, and every frame time with \<open>0 \<le> dt \<le> 0.4\<close>, one frame with
  attached refs moves the field by at most \<open>2.5 * dt * |tv - c|\<close> and not past the target,
  up to the rounding slack \<open>r = rounding_slack dt M\<close>: the new value lies between
  \<open>min c tv - r\<close> and \<open>max c tv + r\<close>, it differs from \<open>c\<close> by at most
  \<open>2.5 * dt * |tv - c| + r\<close>, and its distance to the target differs from
  \<open>(1 - 2.5 * dt) * |c - tv|\<close> by at most \<open>r\<close>.
\<close>

theorem C3_single_step_bound:
  assumes "mesh w = Some m" and "materialRef w = Some mat"
    and "fields_of (heap w) (target sec) = Inr t"
    and "numeric f (current w) = Fin c" and "numeric f t = Fin tv"
    and "\<bar>c\<bar> \<le> M" and "\<bar>tv\<bar> \<le> M" and "M \<le> 2 ^ 300"
    and "0 \<le> dt" and "dt \<le> 2/5"
  shows "\<exists>w' n. useFrame_VeroLens sec ms vw dt w = Inr w' \<and>
           numeric f (current w') = Fin n \<and>
           \<bar>n - c\<bar> \<le> 5/2 * dt * \<bar>tv - c\<bar> + rounding_slack dt M \<and>
           min c tv - rounding_slack dt M \<le> n \<and> n \<le> max c tv + rounding_slack dt M \<and>
           \<bar>\<bar>n - tv\<bar> - (1 - 5/2 * dt) * \<bar>c - tv\<bar>\<bar> \<le> rounding_slack dt M"
proof -
  from useFrame_numeric [OF assms(1-3), of ms vw dt] obtain w' where
    w': "useFrame_VeroLens sec ms vw dt w = Inr w'" and
    nf: "numeric f (current w') = lerp (numeric f (current w)) (numeric f t) (lerpFactor dt)"
    by blast
  define x where "x = c + (tv - c) * (5/2 * dt)"
  have k: "0 \<le> 5/2 * dt" "5/2 * dt \<le> 1" using assms(9,10) by simp_all
  have dM: "\<bar>dt\<bar> \<le> 2 ^ 300"
  proof -
    have "(1::real) \<le> 2 ^ 300" by simp
    with assms(9,10) show ?thesis by linarith
  qed
  from lerp_error [OF assms(6,7) dM assms(8)] obtain n where
    n: "lerp (Fin c) (Fin tv) (lerpFactor dt) = Fin n" and
    e: "\<bar>n - x\<bar> \<le> rounding_slack dt M"
    unfolding x_def by blast
  have "numeric f (current w') = Fin n" using nf assms(4,5) n by simp
  moreover note x = convex_step [OF k x_def]
  have "\<bar>n - c\<bar> \<le> 5/2 * dt * \<bar>tv - c\<bar> + rounding_slack dt M"
    using e x(1) by linarith
  moreover have "min c tv - rounding_slack dt M \<le> n" using e x(2) by linarith
  moreover have "n \<le> max c tv + rounding_slack dt M" using e x(3) by linarith
  moreover have "\<bar>\<bar>n - tv\<bar> - (1 - 5/2 * dt) * \<bar>c - tv\<bar>\<bar> \<le> rounding_slack dt M"
    using e x(4) by linarith
  ultimately show ?thesis using w' by blast
qed

theorem C3_single_step_bound_witness:
  "mesh (attach new_Object3D new_material VeroLens_mount) = Some new_Object3D \<and>
   materialRef (attach new_Object3D new_material VeroLens_mount) = Some new_material \<and>
   fields_of (heap (attach new_Object3D new_material VeroLens_mount)) (target ''work'')
     = Inr work_config \<and>
   numeric Scale (current (attach new_Object3D new_material VeroLens_mount)) = Fin (7/2) \<and>
   numeric Scale work_config = Fin (9/2) \<and>
   \<bar>7/2 :: real\<bar> \<le> 5 \<and> \<bar>9/2 :: real\<bar> \<le> 5 \<and> (5::real) \<le> 2 ^ 300 \<and>
   0 \<le> sixtieth \<and> sixtieth \<le> 2/5 \<and>
   (\<exists>w' n. useFrame_VeroLens ''work'' initial_mouse 10 sixtieth
              (attach new_Object3D new_material VeroLens_mount) = Inr w' \<and>
           numeric Scale (current w') = Fin n \<and>
           \<bar>n - 7/2\<bar> \<le> 5/2 * sixtieth * \<bar>9/2 - 7/2\<bar> + rounding_slack sixtieth 5 \<and>
           min (7/2) (9/2) - rounding_slack sixtieth 5 \<le> n \<and>
           n \<le> max (7/2) (9/2) + rounding_slack sixtieth 5 \<and>
           \<bar>\<bar>n - 9/2\<bar> - (1 - 5/2 * sixtieth) * \<bar>7/2 - 9/2\<bar>\<bar> \<le> rounding_slack sixtieth 5)"
proof -
  have a: "mesh (attach new_Object3D new_material VeroLens_mount) = Some new_Object3D"
    and b: "materialRef (attach new_Object3D new_material VeroLens_mount) = Some new_material"
    and c: "fields_of (heap (attach new_Object3D new_material VeroLens_mount)) (target ''work'')
              = Inr work_config"
    and d: "numeric Scale (current (attach new_Object3D new_material VeroLens_mount)) = Fin (7/2)"
    and e: "numeric Scale work_config = Fin (9/2)"
    and f: "\<bar>7/2 :: real\<bar> \<le> 5" and g: "\<bar>9/2 :: real\<bar> \<le> 5" and h: "(5::real) \<le> 2 ^ 300"
    and i: "0 \<le> sixtieth" and j: "sixtieth \<le> 2/5"
    by (simp_all add: attach_mount section_targets config_values sixtieth_def)
  from C3_single_step_bound [OF a b c d e f g h i j, of initial_mouse 10]
    a b c d e f g h i j
  show ?thesis
    by (intro conjI) assumption+
qed

text \<open>
  As stated, C3 fails in two ways. On the first frame of the page (section \<open>hero\<close>, 1/60 s)
  the scale is at its target 3.5 and the rounded step moves it to 3.5000000000000004, past
  the target and at a distance from it that is not 0. And the frame time is not clamped:
  with \<open>dt = 1\<close> (a frame after a pause of one second) distortion goes from 0.4 past the
  target 0 of \<open>work\<close> to -0.6000000000000001.
\<close>

theorem C3_step_counterexample:
  "scale (current (attach new_Object3D new_material VeroLens_mount)) = Fin (7/2) \<and>
   fields_of (heap (attach new_Object3D new_material VeroLens_mount)) (target ''hero'')
     = Inr hero_config \<and>
   scale hero_config = Fin (7/2) \<and> 0 \<le> sixtieth \<and> sixtieth \<le> 2/5 \<and>
   (\<exists>w'. useFrame_VeroLens ''hero'' initial_mouse 10 sixtieth
            (attach new_Object3D new_material VeroLens_mount) = Inr w' \<and>
      scale (current w') = Fin (7881299347898369 / 2251799813685248)) \<and>
   max (7/2) (7/2 :: real) < 7881299347898369 / 2251799813685248 \<and>
   \<bar>7881299347898369 / 2251799813685248 - 7/2 :: real\<bar>
     \<noteq> (1 - 5/2 * sixtieth) * \<bar>7/2 - 7/2\<bar> \<and>
   distortion (current (attach new_Object3D new_material VeroLens_mount))
     = Fin (3602879701896397 / 9007199254740992) \<and>
   fields_of (heap (attach new_Object3D new_material VeroLens_mount)) (target ''work'')
     = Inr work_config \<and>
   distortion work_config = Fin 0 \<and>
   (\<exists>w'. useFrame_VeroLens ''work'' initial_mouse 10 1
            (attach new_Object3D new_material VeroLens_mount) = Inr w' \<and>
      distortion (current w') = Fin (- (1351079888211149 / 2251799813685248))) \<and>
   (- (1351079888211149 / 2251799813685248) :: real)
     < min (3602879701896397 / 9007199254740992) 0"
proof -
  from frame_step [OF attach_mount_intact attach_mount(1,2) section_addresses(1)]
  obtain w1 where
    w1: "useFrame_VeroLens ''hero'' initial_mouse 10 sixtieth
           (attach new_Object3D new_material VeroLens_mount) = Inr w1" and
    n1: "numeric Scale (current w1) =
           lerp (numeric Scale (current (attach new_Object3D new_material VeroLens_mount)))
             (numeric Scale (SECTION_CONFIGS_objects 0)) (lerpFactor sixtieth)"
    by blast
  have "scale (current w1) = Fin (7881299347898369 / 2251799813685248)"
    using n1 by (simp add: attach_mount section_addresses config_values lerp_hero_drift_1)
  with w1 have fr1: "\<exists>w'. useFrame_VeroLens ''hero'' initial_mouse 10 sixtieth
            (attach new_Object3D new_material VeroLens_mount) = Inr w' \<and>
      scale (current w') = Fin (7881299347898369 / 2251799813685248)"
    by blast
  from frame_step [OF attach_mount_intact attach_mount(1,2) section_addresses(2)]
  obtain w2 where
    w2: "useFrame_VeroLens ''work'' initial_mouse 10 1
           (attach new_Object3D new_material VeroLens_mount) = Inr w2" and
    n2: "numeric Distortion (current w2) =
           lerp (numeric Distortion (current (attach new_Object3D new_material VeroLens_mount)))
             (numeric Distortion (SECTION_CONFIGS_objects 1)) (lerpFactor 1)"
    by blast
  have "distortion (current w2) = Fin (- (1351079888211149 / 2251799813685248))"
    using n2 by (simp add: attach_mount section_addresses config_values lerp_overshoot)
  with w2 have fr2: "\<exists>w'. useFrame_VeroLens ''work'' initial_mouse 10 1
            (attach new_Object3D new_material VeroLens_mount) = Inr w' \<and>
      distortion (current w') = Fin (- (1351079888211149 / 2251799813685248))"
    by blast
  have n: "0 \<le> sixtieth" "sixtieth \<le> 2/5"
    "max (7/2) (7/2 :: real) < 7881299347898369 / 2251799813685248"
    "\<bar>7881299347898369 / 2251799813685248 - 7/2 :: real\<bar>
       \<noteq> (1 - 5/2 * sixtieth) * \<bar>7/2 - 7/2\<bar>"
    "(- (1351079888211149 / 2251799813685248) :: real)
       < min (3602879701896397 / 9007199254740992) 0"
    by (simp_all add: sixtieth_def)
  show ?thesis
    using fr1 fr2 n by (simp add: attach_mount section_targets config_values)
qed

section \<open>The colour field and retargeting\<close>

text \<open>
  Claim C7. On a frame step on which the mesh ref and the material ref are attached, the
  colour of the current parameter vector (and of the material) becomes the colour of the
  active section's target, whatever the previous colour and the frame time were, while each
  numeric field is eased by \<open>lerp\<close> with the factor \<open>2.5 * dt\<close>.
\<close>

theorem C7_color_swapped:
  assumes "mesh w = Some m" and "materialRef w = Some mat"
  shows "\<exists>t w' mat'. fields_of (heap w) (target sec) = Inr t \<and>
            (\<forall>a. SECTION_CONFIGS sec = Some a \<longrightarrow> t = heap w a) \<and>
            useFrame_VeroLens sec ms vw dt w = Inr w' \<and>
            color (current w') = color t \<and>
            materialRef w' = Some mat' \<and> mat_color mat' = color t \<and>
            (\<forall>f. numeric f (current w') =
                lerp (numeric f (current w)) (numeric f t) (lerpFactor dt))"
proof -
  obtain t where t: "fields_of (heap w) (target sec) = Inr t"
    using fields_of_target by blast
  have sec: "\<forall>a. SECTION_CONFIGS sec = Some a \<longrightarrow> t = heap w a"
    using t by (auto simp: target_cases)
  from useFrame_attached [OF assms t, of ms vw dt] obtain w' mat' where
    "useFrame_VeroLens sec ms vw dt w = Inr w'" "materialRef w' = Some mat'"
    "mat_color mat' = color t"
    by blast
  moreover from useFrame_numeric [OF assms t, of ms vw dt] obtain w'' where
    "useFrame_VeroLens sec ms vw dt w = Inr w''" "color (current w'') = color t"
    "\<forall>f. numeric f (current w'') =
        lerp (numeric f (current w)) (numeric f t) (lerpFactor dt)"
    by blast
  ultimately show ?thesis using t sec by auto
qed

theorem C7_color_swapped_witness:
  "mesh (attach new_Object3D new_material VeroLens_mount) = Some new_Object3D \<and>
   materialRef (attach new_Object3D new_material VeroLens_mount) = Some new_material \<and>
   (\<exists>t w' mat'.
      fields_of (heap (attach new_Object3D new_material VeroLens_mount)) (target ''agency'')
        = Inr t \<and>
      (\<forall>a. SECTION_CONFIGS ''agency'' = Some a \<longrightarrow>
           t = heap (attach new_Object3D new_material VeroLens_mount) a) \<and>
      useFrame_VeroLens ''agency'' initial_mouse 10 sixtieth
        (attach new_Object3D new_material VeroLens_mount) = Inr w' \<and>
      color (current w') = color t \<and>
      materialRef w' = Some mat' \<and> mat_color mat' = color t \<and>
      (\<forall>f. numeric f (current w') =
          lerp (numeric f (current (attach new_Object3D new_material VeroLens_mount)))
            (numeric f t) (lerpFactor sixtieth)))"
proof -
  have a: "mesh (attach new_Object3D new_material VeroLens_mount) = Some new_Object3D"
    and b: "materialRef (attach new_Object3D new_material VeroLens_mount) = Some new_material"
    by (simp_all add: attach_def)
  from C7_color_swapped [OF a b, of "''agency''" initial_mouse 10 sixtieth] a b show ?thesis
    by (intro conjI) assumption+
qed

text \<open>
  As stated for every frame step, C7 fails: while a ref is null the callback returns before
  the assignment, so a frame for the section \<open>agency\<close> leaves the colour at the hero white.
\<close>

theorem C7_unattached_counterexample:
  "useFrame_VeroLens ''agency'' initial_mouse 10 sixtieth VeroLens_mount = Inr VeroLens_mount \<and>
   fields_of (heap VeroLens_mount) (target ''agency'') = Inr agency_config \<and>
   color agency_config = Some ''#C67C4E'' \<and>
   color (current VeroLens_mount) = Some ''#ffffff''"
proof -
  have "useFrame_VeroLens ''agency'' initial_mouse 10 sixtieth VeroLens_mount
      = Inr VeroLens_mount"
    by (rule useFrame_unattached) (simp add: VeroLens_mount_def)
  then show ?thesis by (simp add: attach_mount section_targets config_values)
qed

text \<open>
  The scale step of the shape morpher moves each component by at most \<open>4 * dt\<close> times its
  distance to the target scale, up to the rounding slack.
\<close>

lemma animateScale_bound:
  assumes "scale3 obj = Vector3 (Fin x) (Fin y) (Fin z)"
    and "\<bar>x\<bar> \<le> M" and "\<bar>y\<bar> \<le> M" and "\<bar>z\<bar> \<le> M" and "\<bar>ts\<bar> \<le> M"
    and "M \<le> 2 ^ 300" and "0 \<le> dt" and "dt \<le> 2 ^ 300"
  shows "\<exists>obj' x' y' z'. animateScale (Some obj) (Fin ts) dt = Some obj' \<and>
           scale3 obj' = Vector3 (Fin x') (Fin y') (Fin z') \<and>
           \<bar>x' - x\<bar> \<le> 4 * dt * \<bar>ts - x\<bar> + scale_slack dt M \<and>
           \<bar>y' - y\<bar> \<le> 4 * dt * \<bar>ts - y\<bar> + scale_slack dt M \<and>
           \<bar>z' - z\<bar> \<le> 4 * dt * \<bar>ts - z\<bar> + scale_slack dt M"
proof -
  have dM: "\<bar>dt\<bar> \<le> 2 ^ 300" using assms(7,8) by simp
  have b: "\<exists>n. js_add (Fin v) (js_mul (js_sub (Fin ts) (Fin v)) (js_mul (Fin dt) (Fin 4))) = Fin n \<and>
      \<bar>n - v\<bar> \<le> 4 * dt * \<bar>ts - v\<bar> + scale_slack dt M"
    if v: "\<bar>v\<bar> \<le> M" for v
  proof -
    from scale_step_error [OF v assms(5) dM assms(6)] obtain n where
      n: "js_add (Fin v) (js_mul (js_sub (Fin ts) (Fin v)) (js_mul (Fin dt) (Fin 4))) = Fin n" and
      e: "\<bar>n - (v + (ts - v) * (4 * dt))\<bar> \<le> scale_slack dt M"
      by blast
    have "\<bar>(ts - v) * (4 * dt)\<bar> = \<bar>ts - v\<bar> * \<bar>4 * dt\<bar>" by (simp only: abs_mult)
    then have "\<bar>(ts - v) * (4 * dt)\<bar> = 4 * dt * \<bar>ts - v\<bar>" using assms(7) by simp
    with e have "\<bar>n - v\<bar> \<le> 4 * dt * \<bar>ts - v\<bar> + scale_slack dt M" by linarith
    with n show ?thesis by blast
  qed
  obtain obj' where o: "animateScale (Some obj) (Fin ts) dt = Some obj'"
    "scale3 obj' = vec3_lerp (scale3 obj) (Vector3 (Fin ts) (Fin ts) (Fin ts))
       (js_mul (Fin dt) (Fin 4))"
    by (simp add: animateScale_def Let_def)
  from b [OF assms(2)] b [OF assms(3)] b [OF assms(4)] obtain x' y' z' where
    c: "js_add (Fin x) (js_mul (js_sub (Fin ts) (Fin x)) (js_mul (Fin dt) (Fin 4))) = Fin x'"
       "js_add (Fin y) (js_mul (js_sub (Fin ts) (Fin y)) (js_mul (Fin dt) (Fin 4))) = Fin y'"
       "js_add (Fin z) (js_mul (js_sub (Fin ts) (Fin z)) (js_mul (Fin dt) (Fin 4))) = Fin z'" and
    d: "\<bar>x' - x\<bar> \<le> 4 * dt * \<bar>ts - x\<bar> + scale_slack dt M"
       "\<bar>y' - y\<bar> \<le> 4 * dt * \<bar>ts - y\<bar> + scale_slack dt M"
       "\<bar>z' - z\<bar> \<le> 4 * dt * \<bar>ts - z\<bar> + scale_slack dt M"
    by blast
  have "scale3 obj' = Vector3 (Fin x') (Fin y') (Fin z')"
    by (simp only: o(2) assms(1) vec3_lerp.simps c)
  with o(1) d show ?thesis by blast
qed

text \<open>
  Claim C8. When the active section changes, whatever the current parameter vector is
  (converged or not), the next frame step on which the mesh ref and the material ref are
  attached, with a frame time \<open>0 \<le> dt \<le> 2\<^sup>3\<^sup>0\<^sup>0\<close>, from numeric fields of the current vector
  and of the new target that are finite numbers of magnitude at most \<open>M \<le> 2\<^sup>3\<^sup>0\<^sup>0\<close>,
  changes every numeric field by at most \<open>2.5 * dt\<close> times its distance to the new target
  plus the rounding slack \<open>rounding_slack dt M\<close>. The colour is not eased: that frame step
  sets the colour of the current vector and of the material to the new target's colour.
  In the shape-morphing variant a scale step with such a frame time moves each component of
  a primitive's scale, from components and a target scale of magnitude at most \<open>M\<close>, by at
  most \<open>4 * dt\<close> times its distance to the new target scale plus \<open>scale_slack dt M\<close>.
\<close>

theorem C8_retarget_numeric_bound:
  assumes "mesh w = Some m" and "materialRef w = Some mat"
    and "fields_of (heap w) (target sec) = Inr t"
    and "config_within M (current w)" and "config_within M t"
    and "M \<le> 2 ^ 300" and "0 \<le> dt" and "dt \<le> 2 ^ 300"
  shows "\<exists>w' mat'. useFrame_VeroLens sec ms vw dt w = Inr w' \<and>
           (\<forall>f. \<exists>c tv n. numeric f (current w) = Fin c \<and> numeric f t = Fin tv \<and>
                 numeric f (current w') = Fin n \<and>
                 \<bar>n - c\<bar> \<le> 5/2 * dt * \<bar>tv - c\<bar> + rounding_slack dt M) \<and>
           color (current w') = color t \<and>
           materialRef w' = Some mat' \<and> mat_color mat' = color t \<and>
           (\<forall>obj x y z ts. scale3 obj = Vector3 (Fin x) (Fin y) (Fin z) \<and>
                 \<bar>x\<bar> \<le> M \<and> \<bar>y\<bar> \<le> M \<and> \<bar>z\<bar> \<le> M \<and> \<bar>ts\<bar> \<le> M \<longrightarrow>
              (\<exists>obj' x' y' z'. animateScale (Some obj) (Fin ts) dt = Some obj' \<and>
                 scale3 obj' = Vector3 (Fin x') (Fin y') (Fin z') \<and>
                 \<bar>x' - x\<bar> \<le> 4 * dt * \<bar>ts - x\<bar> + scale_slack dt M \<and>
                 \<bar>y' - y\<bar> \<le> 4 * dt * \<bar>ts - y\<bar> + scale_slack dt M \<and>
                 \<bar>z' - z\<bar> \<le> 4 * dt * \<bar>ts - z\<bar> + scale_slack dt M))"
proof -
  have dM: "\<bar>dt\<bar> \<le> 2 ^ 300" using assms(7,8) by simp
  from useFrame_attached [OF assms(1-3), of ms vw dt] obtain w' mat' where
    w': "useFrame_VeroLens sec ms vw dt w = Inr w'" and
    mat': "materialRef w' = Some mat'" "mat_color mat' = color t"
    by blast
  from useFrame_numeric [OF assms(1-3), of ms vw dt] w' have
    col: "color (current w') = color t" and
    nf: "\<forall>f. numeric f (current w') = lerp (numeric f (current w)) (numeric f t) (lerpFactor dt)"
    by simp_all
  have num: "\<exists>c tv n. numeric f (current w) = Fin c \<and> numeric f t = Fin tv \<and>
      numeric f (current w') = Fin n \<and>
      \<bar>n - c\<bar> \<le> 5/2 * dt * \<bar>tv - c\<bar> + rounding_slack dt M" for f
  proof -
    from numeric_within [OF assms(4), of f] obtain c where
      c: "numeric f (current w) = Fin c" "\<bar>c\<bar> \<le> M"
      by blast
    from numeric_within [OF assms(5), of f] obtain tv where
      tv: "numeric f t = Fin tv" "\<bar>tv\<bar> \<le> M"
      by blast
    from lerp_error [OF c(2) tv(2) dM assms(6)] obtain n where
      n: "lerp (Fin c) (Fin tv) (lerpFactor dt) = Fin n" and
      e: "\<bar>n - (c + (tv - c) * (5/2 * dt))\<bar> \<le> rounding_slack dt M"
      by blast
    have "\<bar>(tv - c) * (5/2 * dt)\<bar> = \<bar>tv - c\<bar> * \<bar>5/2 * dt\<bar>" by (simp only: abs_mult)
    then have "\<bar>(tv - c) * (5/2 * dt)\<bar> = 5/2 * dt * \<bar>tv - c\<bar>" using assms(7) by simp
    with e have "\<bar>n - c\<bar> \<le> 5/2 * dt * \<bar>tv - c\<bar> + rounding_slack dt M" by linarith
    moreover have "numeric f (current w') = Fin n" using nf c(1) tv(1) n by simp
    ultimately show ?thesis using c(1) tv(1) by blast
  qed
  have morph: "\<exists>obj' x' y' z'. animateScale (Some obj) (Fin ts) dt = Some obj' \<and>
      scale3 obj' = Vector3 (Fin x') (Fin y') (Fin z') \<and>
      \<bar>x' - x\<bar> \<le> 4 * dt * \<bar>ts - x\<bar> + scale_slack dt M \<and>
      \<bar>y' - y\<bar> \<le> 4 * dt * \<bar>ts - y\<bar> + scale_slack dt M \<and>
      \<bar>z' - z\<bar> \<le> 4 * dt * \<bar>ts - z\<bar> + scale_slack dt M"
    if "scale3 obj = Vector3 (Fin x) (Fin y) (Fin z) \<and>
        \<bar>x\<bar> \<le> M \<and> \<bar>y\<bar> \<le> M \<and> \<bar>z\<bar> \<le> M \<and> \<bar>ts\<bar> \<le> M" for obj x y z ts
    using that animateScale_bound [OF _ _ _ _ _ assms(6,7,8), of obj x y z ts] by blast
  from w' num col mat' morph show ?thesis by blast
qed

theorem C8_retarget_numeric_bound_witness:
  "mesh (attach new_Object3D new_material VeroLens_mount) = Some new_Object3D \<and>
   materialRef (attach new_Object3D new_material VeroLens_mount) = Some new_material \<and>
   fields_of (heap (attach new_Object3D new_material VeroLens_mount)) (target ''agency'')
     = Inr agency_config \<and>
   config_within 5 (current (attach new_Object3D new_material VeroLens_mount)) \<and>
   config_within 5 agency_config \<and> (5::real) \<le> 2 ^ 300 \<and>
   0 \<le> sixtieth \<and> sixtieth \<le> 2 ^ 300 \<and>
   (\<exists>w' mat'. useFrame_VeroLens ''agency'' initial_mouse 10 sixtieth
            (attach new_Object3D new_material VeroLens_mount) = Inr w' \<and>
      (\<forall>f. \<exists>c tv n.
          numeric f (current (attach new_Object3D new_material VeroLens_mount)) = Fin c \<and>
          numeric f agency_config = Fin tv \<and> numeric f (current w') = Fin n \<and>
          \<bar>n - c\<bar> \<le> 5/2 * sixtieth * \<bar>tv - c\<bar> + rounding_slack sixtieth 5) \<and>
      color (current w') = color agency_config \<and>
      materialRef w' = Some mat' \<and> mat_color mat' = color agency_config) \<and>
   scale3 new_Object3D = Vector3 (Fin 1) (Fin 1) (Fin 1) \<and> \<bar>1 :: real\<bar> \<le> 5 \<and>
   \<bar>5/2 :: real\<bar> \<le> 5 \<and>
   (\<exists>obj' x' y' z'. animateScale (Some new_Object3D) (Fin (5/2)) sixtieth = Some obj' \<and>
      scale3 obj' = Vector3 (Fin x') (Fin y') (Fin z') \<and>
      \<bar>x' - 1\<bar> \<le> 4 * sixtieth * \<bar>5/2 - 1\<bar> + scale_slack sixtieth 5 \<and>
      \<bar>y' - 1\<bar> \<le> 4 * sixtieth * \<bar>5/2 - 1\<bar> + scale_slack sixtieth 5 \<and>
      \<bar>z' - 1\<bar> \<le> 4 * sixtieth * \<bar>5/2 - 1\<bar> + scale_slack sixtieth 5)"
proof -
  have a: "mesh (attach new_Object3D new_material VeroLens_mount) = Some new_Object3D"
    and b: "materialRef (attach new_Object3D new_material VeroLens_mount) = Some new_material"
    and c: "fields_of (heap (attach new_Object3D new_material VeroLens_mount)) (target ''agency'')
             = Inr agency_config"
    and d: "config_within 5 (current (attach new_Object3D new_material VeroLens_mount))"
    and e: "config_within 5 agency_config" and f: "(5::real) \<le> 2 ^ 300"
    and g: "0 \<le> sixtieth" and h: "sixtieth \<le> 2 ^ 300"
    by (simp_all add: attach_mount section_targets section_configs_within sixtieth_def)
  have s: "scale3 new_Object3D = Vector3 (Fin 1) (Fin 1) (Fin 1)"
    and i: "\<bar>1 :: real\<bar> \<le> 5" and j: "\<bar>5/2 :: real\<bar> \<le> 5"
    by (simp_all add: new_Object3D_def)
  from C8_retarget_numeric_bound [OF a b c d e f g h, of initial_mouse 10] obtain w' mat' where
    1: "useFrame_VeroLens ''agency'' initial_mouse 10 sixtieth
       (attach new_Object3D new_material VeroLens_mount) = Inr w'" and
    2: "\<forall>f. \<exists>c tv n.
        numeric f (current (attach new_Object3D new_material VeroLens_mount)) = Fin c \<and>
        numeric f agency_config = Fin tv \<and> numeric f (current w') = Fin n \<and>
        \<bar>n - c\<bar> \<le> 5/2 * sixtieth * \<bar>tv - c\<bar> + rounding_slack sixtieth 5" and
    3: "color (current w') = color agency_config" "materialRef w' = Some mat'"
       "mat_color mat' = color agency_config" and
    4: "\<forall>obj x y z ts. scale3 obj = Vector3 (Fin x) (Fin y) (Fin z) \<and>
           \<bar>x\<bar> \<le> 5 \<and> \<bar>y\<bar> \<le> 5 \<and> \<bar>z\<bar> \<le> 5 \<and> \<bar>ts\<bar> \<le> 5 \<longrightarrow>
          (\<exists>obj' x' y' z'. animateScale (Some obj) (Fin ts) sixtieth = Some obj' \<and>
             scale3 obj' = Vector3 (Fin x') (Fin y') (Fin z') \<and>
             \<bar>x' - x\<bar> \<le> 4 * sixtieth * \<bar>ts - x\<bar> + scale_slack sixtieth 5 \<and>
             \<bar>y' - y\<bar> \<le> 4 * sixtieth * \<bar>ts - y\<bar> + scale_slack sixtieth 5 \<and>
             \<bar>z' - z\<bar> \<le> 4 * sixtieth * \<bar>ts - z\<bar> + scale_slack sixtieth 5)"
    by blast
  from 4 s i j have 5: "\<exists>obj' x' y' z'.
      animateScale (Some new_Object3D) (Fin (5/2)) sixtieth = Some obj' \<and>
      scale3 obj' = Vector3 (Fin x') (Fin y') (Fin z') \<and>
      \<bar>x' - 1\<bar> \<le> 4 * sixtieth * \<bar>5/2 - 1\<bar> + scale_slack sixtieth 5 \<and>
      \<bar>y' - 1\<bar> \<le> 4 * sixtieth * \<bar>5/2 - 1\<bar> + scale_slack sixtieth 5 \<and>
      \<bar>z' - 1\<bar> \<le> 4 * sixtieth * \<bar>5/2 - 1\<bar> + scale_slack sixtieth 5"
    by blast
  from 1 2 3 have 6: "\<exists>w' mat'. useFrame_VeroLens ''agency'' initial_mouse 10 sixtieth
            (attach new_Object3D new_material VeroLens_mount) = Inr w' \<and>
      (\<forall>f. \<exists>c tv n.
          numeric f (current (attach new_Object3D new_material VeroLens_mount)) = Fin c \<and>
          numeric f agency_config = Fin tv \<and> numeric f (current w') = Fin n \<and>
          \<bar>n - c\<bar> \<le> 5/2 * sixtieth * \<bar>tv - c\<bar> + rounding_slack sixtieth 5) \<and>
      color (current w') = color agency_config \<and>
      materialRef w' = Some mat' \<and> mat_color mat' = color agency_config"
    by blast
  from a b c d e f g h 6 s i j 5 show ?thesis by (intro conjI) assumption+
qed

text \<open>
  As stated for every field, C8 fails for the colour: switching from \<open>hero\<close> to \<open>agency\<close>,
  one frame of 1/60 s (rate fraction 0.0417) already shows the full agency colour in the
  current vector, while distortion has moved from 0.4 to 0.4458. And without the rounding
  slack the bound fails for the numeric fields: switching from \<open>hero\<close> to \<open>work\<close>, that
  frame moves the scale from 3.5 by more than \<open>2.5 * dt * |4.5 - 3.5|\<close>.
\<close>

theorem C8_retarget_counterexample:
  "color (current (attach new_Object3D new_material VeroLens_mount)) = Some ''#ffffff'' \<and>
   distortion (current (attach new_Object3D new_material VeroLens_mount))
     = Fin (3602879701896397 / 9007199254740992) \<and>
   fields_of (heap (attach new_Object3D new_material VeroLens_mount)) (target ''agency'')
     = Inr agency_config \<and>
   color agency_config = Some ''#C67C4E'' \<and> distortion agency_config = Fin (3/2) \<and>
   lerpFactor sixtieth = Fin (6004799503160661 / 144115188075855872) \<and>
   (\<exists>w'. useFrame_VeroLens ''agency'' initial_mouse 10 sixtieth
          (attach new_Object3D new_material VeroLens_mount) = Inr w' \<and>
     color (current w') = Some ''#C67C4E'' \<and>
     distortion (current w') = Fin (8031419335477385 / 18014398509481984)) \<and>
   scale (current (attach new_Object3D new_material VeroLens_mount)) = Fin (7/2) \<and>
   fields_of (heap (attach new_Object3D new_material VeroLens_mount)) (target ''work'')
     = Inr work_config \<and>
   scale work_config = Fin (9/2) \<and>
   (\<exists>w'. useFrame_VeroLens ''work'' initial_mouse 10 sixtieth
          (attach new_Object3D new_material VeroLens_mount) = Inr w' \<and>
     scale (current w') = Fin (3987562170067627 / 1125899906842624)) \<and>
   5/2 * sixtieth * \<bar>9/2 - 7/2 :: real\<bar> < \<bar>3987562170067627 / 1125899906842624 - 7/2\<bar>"
proof -
  from frame_step [OF attach_mount_intact attach_mount(1,2) section_addresses(3)]
  obtain w1 where
    w1: "useFrame_VeroLens ''agency'' initial_mouse 10 sixtieth
           (attach new_Object3D new_material VeroLens_mount) = Inr w1" and
    c1: "color (current w1) = color (SECTION_CONFIGS_objects 2)" and
    n1: "numeric Distortion (current w1) =
           lerp (numeric Distortion (current (attach new_Object3D new_material VeroLens_mount)))
             (numeric Distortion (SECTION_CONFIGS_objects 2)) (lerpFactor sixtieth)"
    by blast
  have "color (current w1) = Some ''#C67C4E''"
    "distortion (current w1) = Fin (8031419335477385 / 18014398509481984)"
    using c1 n1
    by (simp_all add: attach_mount section_addresses config_values lerp_hero_agency_distortion)
  with w1 have fr1: "\<exists>w'. useFrame_VeroLens ''agency'' initial_mouse 10 sixtieth
          (attach new_Object3D new_material VeroLens_mount) = Inr w' \<and>
     color (current w') = Some ''#C67C4E'' \<and>
     distortion (current w') = Fin (8031419335477385 / 18014398509481984)"
    by blast
  from scale_frame [OF attach_mount_intact attach_mount(1,2) section_addresses(2) _ _
      lerp_hero_work_scale, of new_Object3D new_material initial_mouse 10]
  have fr2: "\<exists>w'. useFrame_VeroLens ''work'' initial_mouse 10 sixtieth
          (attach new_Object3D new_material VeroLens_mount) = Inr w' \<and>
     scale (current w') = Fin (3987562170067627 / 1125899906842624)"
    by (simp add: attach_mount section_addresses config_values) blast
  have lf: "lerpFactor sixtieth = Fin (6004799503160661 / 144115188075855872)"
    unfolding lerpFactor_fl sixtieth_def
    by (rule fl_eval [where e = "- 5" and k = "6004799503160661"]) (simp_all add: pow2_def)
  have n: "5/2 * sixtieth * \<bar>9/2 - 7/2 :: real\<bar> < \<bar>3987562170067627 / 1125899906842624 - 7/2\<bar>"
    by (simp add: sixtieth_def)
  show ?thesis
    using fr1 fr2 lf n by (simp add: attach_mount section_targets config_values)
qed

section \<open>Convergence of the lens animator\<close>

text \<open>
  Claim C2. Let \<open>S\<close> be a section of the configuration mapping, and let the animator be in a
  state in which both refs are attached, the section objects hold their configured values
  and the current numeric fields are finite numbers of magnitude at most \<open>B \<le> 2\<^sup>2\<^sup>9\<^sup>9\<close>. Let
  \<open>S\<close> stay active and the frame step be iterated with a fixed frame time \<open>0 < dt < 0.8\<close>
  whose rounding floor \<open>F = tolerance_floor dt (B + 11)\<close> is at most 1. Then for every
  tolerance \<open>eps > F\<close> there is a number of frames \<open>N\<close> after which every numeric field of
  the current parameter vector is within \<open>eps\<close> of the value configured for \<open>S\<close>, whatever
  the pointer and the viewport do in the meantime. (The iterates stay within \<open>B + 11\<close>, and
  the floor is the rounding slack of one step at that magnitude, divided by
  \<open>1 - |1 - 2.5 * dt|\<close>.)
\<close>

theorem C2_converges:
  assumes "SECTION_CONFIGS sec = Some a"
    and "sections_intact w" and "mesh w = Some m" and "materialRef w = Some mat"
    and "config_within B (current w)" and "B \<le> 2 ^ 299"
    and "0 < dt" and "dt < 4/5"
    and "tolerance_floor dt (B + 11) \<le> 1" and "tolerance_floor dt (B + 11) < eps"
  shows "\<exists>N. \<forall>frames. N \<le> length frames \<longrightarrow>
           (\<exists>w'. run_frames sec dt frames w = Inr w' \<and>
              (\<forall>f. \<exists>v tv. numeric f (current w') = Fin v \<and>
                  numeric f (SECTION_CONFIGS_objects a) = Fin tv \<and> \<bar>v - tv\<bar> < eps))"
proof -
  define T where "T = tolerance_floor dt (B + 11)"
  define k where "k = \<bar>1 - 5/2 * dt\<bar>"
  have k: "\<bar>k\<bar> < 1" using assms(7,8) by (simp add: k_def abs_less_iff)
  from numeric_within [OF assms(5), of Scale] have B0: "0 \<le> B" by auto
  have B5: "0 \<le> B + 5" "B + 5 \<le> B + 5" using B0 by simp_all
  have T0: "0 \<le> T"
  proof -
    have "0 \<le> rounding_slack dt (B + 11)" using B0 by (intro rounding_slack_nonneg) simp
    moreover have "0 < 1 - \<bar>1 - 5/2 * dt\<bar>" using assms(7,8) by (simp add: abs_less_iff)
    ultimately show ?thesis by (simp add: T_def tolerance_floor_def)
  qed
  have start: "\<forall>f. \<exists>c tv. numeric f (current w) = Fin c \<and>
            numeric f (SECTION_CONFIGS_objects a) = Fin tv \<and>
            \<bar>c - tv\<bar> \<le> (B + 5) + tolerance_floor dt (B + 11)"
  proof
    fix f
    from numeric_within [OF assms(5), of f] obtain c where
      c: "numeric f (current w) = Fin c" "\<bar>c\<bar> \<le> B"
      by blast
    from numeric_within [OF sections_within [OF assms(1)], of f] obtain tv where
      tv: "numeric f (SECTION_CONFIGS_objects a) = Fin tv" "\<bar>tv\<bar> \<le> 5"
      by blast
    have "\<bar>c - tv\<bar> \<le> (B + 5) + T" using c(2) tv(2) T0 by linarith
    with c(1) tv(1) show "\<exists>c tv. numeric f (current w) = Fin c \<and>
            numeric f (SECTION_CONFIGS_objects a) = Fin tv \<and>
            \<bar>c - tv\<bar> \<le> (B + 5) + tolerance_floor dt (B + 11)"
      unfolding T_def by blast
  qed
  have "0 < eps - T" using assms(10) by (simp add: T_def)
  from geometric_small [OF k B5(1) this] obtain N where
    N: "\<forall>n\<ge>N. \<bar>k ^ n\<bar> * (B + 5) < eps - T"
    by blast
  have "\<exists>w'. run_frames sec dt frames w = Inr w' \<and>
       (\<forall>f. \<exists>v tv. numeric f (current w') = Fin v \<and>
           numeric f (SECTION_CONFIGS_objects a) = Fin tv \<and> \<bar>v - tv\<bar> < eps)"
    if len: "N \<le> length frames" for frames
  proof -
    from run_frames_contracts [OF assms(1,7,8) B0 assms(6,9,2,3,4) B5 start, of frames]
    obtain w' where
      w': "run_frames sec dt frames w = Inr w'" and
      v: "\<forall>f. \<exists>v tv. numeric f (current w') = Fin v \<and>
              numeric f (SECTION_CONFIGS_objects a) = Fin tv \<and>
              \<bar>v - tv\<bar> \<le> k ^ length frames * (B + 5) + T"
      unfolding k_def T_def by blast
    have "k ^ length frames * (B + 5) + T < eps"
    proof -
      have "0 \<le> k" by (simp add: k_def)
      then have "\<bar>k ^ length frames\<bar> = k ^ length frames" by simp
      with N len have "k ^ length frames * (B + 5) < eps - T" by metis
      then show ?thesis by simp
    qed
    with v have "\<forall>f. \<exists>v tv. numeric f (current w') = Fin v \<and>
              numeric f (SECTION_CONFIGS_objects a) = Fin tv \<and> \<bar>v - tv\<bar> < eps"
      by (meson le_less_trans)
    with w' show ?thesis by blast
  qed
  then show ?thesis by blast
qed

theorem C2_converges_witness:
  "SECTION_CONFIGS ''work'' = Some 1 \<and>
   sections_intact (attach new_Object3D new_material VeroLens_mount) \<and>
   mesh (attach new_Object3D new_material VeroLens_mount) = Some new_Object3D \<and>
   materialRef (attach new_Object3D new_material VeroLens_mount) = Some new_material \<and>
   config_within 5 (current (attach new_Object3D new_material VeroLens_mount)) \<and>
   (5::real) \<le> 2 ^ 299 \<and> 0 < sixtieth \<and> sixtieth < 4/5 \<and>
   tolerance_floor sixtieth (5 + 11) \<le> 1 \<and> tolerance_floor sixtieth (5 + 11) < 1 / 10 ^ 12 \<and>
   (\<exists>N. \<forall>frames. N \<le> length frames \<longrightarrow>
      (\<exists>w'. run_frames ''work'' sixtieth frames
               (attach new_Object3D new_material VeroLens_mount) = Inr w' \<and>
         (\<forall>f. \<exists>v tv. numeric f (current w') = Fin v \<and>
             numeric f (SECTION_CONFIGS_objects 1) = Fin tv \<and> \<bar>v - tv\<bar> < 1 / 10 ^ 12)))"
proof -
  have a: "SECTION_CONFIGS ''work'' = Some 1"
    and b: "sections_intact (attach new_Object3D new_material VeroLens_mount)"
    and c: "mesh (attach new_Object3D new_material VeroLens_mount) = Some new_Object3D"
    and d: "materialRef (attach new_Object3D new_material VeroLens_mount) = Some new_material"
    and e: "config_within 5 (current (attach new_Object3D new_material VeroLens_mount))"
    and f: "(5::real) \<le> 2 ^ 299" and g: "0 < sixtieth" and h: "sixtieth < 4/5"
    by (simp_all add: attach_mount attach_mount_intact section_addresses
        section_configs_within sixtieth_def)
  have i: "tolerance_floor sixtieth (5 + 11) \<le> 1"
    and j: "tolerance_floor sixtieth (5 + 11) < 1 / 10 ^ 12"
    by (simp_all add: tolerance_floor_def rounding_slack_def unit_roundoff_def tiny_def
        pow2_def sixtieth_def)
  from C2_converges [OF a b c d e f g h i j] a b c d e f g h i j show ?thesis
    by (intro conjI) assumption+
qed

text \<open>
  As stated, C2 fails in two ways. The frame time is not clamped: with \<open>dt = 0.8\<close> the
  factor is 2, each frame reflects the value about the target, and from the hero state the
  scale stays at distance 1 from the 4.5 of \<open>work\<close> for ever. And a tolerance below the
  rounding floor is never met: with the section \<open>hero\<close> and frames of 1/60 s the scale
  leaves its target 3.5 and stays at 3.5000000000000018, at distance \<open>2\<^sup>-\<^sup>4\<^sup>9\<close>.
\<close>

theorem C2_counterexample:
  "\<not> (\<forall>eps>0. \<exists>N. \<forall>frames. N \<le> length frames \<longrightarrow>
        (\<exists>w'. run_frames ''work'' four_fifths frames
                 (attach new_Object3D new_material VeroLens_mount) = Inr w' \<and>
           (\<forall>f. \<exists>v tv. numeric f (current w') = Fin v \<and>
               numeric f (SECTION_CONFIGS_objects 1) = Fin tv \<and> \<bar>v - tv\<bar> < eps))) \<and>
   \<not> (\<forall>eps>0. \<exists>N. \<forall>frames. N \<le> length frames \<longrightarrow>
        (\<exists>w'. run_frames ''hero'' sixtieth frames
                 (attach new_Object3D new_material VeroLens_mount) = Inr w' \<and>
           (\<forall>f. \<exists>v tv. numeric f (current w') = Fin v \<and>
               numeric f (SECTION_CONFIGS_objects 0) = Fin tv \<and> \<bar>v - tv\<bar> < eps)))"
proof (intro conjI notI)
  assume conv: "\<forall>eps>0. \<exists>N. \<forall>frames. N \<le> length frames \<longrightarrow>
        (\<exists>w'. run_frames ''work'' four_fifths frames
                 (attach new_Object3D new_material VeroLens_mount) = Inr w' \<and>
           (\<forall>f. \<exists>v tv. numeric f (current w') = Fin v \<and>
               numeric f (SECTION_CONFIGS_objects 1) = Fin tv \<and> \<bar>v - tv\<bar> < eps))"
  have "(0::real) < 1" by simp
  with conv obtain N where N: "\<forall>frames. N \<le> length frames \<longrightarrow>
        (\<exists>w'. run_frames ''work'' four_fifths frames
                 (attach new_Object3D new_material VeroLens_mount) = Inr w' \<and>
           (\<forall>f. \<exists>v tv. numeric f (current w') = Fin v \<and>
               numeric f (SECTION_CONFIGS_objects 1) = Fin tv \<and> \<bar>v - tv\<bar> < 1))"
    by blast
  define frames where "frames = replicate N (initial_mouse, 10::real)"
  have "N \<le> length frames" by (simp add: frames_def)
  with N obtain w' v tv where
    run: "run_frames ''work'' four_fifths frames
            (attach new_Object3D new_material VeroLens_mount) = Inr w'" and
    v: "numeric Scale (current w') = Fin v" and
    tv: "numeric Scale (SECTION_CONFIGS_objects 1) = Fin tv" and
    close: "\<bar>v - tv\<bar> < 1"
    by blast
  from reflect_forever [of frames] run have
    "scale (current w') = Fin (7/2) \<or> scale (current w') = Fin (11/2)"
    by simp
  with v have "v = 7/2 \<or> v = 11/2" by auto
  moreover have "tv = 9/2" using tv by (simp add: section_addresses config_values)
  ultimately show False using close by auto
next
  assume conv: "\<forall>eps>0. \<exists>N. \<forall>frames. N \<le> length frames \<longrightarrow>
        (\<exists>w'. run_frames ''hero'' sixtieth frames
                 (attach new_Object3D new_material VeroLens_mount) = Inr w' \<and>
           (\<forall>f. \<exists>v tv. numeric f (current w') = Fin v \<and>
               numeric f (SECTION_CONFIGS_objects 0) = Fin tv \<and> \<bar>v - tv\<bar> < eps))"
  have "(0::real) < 1 / 10 ^ 15" by simp
  with conv obtain N where N: "\<forall>frames. N \<le> length frames \<longrightarrow>
        (\<exists>w'. run_frames ''hero'' sixtieth frames
                 (attach new_Object3D new_material VeroLens_mount) = Inr w' \<and>
           (\<forall>f. \<exists>v tv. numeric f (current w') = Fin v \<and>
               numeric f (SECTION_CONFIGS_objects 0) = Fin tv \<and> \<bar>v - tv\<bar> < 1 / 10 ^ 15))"
    by blast
  define p where "p = (initial_mouse, 10::real)"
  define frames where "frames = p # p # p # p # replicate N p"
  have "N \<le> length frames" by (simp add: frames_def)
  with N obtain w' v tv where
    run: "run_frames ''hero'' sixtieth frames
            (attach new_Object3D new_material VeroLens_mount) = Inr w'" and
    v: "numeric Scale (current w') = Fin v" and
    tv: "numeric Scale (SECTION_CONFIGS_objects 0) = Fin tv" and
    close: "\<bar>v - tv\<bar> < 1 / 10 ^ 15"
    by blast
  from drift_forever [of p p p p "replicate N p"] run have
    "scale (current w') = Fin (1970324836974593 / 562949953421312)"
    by (simp add: frames_def)
  with v have "v = 1970324836974593 / 562949953421312" by simp
  moreover have "tv = 7/2" using tv by (simp add: section_addresses config_values)
  ultimately show False using close by simp
qed

section \<open>The configuration mapping is read-only\<close>

text \<open>
  Claim C9. The section-to-configuration mapping of the lens variant is never modified at
  run time. In every state that mounting, attaching and detaching the refs and running
  frames (for any section identifier, pointer, viewport width and frame time) can reach,
  each section's configuration object holds the values of the \<^verbatim>\<open>SECTION_CONFIGS\<close> literal
  and is a different object from the current parameter vector; and a frame step writes no
  object of the store but the current parameter vector (the other writes go to the mesh and
  the material). The mount copies the hero object (\<^verbatim>\<open>{ ...SECTION_CONFIGS.hero }\<close>), which is
  why the writes of the frame step never reach it.
\<close>

theorem C9_configs_read_only:
  assumes "reachable w"
  shows "(\<forall>k a. SECTION_CONFIGS k = Some a \<longrightarrow>
            heap w a = SECTION_CONFIGS_objects a \<and> a \<noteq> currentConfig w) \<and>
         (\<forall>sec ms vw dt w'. useFrame_VeroLens sec ms vw dt w = Inr w' \<longrightarrow>
            currentConfig w' = currentConfig w \<and>
            (\<forall>a. a \<noteq> currentConfig w \<longrightarrow> heap w' a = heap w a) \<and>
            (\<forall>k a. SECTION_CONFIGS k = Some a \<longrightarrow> heap w' a = SECTION_CONFIGS_objects a))"
proof -
  have i: "sections_intact w" using assms by (rule reachable_intact)
  have 1: "heap w a = SECTION_CONFIGS_objects a \<and> a \<noteq> currentConfig w"
    if "SECTION_CONFIGS k = Some a" for k a
    using sections_intact_heap [OF i that] by simp
  have 2: "currentConfig w' = currentConfig w \<and>
      (\<forall>a. a \<noteq> currentConfig w \<longrightarrow> heap w' a = heap w a) \<and>
      (\<forall>k a. SECTION_CONFIGS k = Some a \<longrightarrow> heap w' a = SECTION_CONFIGS_objects a)"
    if fr: "useFrame_VeroLens sec ms vw dt w = Inr w'" for sec ms vw dt w'
  proof -
    have "sections_intact w'" using i fr by (rule useFrame_intact)
    then have "\<forall>k a. SECTION_CONFIGS k = Some a \<longrightarrow> heap w' a = SECTION_CONFIGS_objects a"
      using sections_intact_heap(1) by blast
    with useFrame_heap [OF fr] show ?thesis by simp
  qed
  from 1 2 show ?thesis by blast
qed

theorem C9_configs_read_only_witness:
  "reachable (attach new_Object3D new_material VeroLens_mount) \<and>
   heap (attach new_Object3D new_material VeroLens_mount) 2 = agency_config \<and>
   currentConfig (attach new_Object3D new_material VeroLens_mount) \<noteq> 2 \<and>
   (\<exists>w'. useFrame_VeroLens ''agency'' initial_mouse 10 sixtieth
            (attach new_Object3D new_material VeroLens_mount) = Inr w' \<and>
      heap w' 0 = hero_config \<and> heap w' 2 = agency_config \<and>
      distortion (current w') = Fin (8031419335477385 / 18014398509481984))"
proof -
  define W where "W = attach new_Object3D new_material VeroLens_mount"
  have r: "reachable W" unfolding W_def by (intro reachable.attached reachable.mounted)
  have k: "SECTION_CONFIGS ''agency'' = Some 2" "SECTION_CONFIGS ''hero'' = Some 0"
    by (simp_all add: SECTION_CONFIGS_def)
  have o: "SECTION_CONFIGS_objects 2 = agency_config" "SECTION_CONFIGS_objects 0 = hero_config"
    by (simp_all add: SECTION_CONFIGS_objects_def)
  from frame_step [OF attach_mount_intact attach_mount(1,2) section_addresses(3)]
  obtain w' where
    fr: "useFrame_VeroLens ''agency'' initial_mouse 10 sixtieth W = Inr w'" and
    nf: "numeric Distortion (current w') =
           lerp (numeric Distortion (current W)) (numeric Distortion (SECTION_CONFIGS_objects 2))
             (lerpFactor sixtieth)"
    unfolding W_def by blast
  have d: "distortion (current w') = Fin (8031419335477385 / 18014398509481984)"
    using nf unfolding W_def
    by (simp add: attach_mount section_addresses config_values lerp_hero_agency_distortion)
  from C9_configs_read_only [OF r] k o fr have
    "heap W 2 = agency_config" "currentConfig W \<noteq> 2"
    "heap w' 0 = hero_config" "heap w' 2 = agency_config"
    by metis+
  with r fr d show ?thesis unfolding W_def by blast
qed

section \<open>Unknown section identifiers\<close>

text \<open>
  For an identifier that is neither one of the four configured names nor the name of a
  property that a plain object inherits from \<^verbatim>\<open>Object.prototype\<close>, the animator's lookup
  falls back to the hero configuration, and the frame is the frame of \<open>hero\<close>. The shape
  morpher falls back to the knot for every identifier that is not one of the four names.
  No lookup throws: for every string the target is an object and the frame callback returns.
\<close>

lemma fallback_to_hero:
  assumes "sec \<notin> {''hero'', ''work'', ''agency'', ''contact''}"
  shows "sec \<notin> set Object_prototype_keys \<Longrightarrow> target sec = target ''hero''"
    and "sec \<notin> set Object_prototype_keys \<Longrightarrow>
           useFrame_VeroLens sec ms vw dt w = useFrame_VeroLens ''hero'' ms vw dt w"
    and "currentShape sec = ''knot''"
    and "useFrame_MorphingShape sec ms vw dt mw = useFrame_MorphingShape ''hero'' ms vw dt mw"
    and "\<exists>w'. useFrame_VeroLens s ms vw dt w = Inr w'"
proof -
  have none: "SECTION_CONFIGS sec = None" "SECTION_CONFIGS_morph sec = None"
    using assms by (simp_all add: SECTION_CONFIGS_def SECTION_CONFIGS_morph_def)
  have hero: "SECTION_CONFIGS ''hero'' = Some 0" by (simp add: SECTION_CONFIGS_def)
  show t: "target sec = target ''hero''" if "sec \<notin> set Object_prototype_keys"
    using that none hero by (simp add: target_cases)
  show "useFrame_VeroLens sec ms vw dt w = useFrame_VeroLens ''hero'' ms vw dt w"
    if "sec \<notin> set Object_prototype_keys"
    by (simp only: useFrame_VeroLens_def t [OF that])
  show s: "currentShape sec = ''knot''"
    using none by (simp add: currentShape_def shape_of_def)
  have s': "currentShape ''hero'' = ''knot''"
    by (simp add: currentShape_def shape_of_def SECTION_CONFIGS_morph_def)
  have ts: "targetScales sec vw = targetScales ''hero'' vw"
    by (simp only: targetScales_def s s')
  show "useFrame_MorphingShape sec ms vw dt mw = useFrame_MorphingShape ''hero'' ms vw dt mw"
    by (simp only: useFrame_MorphingShape_def ts)
  show "\<exists>w'. useFrame_VeroLens s ms vw dt w = Inr w'"
  proof (cases "mesh w = None \<or> materialRef w = None")
    case True
    then show ?thesis using useFrame_unattached by blast
  next
    case False
    then obtain m mat where a: "mesh w = Some m" "materialRef w = Some mat" by auto
    obtain tg where "fields_of (heap w) (target s) = Inr tg"
      using fields_of_target by blast
    from useFrame_attached [OF a this] show ?thesis by blast
  qed
qed


section \<open>The shape morpher\<close>

text \<open>
  Claim C4. In the shape-morphing variant the tree that \<^verbatim>\<open>MorphingShape\<close> renders holds the
  four primitives (knot, prism, capsule, orb) whatever the active section is. On every frame
  on which the group ref is attached, the scale of each attached primitive is eased, by
  \<^verbatim>\<open>Vector3.lerp\<close> with the factor \<open>4 * dt\<close>, toward 0 when it is not the active section's
  shape and toward its natural size (3, 3.5, 2.5 or 2.5, times the mobile ratio) when it is.
  For every section identifier exactly one of the four target scales is not zero.
\<close>

theorem C4_scale_morph:
  assumes "group_ref w = Some g"
  shows "mesh_refs (MorphingShape_render sec ms) = [''knot'', ''prism'', ''capsule'', ''orb''] \<and>
         (\<forall>r \<in> set [''knot'', ''prism'', ''capsule'', ''orb'']. \<forall>obj.
            primitive r w = Some obj \<longrightarrow>
            (\<exists>obj'. primitive r (useFrame_MorphingShape sec ms vw dt w) = Some obj' \<and>
               scale3 obj' =
                 vec3_lerp (scale3 obj)
                   (setScalar (if currentShape sec = r
                               then js_mul (Fin (natural_size r)) (mobileRatio vw) else Fin 0))
                   (js_mul (Fin dt) (Fin 4)))) \<and>
         length (filter (\<lambda>ts. ts \<noteq> Fin 0)
           (case targetScales sec vw of (tk, tp, tc, tor) \<Rightarrow> [tk, tp, tc, tor])) = 1"
proof -
  have tree: "mesh_refs (MorphingShape_render sec ms) = [''knot'', ''prism'', ''capsule'', ''orb'']"
    by (simp add: MorphingShape_render_def)
  note fr = useFrame_MorphingShape_attached [OF assms, of sec ms vw dt]
  have k: "\<exists>obj'. primitive ''knot'' (useFrame_MorphingShape sec ms vw dt w) = Some obj' \<and>
      scale3 obj' = vec3_lerp (scale3 obj)
        (setScalar (if currentShape sec = ''knot''
                    then js_mul (Fin (natural_size ''knot'')) (mobileRatio vw) else Fin 0))
        (js_mul (Fin dt) (Fin 4))"
    if "primitive ''knot'' w = Some obj" for obj
  proof -
    from that have "knot w = Some obj" by (simp add: primitive_def)
    with fr(1) animateScale_attached [of obj _ dt] show ?thesis
      by (simp add: primitive_def natural_size_def del: js_mul.simps)
  qed
  have p: "\<exists>obj'. primitive ''prism'' (useFrame_MorphingShape sec ms vw dt w) = Some obj' \<and>
      scale3 obj' = vec3_lerp (scale3 obj)
        (setScalar (if currentShape sec = ''prism''
                    then js_mul (Fin (natural_size ''prism'')) (mobileRatio vw) else Fin 0))
        (js_mul (Fin dt) (Fin 4))"
    if "primitive ''prism'' w = Some obj" for obj
  proof -
    from that have "prism w = Some obj" by (simp add: primitive_def)
    with fr(2) animateScale_attached [of obj _ dt] show ?thesis
      by (simp add: primitive_def natural_size_def del: js_mul.simps)
  qed
  have c: "\<exists>obj'. primitive ''capsule'' (useFrame_MorphingShape sec ms vw dt w) = Some obj' \<and>
      scale3 obj' = vec3_lerp (scale3 obj)
        (setScalar (if currentShape sec = ''capsule''
                    then js_mul (Fin (natural_size ''capsule'')) (mobileRatio vw) else Fin 0))
        (js_mul (Fin dt) (Fin 4))"
    if "primitive ''capsule'' w = Some obj" for obj
  proof -
    from that have "capsule w = Some obj" by (simp add: primitive_def)
    with fr(3) animateScale_attached [of obj _ dt] show ?thesis
      by (simp add: primitive_def natural_size_def del: js_mul.simps)
  qed
  have o: "\<exists>obj'. primitive ''orb'' (useFrame_MorphingShape sec ms vw dt w) = Some obj' \<and>
      scale3 obj' = vec3_lerp (scale3 obj)
        (setScalar (if currentShape sec = ''orb''
                    then js_mul (Fin (natural_size ''orb'')) (mobileRatio vw) else Fin 0))
        (js_mul (Fin dt) (Fin 4))"
    if "primitive ''orb'' w = Some obj" for obj
  proof -
    from that have "orb w = Some obj" by (simp add: primitive_def)
    with fr(4) animateScale_attached [of obj _ dt] show ?thesis
      by (simp add: primitive_def natural_size_def del: js_mul.simps)
  qed
  have one: "length (filter (\<lambda>ts. ts \<noteq> Fin 0)
           (case targetScales sec vw of (tk, tp, tc, tor) \<Rightarrow> [tk, tp, tc, tor])) = 1"
    using currentShape_cases [of sec] scaled_nonzero [of vw]
    by (auto simp: targetScales_def Let_def lit_eval simp del: js_mul.simps)
  from tree k p c o one show ?thesis by simp
qed

theorem C4_scale_morph_witness:
  "group_ref MorphingShape_mounted = Some (new_Object3D\<lparr>position_x := Fin 3\<rparr>) \<and>
   mesh_refs (MorphingShape_render ''work'' initial_mouse) =
     [''knot'', ''prism'', ''capsule'', ''orb''] \<and>
   primitive ''prism'' MorphingShape_mounted = Some new_Object3D \<and>
   primitive ''knot'' MorphingShape_mounted = Some new_Object3D \<and>
   (\<exists>obj'. primitive ''prism''
        (useFrame_MorphingShape ''work'' initial_mouse 10 sixtieth MorphingShape_mounted)
        = Some obj' \<and>
      scale3 obj' = Vector3 (Fin (5254199565265579 / 4503599627370496))
        (Fin (5254199565265579 / 4503599627370496))
        (Fin (5254199565265579 / 4503599627370496))) \<and>
   (\<exists>obj'. primitive ''knot''
        (useFrame_MorphingShape ''work'' initial_mouse 10 sixtieth MorphingShape_mounted)
        = Some obj' \<and>
      scale3 obj' = Vector3 (Fin (4203359652212463 / 4503599627370496))
        (Fin (4203359652212463 / 4503599627370496))
        (Fin (4203359652212463 / 4503599627370496))) \<and>
   targetScales ''work'' 10 = (Fin 0, Fin (7/2), Fin 0, Fin 0)"
proof -
  have g: "group_ref MorphingShape_mounted = Some (new_Object3D\<lparr>position_x := Fin 3\<rparr>)"
    by (simp add: MorphingShape_mounted_def)
  have pp: "primitive ''prism'' MorphingShape_mounted = Some new_Object3D"
    and pk: "primitive ''knot'' MorphingShape_mounted = Some new_Object3D"
    by (simp_all add: primitive_def MorphingShape_mounted_def)
  have cs: "currentShape ''work'' = ''prism''"
    by (simp add: currentShape_def shape_of_def SECTION_CONFIGS_morph_def)
  have mr: "mobileRatio 10 = Fin 1" by (simp add: mobileRatio_def)
  have ts: "targetScales ''work'' 10 = (Fin 0, Fin (7/2), Fin 0, Fin 0)"
    by (simp add: targetScales_def cs mr Let_def lit_eval desktop_prism del: js_mul.simps)
  have v1: "vec3_lerp (scale3 new_Object3D)
      (setScalar (if currentShape ''work'' = ''prism''
                  then js_mul (Fin (natural_size ''prism'')) (mobileRatio 10) else Fin 0))
      (js_mul (Fin sixtieth) (Fin 4)) =
      Vector3 (Fin (5254199565265579 / 4503599627370496))
        (Fin (5254199565265579 / 4503599627370496))
        (Fin (5254199565265579 / 4503599627370496))"
    by (simp add: cs mr natural_size_def desktop_prism new_Object3D_def setScalar_def
        scale_step_prism del: js_mul.simps js_add.simps js_sub.simps)
  have v2: "vec3_lerp (scale3 new_Object3D)
      (setScalar (if currentShape ''work'' = ''knot''
                  then js_mul (Fin (natural_size ''knot'')) (mobileRatio 10) else Fin 0))
      (js_mul (Fin sixtieth) (Fin 4)) =
      Vector3 (Fin (4203359652212463 / 4503599627370496))
        (Fin (4203359652212463 / 4503599627370496))
        (Fin (4203359652212463 / 4503599627370496))"
    by (simp add: cs new_Object3D_def setScalar_def
        scale_step_knot_out del: js_mul.simps js_add.simps js_sub.simps)
  from C4_scale_morph [OF g, of "''work''" initial_mouse 10 sixtieth] have
    tree: "mesh_refs (MorphingShape_render ''work'' initial_mouse) =
       [''knot'', ''prism'', ''capsule'', ''orb'']" and
    all: "\<forall>r \<in> set [''knot'', ''prism'', ''capsule'', ''orb'']. \<forall>obj.
            primitive r MorphingShape_mounted = Some obj \<longrightarrow>
            (\<exists>obj'. primitive r
                 (useFrame_MorphingShape ''work'' initial_mouse 10 sixtieth MorphingShape_mounted)
                 = Some obj' \<and>
               scale3 obj' =
                 vec3_lerp (scale3 obj)
                   (setScalar (if currentShape ''work'' = r
                               then js_mul (Fin (natural_size r)) (mobileRatio 10) else Fin 0))
                   (js_mul (Fin sixtieth) (Fin 4)))"
    by blast+
  have "''prism'' \<in> set [''knot'', ''prism'', ''capsule'', ''orb'']"
    "''knot'' \<in> set [''knot'', ''prism'', ''capsule'', ''orb'']"
    by simp_all
  with all pp pk have
    "\<exists>obj'. primitive ''prism''
        (useFrame_MorphingShape ''work'' initial_mouse 10 sixtieth MorphingShape_mounted)
        = Some obj' \<and>
      scale3 obj' = vec3_lerp (scale3 new_Object3D)
        (setScalar (if currentShape ''work'' = ''prism''
                    then js_mul (Fin (natural_size ''prism'')) (mobileRatio 10) else Fin 0))
        (js_mul (Fin sixtieth) (Fin 4))"
    "\<exists>obj'. primitive ''knot''
        (useFrame_MorphingShape ''work'' initial_mouse 10 sixtieth MorphingShape_mounted)
        = Some obj' \<and>
      scale3 obj' = vec3_lerp (scale3 new_Object3D)
        (setScalar (if currentShape ''work'' = ''knot''
                    then js_mul (Fin (natural_size ''knot'')) (mobileRatio 10) else Fin 0))
        (js_mul (Fin sixtieth) (Fin 4))"
    by blast+
  then show ?thesis unfolding v1 v2 using g tree pp pk ts by blast
qed

text \<open>
  As stated for every frame, C4 fails: the callback returns at once while the group ref is
  null, and then a knot with scale 1 keeps it through a frame of the hero section with
  \<open>dt = 0.1\<close>, where the easing step gives 1.8.
\<close>

theorem C4_unattached_group_counterexample:
  "useFrame_MorphingShape ''hero'' initial_mouse 10 tenth
     (MorphingShape_mounted\<lparr>group_ref := None\<rparr>) = MorphingShape_mounted\<lparr>group_ref := None\<rparr> \<and>
   primitive ''knot'' (MorphingShape_mounted\<lparr>group_ref := None\<rparr>) = Some new_Object3D \<and>
   scale3 new_Object3D = Vector3 (Fin 1) (Fin 1) (Fin 1) \<and>
   currentShape ''hero'' = ''knot'' \<and>
   vec3_lerp (scale3 new_Object3D)
     (setScalar (js_mul (Fin (natural_size ''knot'')) (mobileRatio 10)))
     (js_mul (Fin tenth) (Fin 4)) =
     Vector3 (Fin (8106479329266893 / 4503599627370496))
       (Fin (8106479329266893 / 4503599627370496))
       (Fin (8106479329266893 / 4503599627370496))"
proof -
  have "useFrame_MorphingShape ''hero'' initial_mouse 10 tenth
     (MorphingShape_mounted\<lparr>group_ref := None\<rparr>) = MorphingShape_mounted\<lparr>group_ref := None\<rparr>"
    by (simp add: useFrame_MorphingShape_def)
  moreover have "primitive ''knot'' (MorphingShape_mounted\<lparr>group_ref := None\<rparr>)
      = Some new_Object3D"
    by (simp add: primitive_def MorphingShape_mounted_def)
  moreover have "currentShape ''hero'' = ''knot''"
    by (simp add: currentShape_def shape_of_def SECTION_CONFIGS_morph_def)
  moreover have "vec3_lerp (scale3 new_Object3D)
     (setScalar (js_mul (Fin (natural_size ''knot'')) (mobileRatio 10)))
     (js_mul (Fin tenth) (Fin 4)) =
     Vector3 (Fin (8106479329266893 / 4503599627370496))
       (Fin (8106479329266893 / 4503599627370496))
       (Fin (8106479329266893 / 4503599627370496))"
    by (simp add: natural_size_def mobileRatio_def desktop_knot new_Object3D_def setScalar_def
        scale_step_knot_in del: js_mul.simps js_add.simps js_sub.simps)
  ultimately show ?thesis by (simp add: new_Object3D_def)
qed

section \<open>The pointer\<close>

text \<open>
  Claim C5. For every mouse-move event whose client coordinates lie inside the window,
  \<open>0 \<le> clientX \<le> innerWidth\<close> and \<open>0 \<le> clientY \<le> innerHeight\<close> with positive window
  dimensions, the stored pointer coordinates
  \<open>x = (clientX / innerWidth) * 2 - 1\<close> and \<open>y = -(clientY / innerHeight) * 2 + 1\<close> are
  numbers in the range \<open>[-1, 1]\<close>.
\<close>

theorem C5_pointer_normalized:
  assumes "0 < innerWidth win" and "0 < innerHeight win"
    and "0 \<le> clientX e" and "clientX e \<le> innerWidth win"
    and "0 \<le> clientY e" and "clientY e \<le> innerHeight win"
  shows "\<exists>px py. updateMouse win e = \<lparr>mouse_x = Fin px, mouse_y = Fin py\<rparr> \<and>
           - 1 \<le> px \<and> px \<le> 1 \<and> - 1 \<le> py \<and> py \<le> 1"
proof -
  have p0: "pow2 0 = 1" and p1: "pow2 1 = 2" by (simp_all add: pow2_def)
  have unit: "\<exists>a. js_div c d = Fin a \<and> 0 \<le> a \<and> a \<le> 1"
    if "0 < d" "0 \<le> c" "c \<le> d" for c d :: real
  proof -
    have r: "0 \<le> c / d" "c / d \<le> 1" using that by simp_all
    then have "\<bar>c / d\<bar> \<le> pow2 0" by (simp add: p0)
    from fl_le_pow2 [OF this] r(1) obtain a where "fl (c / d) = Fin a" "\<bar>a\<bar> \<le> 1" "0 \<le> a"
      by (auto simp: p0)
    with that(1) show ?thesis by (auto simp: js_div_def)
  qed
  from unit [OF assms(1,3,4)] obtain a where
    a: "js_div (clientX e) (innerWidth win) = Fin a" "0 \<le> a" "a \<le> 1"
    by blast
  from unit [OF assms(2,5,6)] obtain b where
    b: "js_div (clientY e) (innerHeight win) = Fin b" "0 \<le> b" "b \<le> 1"
    by blast
  \<comment> \<open>the horizontal coordinate\<close>
  have "\<bar>a * 2\<bar> \<le> pow2 1" using a(2,3) by (simp add: p1)
  from fl_le_pow2 [OF this] a(2) obtain a2 where
    a2: "fl (a * 2) = Fin a2" "\<bar>a2\<bar> \<le> 2" "0 \<le> a2"
    by (auto simp: p1)
  have "\<bar>a2 - 1\<bar> \<le> pow2 0" using a2(2,3) by (simp add: p0)
  from fl_le_pow2 [OF this] obtain px where
    px: "fl (a2 - 1) = Fin px" "\<bar>px\<bar> \<le> 1"
    by (auto simp: p0)
  \<comment> \<open>the vertical coordinate\<close>
  have "\<bar>- (b * 2)\<bar> \<le> pow2 1" using b(2,3) by (simp add: p1)
  moreover have "- (b * 2) \<le> 0" using b(2) by simp
  ultimately obtain b2 where
    b2: "fl (- (b * 2)) = Fin b2" "\<bar>b2\<bar> \<le> 2" "b2 \<le> 0"
    using fl_le_pow2 [of "- (b * 2)" 1] by (auto simp: p1)
  have "\<bar>b2 + 1\<bar> \<le> pow2 0" using b2(2,3) by (simp add: p0)
  from fl_le_pow2 [OF this] obtain py where
    py: "fl (b2 + 1) = Fin py" "\<bar>py\<bar> \<le> 1"
    by (auto simp: p0)
  have "updateMouse win e = \<lparr>mouse_x = Fin px, mouse_y = Fin py\<rparr>"
    by (simp add: updateMouse_def a(1) b(1) a2(1) px(1) b2(1) py(1))
  moreover have "- 1 \<le> px" "px \<le> 1" "- 1 \<le> py" "py \<le> 1" using px(2) py(2) by simp_all
  ultimately show ?thesis by blast
qed

theorem C5_pointer_normalized_witness:
  "(0::real) < innerWidth \<lparr>innerWidth = 1000, innerHeight = 800\<rparr> \<and>
   (0::real) < innerHeight \<lparr>innerWidth = 1000, innerHeight = 800\<rparr> \<and>
   0 \<le> clientX \<lparr>clientX = 250, clientY = 600\<rparr> \<and>
   clientX \<lparr>clientX = 250, clientY = 600\<rparr> \<le> innerWidth \<lparr>innerWidth = 1000, innerHeight = 800\<rparr> \<and>
   0 \<le> clientY \<lparr>clientX = 250, clientY = 600\<rparr> \<and>
   clientY \<lparr>clientX = 250, clientY = 600\<rparr> \<le> innerHeight \<lparr>innerWidth = 1000, innerHeight = 800\<rparr> \<and>
   (\<exists>px py. updateMouse \<lparr>innerWidth = 1000, innerHeight = 800\<rparr> \<lparr>clientX = 250, clientY = 600\<rparr>
        = \<lparr>mouse_x = Fin px, mouse_y = Fin py\<rparr> \<and>
      - 1 \<le> px \<and> px \<le> 1 \<and> - 1 \<le> py \<and> py \<le> 1)"
proof -
  have a: "(0::real) < innerWidth \<lparr>innerWidth = 1000, innerHeight = 800\<rparr>"
    and b: "(0::real) < innerHeight \<lparr>innerWidth = 1000, innerHeight = 800\<rparr>"
    and c: "0 \<le> clientX \<lparr>clientX = 250, clientY = 600\<rparr>"
    and d: "clientX \<lparr>clientX = 250, clientY = 600\<rparr>
              \<le> innerWidth \<lparr>innerWidth = 1000, innerHeight = 800\<rparr>"
    and e: "0 \<le> clientY \<lparr>clientX = 250, clientY = 600\<rparr>"
    and f: "clientY \<lparr>clientX = 250, clientY = 600\<rparr>
              \<le> innerHeight \<lparr>innerWidth = 1000, innerHeight = 800\<rparr>"
    by simp_all
  from C5_pointer_normalized [OF a b c d e f] a b c d e f show ?thesis
    by (intro conjI) assumption+
qed

text \<open>
  As stated for every event, C5 fails: the coordinates are not clamped, and a pointer
  dragged to \<open>clientX = 1500\<close> past the right edge of a window 1000 wide is stored as
  \<open>x = 2\<close>; above the top edge, \<open>clientY = -200\<close> of 800 gives \<open>y = 1.5\<close>.
\<close>

theorem C5_outside_window_counterexample:
  "updateMouse \<lparr>innerWidth = 1000, innerHeight = 800\<rparr> \<lparr>clientX = 1500, clientY = - 200\<rparr>
     = \<lparr>mouse_x = Fin 2, mouse_y = Fin (3/2)\<rparr> \<and> \<not> (2::real) \<le> 1 \<and> \<not> (3/2::real) \<le> 1"
proof -
  have x1: "js_div 1500 1000 = Fin (3/2)" by (simp add: js_div_def fl_lits)
  have x2: "js_mul (Fin (3/2)) (Fin 2) = Fin 3" by (simp add: fl_lits)
  have x3: "js_sub (Fin 3) (Fin 1) = Fin 2" by (simp add: fl_lits)
  have "fl (- 200 / 800) = Fin (- (1/4))"
    by (rule fl_eval [where e = "- 2" and k = "- 4503599627370496"]) (simp_all add: pow2_def)
  then have y1: "js_div (- 200) 800 = Fin (- (1/4))" by (simp add: js_div_def)
  have y2: "js_neg (Fin (- (1/4))) = Fin (1/4)" by simp
  have y3: "js_mul (Fin (1/4)) (Fin 2) = Fin (1/2)" by (simp add: fl_lits)
  have y4: "js_add (Fin (1/2)) (Fin 1) = Fin (3/2)" by (simp add: fl_lits)
  have "updateMouse \<lparr>innerWidth = 1000, innerHeight = 800\<rparr> \<lparr>clientX = 1500, clientY = - 200\<rparr>
     = \<lparr>mouse_x = Fin 2, mouse_y = Fin (3/2)\<rparr>"
    by (simp only: updateMouse_def mouse_event.simps window.simps x1 x2 x3 y1 y2 y3 y4)
  then show ?thesis by simp
qed

section \<open>The error boundary\<close>

text \<open>
  When the thrown value has a string to show (an \<^verbatim>\<open>Error\<close> object, a string, a falsy
  value, or any value whose \<^verbatim>\<open>toString\<close> returns a string), the boundary works as
  intended: \<^verbatim>\<open>getDerivedStateFromError\<close> sets \<open>hasError\<close>, and \<^verbatim>\<open>render\<close> returns the
  fallback element, the static heading followed by that string (nothing for an empty
  one), for all children and never the children; without an error it returns the children.
\<close>

lemma fallback_with_string:
  assumes "error_child e = Inr (c :: 'c element)"
  shows "hasError (getDerivedStateFromError e)"
    and "\<exists>el. ErrorBoundary_render (getDerivedStateFromError e) (children :: 'c) = Inr el \<and>
           texts el = ''System Error'' # texts c \<and>
           ErrorBoundary_render (getDerivedStateFromError e) children' = Inr el \<and>
           el \<noteq> Children children''"
    and "\<exists>el. ErrorBoundary_render_vero (getDerivedStateFromError e) (children :: 'c) = Inr el \<and>
           texts el = ''Something went wrong.'' # texts c \<and>
           ErrorBoundary_render_vero (getDerivedStateFromError e) children' = Inr el \<and>
           el \<noteq> Children children''"
    and "ErrorBoundary_render ErrorBoundary_initial children = Inr (Children children)"
    and "ErrorBoundary_render_vero ErrorBoundary_initial children = Inr (Children children)"
  using assms
  by (simp_all add: getDerivedStateFromError_def ErrorBoundary_render_def
      ErrorBoundary_render_vero_def ErrorBoundary_initial_def)

text \<open>
  Claim C6. The claim says that for every thrown error the boundary renders the static
  fallback with the error message. The code attempts this with
  \<^verbatim>\<open>{this.state.error && this.state.error.toString()}\<close> and misses it for the truthy values
  whose \<^verbatim>\<open>toString\<close> cannot give a string: for a thrown object without a callable
  \<^verbatim>\<open>toString\<close> (\<^verbatim>\<open>throw Object.create(null)\<close>) the call in \<^verbatim>\<open>render\<close> is itself a
  \<open>TypeError\<close>, a \<^verbatim>\<open>toString\<close> that throws makes \<^verbatim>\<open>render\<close> throw, and one that returns an
  object gives React a child it refuses. In each case \<^verbatim>\<open>render\<close> of the boundary fails,
  in both files, and no fallback is shown; whereas a thrown
  \<^verbatim>\<open>new TypeError("x is undefined")\<close> is rendered as the heading and
  \<open>TypeError: x is undefined\<close>.
\<close>

theorem C6_render_throws:
  "hasError (getDerivedStateFromError (Truthy NotCallable)) \<and>
   error (getDerivedStateFromError (Truthy NotCallable)) = Truthy NotCallable \<and>
   ErrorBoundary_render (getDerivedStateFromError (Truthy NotCallable)) (children :: 'c)
     = Inl ToStringTypeError \<and>
   ErrorBoundary_render_vero (getDerivedStateFromError (Truthy NotCallable)) children
     = Inl ToStringTypeError \<and>
   ErrorBoundary_render (getDerivedStateFromError (Truthy ThrowsError)) children
     = Inl ToStringThrew \<and>
   ErrorBoundary_render_vero (getDerivedStateFromError (Truthy ThrowsError)) children
     = Inl ToStringThrew \<and>
   ErrorBoundary_render (getDerivedStateFromError (Truthy ReturnsObject)) children
     = Inl ObjectAsChild \<and>
   ErrorBoundary_render_vero (getDerivedStateFromError (Truthy ReturnsObject)) children
     = Inl ObjectAsChild \<and>
   (\<exists>el. ErrorBoundary_render
            (getDerivedStateFromError (ErrorObject ''TypeError'' ''x is undefined'')) children
          = Inr el \<and>
      texts el = [''System Error'', ''TypeError: x is undefined'']) \<and>
   (\<exists>el. ErrorBoundary_render_vero
            (getDerivedStateFromError (ErrorObject ''TypeError'' ''x is undefined'')) children
          = Inr el \<and>
      texts el = [''Something went wrong.'', ''TypeError: x is undefined'']) \<and>
   (\<exists>el. ErrorBoundary_render (getDerivedStateFromError (StringValue ''boom'')) children
          = Inr el \<and>
      texts el = [''System Error'', ''boom'']) \<and>
   (\<exists>el. ErrorBoundary_render (getDerivedStateFromError (ErrorObject [] [])) children
          = Inr el \<and>
      texts el = [''System Error''])"
  by (simp add: getDerivedStateFromError_def ErrorBoundary_render_def
      ErrorBoundary_render_vero_def Error_toString_def string_child_def)

end
